theory Spec2Isabelle
  imports Main "HOL-Library.Word"
begin

section \<open>The WAL sender (src/backend/replication/walsender.c)\<close>

text \<open>
  A shallow embedding of the WAL sender: log positions and the position macros it uses,
  the segment reader \<open>XLogRead\<close>, the framer \<open>XLogSend\<close>, slot acquisition
  \<open>InitWalSnd\<close>, the handshake dispatch of \<open>WalSndHandshake\<close> and the streaming
  loop \<open>WalSndLoop\<close>.  C's \<open>uint32\<close> is \<open>32 word\<close>, so every addition and
  subtraction wraps as it does in the program.
\<close>

subsection \<open>Log positions and build constants\<close>

type_synonym uint32 = "32 word"
type_synonym byte = "8 word"

record XLogRecPtr =
  xlogid :: uint32
  xrecoff :: uint32

text \<open>
  The build constants come from headers that are not part of the translated file
  (\<open>XLogSegSize\<close>, \<open>XLogFileSize\<close>, \<open>XLOG_BLCKSZ\<close>, \<open>MAX_SEND_SIZE\<close>); they are
  parameters of every definition below.
\<close>

record xlog_consts =
  XLogSegSize :: uint32
  XLogFileSize :: uint32
  XLOG_BLCKSZ :: uint32
  MAX_SEND_SIZE :: uint32

text \<open>
  What the build guarantees about the constants: a page is not empty, pages tile a
  segment, segments tile a logical log file, a frame holds at least one page, and
  advancing an offset below \<open>XLogFileSize\<close> by \<open>MAX_SEND_SIZE\<close> does not wrap
  around in 32 bits.
\<close>

definition consts_ok :: "xlog_consts \<Rightarrow> bool" where
  "consts_ok k \<longleftrightarrow>
     0 < XLOG_BLCKSZ k \<and>
     unat (XLOG_BLCKSZ k) dvd unat (XLogSegSize k) \<and>
     unat (XLogSegSize k) dvd unat (XLogFileSize k) \<and>
     0 < XLogFileSize k \<and>
     XLOG_BLCKSZ k \<le> MAX_SEND_SIZE k \<and>
     unat (XLogFileSize k) + unat (MAX_SEND_SIZE k) \<le> 2 ^ 32"

text \<open>A position the WAL writer can report: its offset does not exceed \<open>XLogFileSize\<close>.\<close>

definition valid_pos :: "xlog_consts \<Rightarrow> XLogRecPtr \<Rightarrow> bool" where
  "valid_pos k p \<longleftrightarrow> xrecoff p \<le> XLogFileSize k"

text \<open>
  The position macros of access/xlog_internal.h are used by this file and are not under
  src/; each is modelled from what the spec says of positions.
\<close>

text \<open>
  Modelled from the spec: the macro \<open>XLByteLT\<close> of access/xlog_internal.h.  Positions
  are ordered lexicographically on \<open>(logId, recOff)\<close>.
\<close>

definition XLByteLT :: "XLogRecPtr \<Rightarrow> XLogRecPtr \<Rightarrow> bool" where
  "XLByteLT a b \<longleftrightarrow>
     xlogid a < xlogid b \<or> (xlogid a = xlogid b \<and> xrecoff a < xrecoff b)"

text \<open>
  Modelled from the spec: the macro \<open>XLByteLE\<close> of access/xlog_internal.h, the same
  order with equality.
\<close>

definition XLByteLE :: "XLogRecPtr \<Rightarrow> XLogRecPtr \<Rightarrow> bool" where
  "XLByteLE a b \<longleftrightarrow>
     xlogid a < xlogid b \<or> (xlogid a = xlogid b \<and> xrecoff a \<le> xrecoff b)"

text \<open>
  Modelled from the spec: the macro \<open>XLByteAdvance\<close> of access/xlog_internal.h.  When
  the advanced offset reaches \<open>XLogFileSize\<close> the position moves to the next
  \<open>logId\<close>; the sum is taken in 32 bits, as the offsets are.
\<close>

definition XLByteAdvance :: "xlog_consts \<Rightarrow> XLogRecPtr \<Rightarrow> uint32 \<Rightarrow> XLogRecPtr" where
  "XLByteAdvance k recptr nbytes =
     (if xrecoff recptr + nbytes \<ge> XLogFileSize k
      then \<lparr>xlogid = xlogid recptr + 1,
            xrecoff = xrecoff recptr + nbytes - XLogFileSize k\<rparr>
      else \<lparr>xlogid = xlogid recptr, xrecoff = xrecoff recptr + nbytes\<rparr>)"

text \<open>
  Modelled from the spec: the macro \<open>XLByteToSeg\<close> of access/xlog_internal.h.  The
  segment of a position is its \<open>logId\<close> and \<open>recOff div XLogSegSize\<close>.
\<close>

definition XLByteToSeg :: "xlog_consts \<Rightarrow> XLogRecPtr \<Rightarrow> uint32 \<times> uint32" where
  "XLByteToSeg k xlrp = (xlogid xlrp, xrecoff xlrp div XLogSegSize k)"

text \<open>
  Modelled from the spec: the macro \<open>XLByteInSeg\<close> of access/xlog_internal.h: is the
  position in the given segment?
\<close>

definition XLByteInSeg :: "xlog_consts \<Rightarrow> XLogRecPtr \<Rightarrow> uint32 \<Rightarrow> uint32 \<Rightarrow> bool" where
  "XLByteInSeg k xlrp logId logSeg \<longleftrightarrow>
     xlogid xlrp = logId \<and> xrecoff xlrp div XLogSegSize k = logSeg"

subsection \<open>Shared slots, messages and the process state\<close>

datatype WalSndState =
  WALSNDSTATE_STARTUP | WALSNDSTATE_BACKUP | WALSNDSTATE_CATCHUP | WALSNDSTATE_STREAMING

text \<open>One slot of \<open>WalSndCtl->walsnds\<close>; \<open>latch_owner\<close> is the pid that owns the latch.\<close>

record WalSnd =
  pid :: int
  state :: WalSndState
  walsnd_sentPtr :: XLogRecPtr
  latch_owner :: int

record WalDataMessageHeader =
  dataStart :: XLogRecPtr
  walEnd :: XLogRecPtr
  sendTime :: int

text \<open>
  What is handed to the transport: \<open>PutMessage t body\<close> is \<open>pq_putmessage\<close> of a
  WAL data message (the marker byte, the header, the WAL bytes), \<open>PutText t str\<close> is
  \<open>pq_puttextmessage\<close>, \<open>Flush\<close> is a call of \<open>pq_flush\<close>.
\<close>

datatype wire =
  PutMessage char char WalDataMessageHeader "byte list"
| PutText char string
| CopyBothResponse
| RowDescription
| DataRow nat nat
| EndCommand string
| ReadyForQuery
| BaseBackup string bool bool
| Flush

text \<open>
  The operations on shared memory, in the order the process performs them:
  \<open>WriteSentPtr i p\<close> is a store of \<open>p\<close> into the \<open>sentPtr\<close> of slot \<open>i\<close>.
\<close>

datatype shmem_event =
  SpinLockAcquire nat | SpinLockRelease nat | OwnLatch nat | WriteSentPtr nat XLogRecPtr

datatype errcode =
  ERRCODE_CANNOT_CONNECT_NOW | ERRCODE_TOO_MANY_CONNECTIONS
| ERRCODE_PROTOCOL_VIOLATION | ERRCODE_SYNTAX_ERROR

datatype CommandDest = DestNone | DestRemote

text \<open>
  The process: the shared slot table, the index of its own slot (\<open>None\<close> is the NULL
  pointer), the static variables and signal flags of the file, what it has put on the
  wire, what it has written to the server log with \<open>COMMERROR\<close>, and the operations
  on shared memory it has done.
\<close>

record walsender =
  WalSndCtl :: "WalSnd list"
  MyWalSnd :: "nat option"
  sendFile :: int
  sendId :: uint32
  sendSeg :: uint32
  sendOff :: uint32
  sentPtr :: XLogRecPtr
  got_SIGHUP :: bool
  walsender_shutdown_requested :: bool
  walsender_ready_to_stop :: bool
  whereToSendOutput :: CommandDest
  wire_out :: "wire list"
  server_log :: "(errcode \<times> string) list"
  shmem_log :: "shmem_event list"

text \<open>
  The errors \<open>XLogRead\<close> raises, told apart by their message: "requested WAL segment
  ... has already been removed" is \<open>WAL_REMOVED\<close>; "could not open", "could not
  seek" and "could not read" are \<open>IO_ERROR\<close>.
\<close>

datatype xlog_error = WAL_REMOVED | IO_ERROR

definition ENOENT :: int where
  "ENOENT = 2"

text \<open>
  The world one call of \<open>XLogSend\<close> sees.  \<open>BasicOpenFile log seg\<close> gives the file
  descriptor (negative on failure) and \<open>errno\<close>; \<open>lseek_fails\<close> tells whether a seek
  in a segment fails; \<open>read_file log seg off\<close> is what a read at that offset delivers
  (\<open>None\<close> when it fails), of which \<open>read\<close> returns at most the bytes asked for.
\<close>

record wal_env =
  GetFlushRecPtr :: XLogRecPtr
  BasicOpenFile :: "uint32 \<Rightarrow> uint32 \<Rightarrow> int \<times> int"
  lseek_fails :: "uint32 \<Rightarrow> uint32 \<Rightarrow> uint32 \<Rightarrow> bool"
  read_file :: "uint32 \<Rightarrow> uint32 \<Rightarrow> uint32 \<Rightarrow> byte list option"
  XLogGetLastRemoved :: "uint32 \<times> uint32"
  GetCurrentTimestamp :: int
  pq_flush_fails :: bool

subsection \<open>XLogRead\<close>

text \<open>\<open>read(sendFile, buf, segbytes)\<close>: the bytes delivered, never more than \<open>segbytes\<close>.\<close>

definition sys_read :: "wal_env \<Rightarrow> walsender \<Rightarrow> nat \<Rightarrow> byte list option" where
  "sys_read env s segbytes =
     map_option (take segbytes) (read_file env (sendId s) (sendSeg s) (sendOff s))"

text \<open>Lines 675-709: switch to the segment of \<open>recptr\<close> unless it is the open one.\<close>

definition XLogRead_open ::
  "xlog_consts \<Rightarrow> wal_env \<Rightarrow> walsender \<Rightarrow> XLogRecPtr \<Rightarrow> xlog_error + walsender" where
  "XLogRead_open k env s recptr =
     (if sendFile s < 0 \<or> \<not> XLByteInSeg k recptr (sendId s) (sendSeg s) then
        (let (id, seg) = XLByteToSeg k recptr;
             (fd, errno) = BasicOpenFile env id seg;
             s1 = s\<lparr>sendId := id, sendSeg := seg, sendFile := fd\<rparr>
         in if fd < 0 then (if errno = ENOENT then Inl WAL_REMOVED else Inl IO_ERROR)
            else Inr (s1\<lparr>sendOff := 0\<rparr>))
      else Inr s)"

text \<open>Lines 711-720: seek when the file offset is not where the read starts.\<close>

definition XLogRead_seek ::
  "wal_env \<Rightarrow> walsender \<Rightarrow> uint32 \<Rightarrow> xlog_error + walsender" where
  "XLogRead_seek env s startoff =
     (if sendOff s \<noteq> startoff then
        (if lseek_fails env (sendId s) (sendSeg s) startoff then Inl IO_ERROR
         else Inr (s\<lparr>sendOff := startoff\<rparr>))
      else Inr s)"

text \<open>
  Lines 722-726: how many bytes are asked of \<open>read\<close>.  (The source keeps the number
  in an \<open>int\<close>, which holds it for every segment size below 2 GB.)
\<close>

definition segbytes_of :: "xlog_consts \<Rightarrow> uint32 \<Rightarrow> nat \<Rightarrow> nat" where
  "segbytes_of k startoff nbytes =
     (if nbytes > unat (XLogSegSize k - startoff) then unat (XLogSegSize k - startoff)
      else nbytes)"

text \<open>
  One turn of the loop body up to the read (lines 673-734): the state after it and the
  bytes read, or the error raised.
\<close>

definition XLogRead_body ::
  "xlog_consts \<Rightarrow> wal_env \<Rightarrow> walsender \<Rightarrow> XLogRecPtr \<Rightarrow> nat
     \<Rightarrow> xlog_error + (walsender \<times> byte list)" where
  "XLogRead_body k env s recptr nbytes =
     (let startoff = xrecoff recptr mod XLogSegSize k in
      case XLogRead_open k env s recptr of
        Inl e \<Rightarrow> Inl e
      | Inr s1 \<Rightarrow>
         (case XLogRead_seek env s1 startoff of
            Inl e \<Rightarrow> Inl e
          | Inr s2 \<Rightarrow>
             (case sys_read env s2 (segbytes_of k startoff nbytes) of
                None \<Rightarrow> Inl IO_ERROR
              | Some data \<Rightarrow>
                  if length data \<le> 0 then Inl IO_ERROR else Inr (s2, data))))"

text \<open>
  The loop of lines 667-742: after a read, \<open>recptr\<close> and \<open>sendOff\<close> advance by
  \<open>readbytes\<close>, \<open>nbytes\<close> shrinks by it and the bytes are in the buffer.
\<close>

function XLogRead_loop ::
  "xlog_consts \<Rightarrow> wal_env \<Rightarrow> walsender \<Rightarrow> byte list \<Rightarrow> XLogRecPtr \<Rightarrow> nat
     \<Rightarrow> xlog_error + (walsender \<times> byte list)" where
  "XLogRead_loop k env s buf recptr nbytes =
     (if nbytes > 0 then
        (case XLogRead_body k env s recptr nbytes of
           Inl e \<Rightarrow> Inl e
         | Inr (s2, data) \<Rightarrow>
             XLogRead_loop k env
               (s2\<lparr>sendOff := sendOff s2 + of_nat (length data)\<rparr>)
               (buf @ data)
               (XLByteAdvance k recptr (of_nat (length data)))
               (nbytes - length data))
      else Inr (s, buf))"
  by pat_completeness auto
termination
proof (relation "measure (\<lambda>(k, env, s, buf, recptr, nbytes). nbytes)")
  show "wf (measure (\<lambda>(k, env, s, buf, recptr, nbytes). nbytes))" by simp
next
  fix k :: xlog_consts and env :: wal_env and s :: walsender and buf :: "byte list"
    and recptr :: XLogRecPtr and nbytes :: nat and x2 x y
  assume pos: "0 < nbytes" and "XLogRead_body k env s recptr nbytes = Inr x2"
    and "(x, y) = x2"
  then have "XLogRead_body k env s recptr nbytes = Inr (x, y)" by simp
  then have "0 < length y"
    by (auto simp: XLogRead_body_def Let_def split: sum.splits option.splits if_splits)
  with pos show "((k, env, x\<lparr>sendOff := sendOff x + of_nat (length y)\<rparr>, buf @ y,
          XLByteAdvance k recptr (of_nat (length y)), nbytes - length y),
         (k, env, s, buf, recptr, nbytes))
        \<in> measure (\<lambda>(k, env, s, buf, recptr, nbytes). nbytes)"
    by simp
qed

text \<open>
  The turns the loop of lines 667-742 enters: for each, the sender's state, the position
  and the bytes still wanted at its top.  The last one is the turn that raised, if one
  did.
\<close>

function XLogRead_turns ::
  "xlog_consts \<Rightarrow> wal_env \<Rightarrow> walsender \<Rightarrow> XLogRecPtr \<Rightarrow> nat
     \<Rightarrow> (walsender \<times> XLogRecPtr \<times> nat) list" where
  "XLogRead_turns k env s recptr nbytes =
     (if nbytes > 0 then
        (s, recptr, nbytes) #
        (case XLogRead_body k env s recptr nbytes of
           Inl e \<Rightarrow> []
         | Inr (s2, data) \<Rightarrow>
             XLogRead_turns k env
               (s2\<lparr>sendOff := sendOff s2 + of_nat (length data)\<rparr>)
               (XLByteAdvance k recptr (of_nat (length data)))
               (nbytes - length data))
      else [])"
  by pat_completeness auto
termination
proof (relation "measure (\<lambda>(k, env, s, recptr, nbytes). nbytes)")
  show "wf (measure (\<lambda>(k, env, s, recptr, nbytes). nbytes))" by simp
next
  fix k :: xlog_consts and env :: wal_env and s :: walsender
    and recptr :: XLogRecPtr and nbytes :: nat and x2 x y
  assume pos: "0 < nbytes" and "XLogRead_body k env s recptr nbytes = Inr x2"
    and "(x, y) = x2"
  then have "XLogRead_body k env s recptr nbytes = Inr (x, y)" by simp
  then have "0 < length y"
    by (auto simp: XLogRead_body_def Let_def split: sum.splits option.splits if_splits)
  with pos show "((k, env, x\<lparr>sendOff := sendOff x + of_nat (length y)\<rparr>,
          XLByteAdvance k recptr (of_nat (length y)), nbytes - length y),
         (k, env, s, recptr, nbytes))
        \<in> measure (\<lambda>(k, env, s, recptr, nbytes). nbytes)"
    by simp
qed

text \<open>
  Line 675: does a turn have to open the segment of \<open>recptr\<close>?  And the outcome of
  \<open>BasicOpenFile\<close> on that segment.
\<close>

definition switches_segment :: "xlog_consts \<Rightarrow> walsender \<Rightarrow> XLogRecPtr \<Rightarrow> bool" where
  "switches_segment k s recptr \<longleftrightarrow>
     sendFile s < 0 \<or> \<not> XLByteInSeg k recptr (sendId s) (sendSeg s)"

definition open_segment :: "xlog_consts \<Rightarrow> wal_env \<Rightarrow> XLogRecPtr \<Rightarrow> int \<times> int" where
  "open_segment k env recptr =
     BasicOpenFile env (fst (XLByteToSeg k recptr)) (snd (XLByteToSeg k recptr))"

text \<open>Lines 751-763: was the segment of the start position already removed?\<close>

definition already_removed :: "xlog_consts \<Rightarrow> wal_env \<Rightarrow> XLogRecPtr \<Rightarrow> bool" where
  "already_removed k env startRecPtr =
     (let (lastRemovedLog, lastRemovedSeg) = XLogGetLastRemoved env;
          (log, seg) = XLByteToSeg k startRecPtr
      in log < lastRemovedLog \<or> (log = lastRemovedLog \<and> seg \<le> lastRemovedSeg))"

definition XLogRead ::
  "xlog_consts \<Rightarrow> wal_env \<Rightarrow> walsender \<Rightarrow> XLogRecPtr \<Rightarrow> nat
     \<Rightarrow> xlog_error + (walsender \<times> byte list)" where
  "XLogRead k env s recptr nbytes =
     (case XLogRead_loop k env s [] recptr nbytes of
        Inl e \<Rightarrow> Inl e
      | Inr (s', buf) \<Rightarrow>
          if already_removed k env recptr then Inl WAL_REMOVED else Inr (s', buf))"

subsection \<open>XLogSend\<close>

text \<open>
  Lines 816-825: the frame starts at \<open>sentPtr\<close>, or at the start of the next
  \<open>logId\<close> when \<open>sentPtr\<close> is at the end of a logical log file.
\<close>

definition XLogSend_startptr :: "xlog_consts \<Rightarrow> XLogRecPtr \<Rightarrow> XLogRecPtr" where
  "XLogSend_startptr k sent =
     (if xrecoff sent \<ge> XLogFileSize k
      then \<lparr>xlogid = xlogid sent + 1, xrecoff = 0\<rparr>
      else sent)"

text \<open>Lines 827-835: advance by \<open>MAX_SEND_SIZE\<close>, but stay in the \<open>logId\<close> of the start.\<close>

definition XLogSend_advance :: "xlog_consts \<Rightarrow> XLogRecPtr \<Rightarrow> XLogRecPtr" where
  "XLogSend_advance k startptr =
     (let endptr = XLByteAdvance k startptr (MAX_SEND_SIZE k)
      in if xlogid endptr \<noteq> xlogid startptr
         then \<lparr>xlogid = xlogid startptr, xrecoff = XLogFileSize k\<rparr>
         else endptr)"

text \<open>
  Lines 837-848: back off to the flush position (and report \<open>caughtup\<close>), or round
  down to a page boundary.
\<close>

definition XLogSend_endptr ::
  "xlog_consts \<Rightarrow> XLogRecPtr \<Rightarrow> XLogRecPtr \<Rightarrow> XLogRecPtr \<times> bool" where
  "XLogSend_endptr k startptr SendRqstPtr =
     (let endptr = XLogSend_advance k startptr
      in if XLByteLE SendRqstPtr endptr then (SendRqstPtr, True)
         else (endptr\<lparr>xrecoff := xrecoff endptr - (xrecoff endptr mod XLOG_BLCKSZ k)\<rparr>,
               False))"

text \<open>Lines 882-890: write \<open>sentPtr\<close> into the own slot, under its spinlock.\<close>

definition publish_sentPtr :: "walsender \<Rightarrow> walsender" where
  "publish_sentPtr s =
     (case MyWalSnd s of
        None \<Rightarrow> s
      | Some i \<Rightarrow>
          s\<lparr>WalSndCtl := (WalSndCtl s)[i := (WalSndCtl s ! i)\<lparr>walsnd_sentPtr := sentPtr s\<rparr>],
            shmem_log := shmem_log s @
              [SpinLockAcquire i, WriteSentPtr i (sentPtr s), SpinLockRelease i]\<rparr>)"

text \<open>
  \<open>XLogSend\<close>: the result is the error \<open>XLogRead\<close> raised, or the returned flag,
  the value stored in \<open>*caughtup\<close> and the state.  The frame is put on the wire and
  flushed; only a successful flush is followed by the update of \<open>sentPtr\<close> and of the
  slot.  (The process title, which the function also sets, is not part of the state.)
\<close>

definition XLogSend ::
  "xlog_consts \<Rightarrow> wal_env \<Rightarrow> walsender \<Rightarrow> xlog_error + (bool \<times> bool \<times> walsender)" where
  "XLogSend k env s =
     (let SendRqstPtr = GetFlushRecPtr env in
      if XLByteLE SendRqstPtr (sentPtr s) then Inr (True, True, s)
      else
        (let startptr = XLogSend_startptr k (sentPtr s);
             (endptr, caughtup) = XLogSend_endptr k startptr SendRqstPtr;
             nbytes = unat (xrecoff endptr - xrecoff startptr)
         in case XLogRead k env s startptr nbytes of
              Inl e \<Rightarrow> Inl e
            | Inr (s1, data) \<Rightarrow>
               (let msghdr = \<lparr>dataStart = startptr, walEnd = SendRqstPtr,
                              sendTime = GetCurrentTimestamp env\<rparr>;
                    s2 = s1\<lparr>wire_out := wire_out s1 @
                            [PutMessage (CHR ''d'') (CHR ''w'') msghdr data, Flush]\<rparr>
                in if pq_flush_fails env then Inr (False, caughtup, s2)
                   else Inr (True, caughtup, publish_sentPtr (s2\<lparr>sentPtr := endptr\<rparr>)))))"

subsection \<open>How the process ends, and one step of a loop\<close>

text \<open>
  \<open>Exit n\<close> is \<open>exit(n)\<close>, \<open>ProcExit n\<close> is \<open>proc_exit(n)\<close>, \<open>Fatal\<close> and
  \<open>Error\<close> are \<open>ereport\<close> at these levels (neither is caught in this process),
  \<open>FileError\<close> is an error raised by \<open>XLogRead\<close>.
\<close>

datatype ending =
  Exit int | ProcExit int | Fatal errcode | Error errcode | FileError xlog_error

text \<open>
  The outcome of one turn of a loop: \<open>Go b s\<close> goes on (with the loop's local flag
  \<open>b\<close>), \<open>Brk s\<close> is \<open>break\<close>, \<open>End e s\<close> ends the process.
\<close>

datatype step = Go bool walsender | Brk walsender | End ending walsender

subsection \<open>InitWalSnd, WalSndSetState and the signal handlers\<close>

text \<open>
  Lines 595-622: the scan from index \<open>i\<close>.  A used slot is unlocked and skipped; a
  free one is reserved under its spinlock, then the latch is owned and the scan stops.
\<close>

function InitWalSnd_scan :: "int \<Rightarrow> int \<Rightarrow> nat \<Rightarrow> walsender \<Rightarrow> walsender" where
  "InitWalSnd_scan MyProcPid max_wal_senders i s =
     (if int i < max_wal_senders then
        (if pid (WalSndCtl s ! i) \<noteq> 0 then
           InitWalSnd_scan MyProcPid max_wal_senders (Suc i)
             (s\<lparr>shmem_log := shmem_log s @ [SpinLockAcquire i, SpinLockRelease i]\<rparr>)
         else
           s\<lparr>WalSndCtl := (WalSndCtl s)
                 [i := (WalSndCtl s ! i)
                    \<lparr>pid := MyProcPid,
                     walsnd_sentPtr := \<lparr>xlogid = 0, xrecoff = 0\<rparr>,
                     state := WALSNDSTATE_STARTUP,
                     latch_owner := MyProcPid\<rparr>],
             shmem_log := shmem_log s @
                 [SpinLockAcquire i, WriteSentPtr i \<lparr>xlogid = 0, xrecoff = 0\<rparr>,
                  SpinLockRelease i, OwnLatch i],
             MyWalSnd := Some i\<rparr>)
      else s)"
  by pat_completeness auto
termination
  by (relation "measure (\<lambda>(p, m, i, s). nat m - i)") auto

text \<open>
  \<open>InitWalSnd\<close> (lines 579-632): fatal when the scan found no free slot.  (The exit
  callback \<open>WalSndKill\<close> it registers runs when the process ends.)
\<close>

definition InitWalSnd :: "int \<Rightarrow> int \<Rightarrow> walsender \<Rightarrow> errcode + walsender" where
  "InitWalSnd MyProcPid max_wal_senders s =
     (let s' = InitWalSnd_scan MyProcPid max_wal_senders 0 s
      in if MyWalSnd s' = None then Inl ERRCODE_TOO_MANY_CONNECTIONS else Inr s')"

text \<open>\<open>WalSndSetState\<close> (lines 1043-1057): no lock when the state is unchanged.\<close>

definition WalSndSetState :: "WalSndState \<Rightarrow> walsender \<Rightarrow> walsender" where
  "WalSndSetState st s =
     (case MyWalSnd s of
        None \<Rightarrow> s
      | Some i \<Rightarrow>
          if state (WalSndCtl s ! i) = st then s
          else s\<lparr>WalSndCtl := (WalSndCtl s)[i := (WalSndCtl s ! i)\<lparr>state := st\<rparr>],
                 shmem_log := shmem_log s @ [SpinLockAcquire i, SpinLockRelease i]\<rparr>)"

datatype signal = SIGHUP | SIGTERM | SIGQUIT | SIGUSR1 | SIGUSR2

text \<open>
  The handlers installed by \<open>WalSndSignals\<close> (lines 905-969): each sets its flag;
  \<open>SIGQUIT\<close> ends the process with \<open>exit(2)\<close>.
\<close>

fun handle_signal :: "signal \<Rightarrow> walsender \<Rightarrow> ending + walsender" where
  "handle_signal SIGHUP s = Inr (s\<lparr>got_SIGHUP := True\<rparr>)"
| "handle_signal SIGTERM s = Inr (s\<lparr>walsender_shutdown_requested := True\<rparr>)"
| "handle_signal SIGQUIT s = Inl (Exit 2)"
| "handle_signal SIGUSR1 s = Inr s"
| "handle_signal SIGUSR2 s = Inr (s\<lparr>walsender_ready_to_stop := True\<rparr>)"

fun handle_signals :: "signal list \<Rightarrow> walsender \<Rightarrow> ending + walsender" where
  "handle_signals [] s = Inr s"
| "handle_signals (g # gs) s =
     (case handle_signal g s of Inl e \<Rightarrow> Inl e | Inr s' \<Rightarrow> handle_signals gs s')"

subsection \<open>The handshake\<close>

text \<open>What the replication command parser returns.\<close>

datatype Node =
  T_IdentifySystemCmd
| T_StartReplicationCmd XLogRecPtr
| T_BaseBackupCmd string bool bool
| T_Other

text \<open>
  The world one turn of the handshake loop sees: the byte \<open>pq_getbyte\<close> returns
  (\<open>EOF\<close> is -1), the message \<open>pq_getmessage\<close> reads (\<open>None\<close> when it fails), the
  parser's return code and result, and what the server is.
\<close>

record handshake_env =
  hs_PostmasterIsAlive :: bool
  pq_getbyte :: int
  pq_getmessage :: "string option"
  replication_yyparse :: "string \<Rightarrow> int \<times> Node"
  wal_level_minimal :: bool
  GetSystemIdentifier :: nat
  ThisTimeLineID :: nat

definition EOF :: int where
  "EOF = - 1"

text \<open>\<open>IdentifySystem\<close> (lines 256-308).\<close>

definition IdentifySystem :: "handshake_env \<Rightarrow> walsender \<Rightarrow> walsender" where
  "IdentifySystem ev s =
     s\<lparr>wire_out := wire_out s @
          [RowDescription, DataRow (GetSystemIdentifier ev) (ThisTimeLineID ev),
           EndCommand ''SELECT'', ReadyForQuery]\<rparr>"

text \<open>\<open>StartReplication\<close> (lines 313-355).\<close>

definition StartReplication ::
  "handshake_env \<Rightarrow> XLogRecPtr \<Rightarrow> walsender \<Rightarrow> ending + walsender" where
  "StartReplication ev startpoint s =
     (if wal_level_minimal ev then Inl (Fatal ERRCODE_CANNOT_CONNECT_NOW)
      else Inr (s\<lparr>wire_out := wire_out s @ [CopyBothResponse, Flush],
                  sentPtr := startpoint\<rparr>))"

text \<open>\<open>HandleReplicationCommand\<close> (lines 360-425): the flag it returns and the state.\<close>

definition HandleReplicationCommand ::
  "handshake_env \<Rightarrow> string \<Rightarrow> walsender \<Rightarrow> ending + (bool \<times> walsender)" where
  "HandleReplicationCommand ev cmd_string s =
     (let (parse_rc, cmd_node) = replication_yyparse ev cmd_string
      in if parse_rc \<noteq> 0 then Inl (Error ERRCODE_SYNTAX_ERROR)
         else
           (case cmd_node of
              T_IdentifySystemCmd \<Rightarrow> Inr (False, IdentifySystem ev s)
            | T_StartReplicationCmd startpoint \<Rightarrow>
                (case StartReplication ev startpoint s of
                   Inl e \<Rightarrow> Inl e
                 | Inr s' \<Rightarrow> Inr (True, s'))
            | T_BaseBackupCmd label progress fastcheckpoint \<Rightarrow>
                Inr (False, s\<lparr>wire_out := wire_out s @
                       [BaseBackup label progress fastcheckpoint,
                        EndCommand ''SELECT'', ReadyForQuery]\<rparr>)
            | T_Other \<Rightarrow> Inl (Fatal ERRCODE_PROTOCOL_VIOLATION)))"

text \<open>
  The switch of lines 219-249 on \<open>firstchar\<close>, with the message that was read.
\<close>

definition handshake_dispatch ::
  "handshake_env \<Rightarrow> int \<Rightarrow> string \<Rightarrow> walsender \<Rightarrow> step" where
  "handshake_dispatch ev firstchar input_message s =
     (if firstchar = of_char (CHR ''Q'') then
        (case HandleReplicationCommand ev input_message s of
           Inl e \<Rightarrow> End e s
         | Inr (replication_started, s') \<Rightarrow> Go replication_started s')
      else if firstchar = of_char (CHR ''X'') then End (ProcExit 0) s
      else if firstchar = EOF then
        End (ProcExit 0)
          (s\<lparr>server_log := server_log s @
               [(ERRCODE_PROTOCOL_VIOLATION, ''unexpected EOF on standby connection'')]\<rparr>)
      else End (Fatal ERRCODE_PROTOCOL_VIOLATION) s)"

text \<open>One turn of the loop of \<open>WalSndHandshake\<close> (lines 182-250).\<close>

definition WalSndHandshake_body :: "handshake_env \<Rightarrow> walsender \<Rightarrow> step" where
  "WalSndHandshake_body ev s =
     (let s1 = WalSndSetState WALSNDSTATE_STARTUP s;
          firstchar = pq_getbyte ev
      in if \<not> hs_PostmasterIsAlive ev then End (Exit 1) s1
         else
           (let s2 = (if got_SIGHUP s1 then s1\<lparr>got_SIGHUP := False\<rparr> else s1)
            in if firstchar \<noteq> EOF then
                 (case pq_getmessage ev of
                    None \<Rightarrow> handshake_dispatch ev EOF [] s2
                  | Some input_message \<Rightarrow> handshake_dispatch ev firstchar input_message s2)
               else handshake_dispatch ev firstchar [] s2))"

text \<open>
  A run of a loop is a process that has ended, or one that is still in the loop when
  the recorded turns are used up.
\<close>

datatype run = Done ending walsender | Pending walsender

text \<open>
  \<open>WalSndHandshake\<close>, one recorded world per turn: the result is a run that ended, or
  \<open>Inr\<close> the state in which streaming starts and the worlds not consumed.
\<close>

fun WalSndHandshake :: "handshake_env list \<Rightarrow> walsender \<Rightarrow> run + walsender" where
  "WalSndHandshake [] s = Inl (Pending s)"
| "WalSndHandshake (ev # evs) s =
     (case WalSndHandshake_body ev s of
        End e s' \<Rightarrow> Inl (Done e s')
      | Brk s' \<Rightarrow> Inl (Done (ProcExit 0) s')
      | Go replication_started s' \<Rightarrow>
          if replication_started then Inr s' else WalSndHandshake evs s')"

subsection \<open>The streaming loop\<close>

text \<open>
  The world one turn of the streaming loop sees: the signals delivered before it, the
  world of the call of \<open>XLogSend\<close> made for \<open>walsender_ready_to_stop\<close> and the world
  of the call made in the second half of the turn, and the result of
  \<open>pq_getbyte_if_available\<close> with the byte it read.
\<close>

record loop_env =
  signals :: "signal list"
  PostmasterIsAlive :: bool
  flush_env :: wal_env
  send_env :: wal_env
  pq_getbyte_if_available :: "int \<times> char"

text \<open>\<open>CheckClosedConnection\<close> (lines 430-466).\<close>

definition CheckClosedConnection ::
  "loop_env \<Rightarrow> walsender \<Rightarrow> (ending \<times> walsender) + walsender" where
  "CheckClosedConnection ev s =
     (let (r, firstchar) = pq_getbyte_if_available ev
      in if r < 0 then
           Inl (ProcExit 0,
                s\<lparr>server_log := server_log s @
                    [(ERRCODE_PROTOCOL_VIOLATION, ''unexpected EOF on standby connection'')]\<rparr>)
         else if r = 0 then Inr s
         else if firstchar = CHR ''X'' then Inl (ProcExit 0, s)
         else Inl (Fatal ERRCODE_PROTOCOL_VIOLATION, s))"

text \<open>Lines 503-509: the last cycle asked for by \<open>SIGUSR2\<close>.\<close>

definition WalSndLoop_last_cycle ::
  "xlog_consts \<Rightarrow> loop_env \<Rightarrow> bool \<Rightarrow> walsender \<Rightarrow> step" where
  "WalSndLoop_last_cycle k ev caughtup s =
     (if walsender_ready_to_stop s then
        (case XLogSend k (flush_env ev) s of
           Inl e \<Rightarrow> End (FileError e) s
         | Inr (ok, caughtup', s') \<Rightarrow>
             if \<not> ok then Brk s'
             else if caughtup' then Go caughtup' (s'\<lparr>walsender_shutdown_requested := True\<rparr>)
             else Go caughtup' s')
      else Go caughtup s)"

text \<open>Lines 525-562: send, nap when caught up, and publish the state.\<close>

definition WalSndLoop_send ::
  "xlog_consts \<Rightarrow> loop_env \<Rightarrow> bool \<Rightarrow> walsender \<Rightarrow> step" where
  "WalSndLoop_send k ev caughtup s =
     (case XLogSend k (send_env ev) s of
        Inl e \<Rightarrow> End (FileError e) s
      | Inr (ok, caughtup', s') \<Rightarrow>
          if \<not> ok then Brk s'
          else if caughtup then
            (case CheckClosedConnection ev s' of
               Inl (e, s'') \<Rightarrow> End e s''
             | Inr s'' \<Rightarrow>
                 Go caughtup'
                   (WalSndSetState
                      (if caughtup' then WALSNDSTATE_STREAMING else WALSNDSTATE_CATCHUP) s''))
          else
            Go caughtup'
              (WalSndSetState
                 (if caughtup' then WALSNDSTATE_STREAMING else WALSNDSTATE_CATCHUP) s'))"

text \<open>
  One turn of the loop of \<open>WalSndLoop\<close> (lines 483-563), after the signals that
  arrived before it.  (Resetting the latch and sleeping on it change nothing here.)
\<close>

definition WalSndLoop_body ::
  "xlog_consts \<Rightarrow> loop_env \<Rightarrow> bool \<Rightarrow> walsender \<Rightarrow> step" where
  "WalSndLoop_body k ev caughtup s0 =
     (case handle_signals (signals ev) s0 of
        Inl e \<Rightarrow> End e s0
      | Inr s \<Rightarrow>
          if \<not> PostmasterIsAlive ev then End (Exit 1) s
          else
            (let s1 = (if got_SIGHUP s then s\<lparr>got_SIGHUP := False\<rparr> else s)
             in case WalSndLoop_last_cycle k ev caughtup s1 of
                  End e s2 \<Rightarrow> End e s2
                | Brk s2 \<Rightarrow> Brk s2
                | Go caughtup2 s2 \<Rightarrow>
                    if walsender_shutdown_requested s2 then
                      End (ProcExit 0)
                        (s2\<lparr>wire_out := wire_out s2 @
                              [PutText (CHR ''C'') ''COPY 0'', Flush]\<rparr>)
                    else WalSndLoop_send k ev caughtup2 s2))"

text \<open>
  \<open>WalSndLoop\<close> (lines 469-576), one recorded world per turn.  After \<open>break\<close> the
  output to the standby is switched off and the process ends with \<open>proc_exit(0)\<close>.
\<close>

fun WalSndLoop_from :: "xlog_consts \<Rightarrow> loop_env list \<Rightarrow> bool \<Rightarrow> walsender \<Rightarrow> run" where
  "WalSndLoop_from k [] caughtup s = Pending s"
| "WalSndLoop_from k (ev # evs) caughtup s =
     (case WalSndLoop_body k ev caughtup s of
        End e s' \<Rightarrow> Done e s'
      | Brk s' \<Rightarrow>
          Done (ProcExit 0)
            (if whereToSendOutput s' = DestRemote then s'\<lparr>whereToSendOutput := DestNone\<rparr>
             else s')
      | Go caughtup' s' \<Rightarrow> WalSndLoop_from k evs caughtup' s')"

definition WalSndLoop :: "xlog_consts \<Rightarrow> loop_env list \<Rightarrow> walsender \<Rightarrow> run" where
  "WalSndLoop k evs s = WalSndLoop_from k evs False s"

subsection \<open>WalSenderMain\<close>

text \<open>
  \<open>WalSenderMain\<close> (lines 116-169) for a process \<open>MyProcPid\<close>: refuse during
  recovery, reserve a slot, run the handshake, store the start position in the slot and
  stream.
\<close>

definition WalSenderMain ::
  "xlog_consts \<Rightarrow> int \<Rightarrow> int \<Rightarrow> bool \<Rightarrow> handshake_env list \<Rightarrow> loop_env list
     \<Rightarrow> walsender \<Rightarrow> run" where
  "WalSenderMain k MyProcPid max_wal_senders RecoveryInProgress hs_evs loop_evs s =
     (if RecoveryInProgress then Done (Fatal ERRCODE_CANNOT_CONNECT_NOW) s
      else
        (case InitWalSnd MyProcPid max_wal_senders s of
           Inl e \<Rightarrow> Done (Fatal e) (InitWalSnd_scan MyProcPid max_wal_senders 0 s)
         | Inr s1 \<Rightarrow>
            (case WalSndHandshake hs_evs
                    (s1\<lparr>wire_out := wire_out s1 @ [ReadyForQuery]\<rparr>) of
               Inl r \<Rightarrow> r
             | Inr s2 \<Rightarrow> WalSndLoop k loop_evs (publish_sentPtr s2))))"

text \<open>The values stored into the \<open>sentPtr\<close> of slot \<open>i\<close>, oldest first.\<close>

fun published :: "nat \<Rightarrow> shmem_event list \<Rightarrow> XLogRecPtr list" where
  "published i [] = []"
| "published i (WriteSentPtr j p # es) =
     (if j = i then p # published i es else published i es)"
| "published i (e # es) = published i es"

text \<open>Two states that differ at most in the open segment file and its cursor.\<close>

definition same_but_file :: "walsender \<Rightarrow> walsender \<Rightarrow> bool" where
  "same_but_file s s' \<longleftrightarrow>
     WalSndCtl s' = WalSndCtl s \<and> MyWalSnd s' = MyWalSnd s \<and> sentPtr s' = sentPtr s \<and>
     got_SIGHUP s' = got_SIGHUP s \<and>
     walsender_shutdown_requested s' = walsender_shutdown_requested s \<and>
     walsender_ready_to_stop s' = walsender_ready_to_stop s \<and>
     whereToSendOutput s' = whereToSendOutput s \<and>
     wire_out s' = wire_out s \<and> server_log s' = server_log s \<and>
     shmem_log s' = shmem_log s"

subsection \<open>A concrete sender\<close>

text \<open>
  The constants of the default build (8 kB pages, 16 MB segments, 255 segments in a
  logical log file, frames of 16 pages), a world in which every segment can be opened
  and read and nothing has been removed beyond segment (0, 0), and a sender that owns
  the only slot.  They serve to run the definitions on concrete inputs.
\<close>

definition pg_consts :: xlog_consts where
  "pg_consts = \<lparr>XLogSegSize = 16777216, XLogFileSize = 4278190080,
                 XLOG_BLCKSZ = 8192, MAX_SEND_SIZE = 131072\<rparr>"

definition demo_env :: "XLogRecPtr \<Rightarrow> bool \<Rightarrow> wal_env" where
  "demo_env req flush_fails =
     \<lparr>GetFlushRecPtr = req,
      BasicOpenFile = (\<lambda>log seg. (3, 0)),
      lseek_fails = (\<lambda>log seg off. False),
      read_file = (\<lambda>log seg off. Some (replicate (16777216 - unat off) 0)),
      XLogGetLastRemoved = (0, 0),
      GetCurrentTimestamp = 0,
      pq_flush_fails = flush_fails\<rparr>"

definition demo_sender :: "XLogRecPtr \<Rightarrow> walsender" where
  "demo_sender sent =
     \<lparr>WalSndCtl = [\<lparr>pid = 4711, state = WALSNDSTATE_CATCHUP, walsnd_sentPtr = sent,
                    latch_owner = 4711\<rparr>],
      MyWalSnd = Some 0,
      sendFile = - 1, sendId = 0, sendSeg = 0, sendOff = 0,
      sentPtr = sent,
      got_SIGHUP = False, walsender_shutdown_requested = False,
      walsender_ready_to_stop = False,
      whereToSendOutput = DestRemote,
      wire_out = [], server_log = [], shmem_log = []\<rparr>"

definition demo_start :: XLogRecPtr where
  "demo_start = \<lparr>xlogid = 1, xrecoff = 0\<rparr>"

definition demo_req :: XLogRecPtr where
  "demo_req = \<lparr>xlogid = 1, xrecoff = 300\<rparr>"

text \<open>The frame of 300 bytes from \<open>demo_start\<close> to \<open>demo_req\<close>.\<close>

definition demo_frame :: "wire list" where
  "demo_frame =
     [PutMessage (CHR ''d'') (CHR ''w'')
        \<lparr>dataStart = demo_start, walEnd = demo_req, sendTime = 0\<rparr> (replicate 300 0),
      Flush]"

text \<open>The sender after that frame was read and put on the wire.\<close>

definition demo_framed :: walsender where
  "demo_framed =
     (demo_sender demo_start)
       \<lparr>sendId := 1, sendSeg := 0, sendFile := 3, sendOff := 300, wire_out := demo_frame\<rparr>"

text \<open>The same world, except that every read delivers at most 100 bytes.\<close>

definition short_read_env :: wal_env where
  "short_read_env =
     (demo_env demo_req False)\<lparr>read_file := (\<lambda>log seg off. Some (replicate 100 0))\<rparr>"

text \<open>The sender after segment (1, 0) was opened.\<close>

definition demo_opened :: walsender where
  "demo_opened = (demo_sender demo_start)\<lparr>sendId := 1, sendSeg := 0, sendFile := 3\<rparr>"

text \<open>
  Two more worlds: one in which segment (1, 0) has been removed while it was read, and
  one in which no segment file exists.
\<close>

definition recycled_env :: wal_env where
  "recycled_env = (demo_env demo_req False)\<lparr>XLogGetLastRemoved := (1, 0)\<rparr>"

definition missing_env :: wal_env where
  "missing_env = (demo_env demo_req False)\<lparr>BasicOpenFile := (\<lambda>log seg. (- 1, ENOENT))\<rparr>"

text \<open>
  A world in which only segment 0 of each \<open>logId\<close> still exists, one in which no
  segment file may be opened (\<open>errno\<close> is \<open>EACCES\<close>), and a position 100 bytes before
  the end of segment (1, 0).
\<close>

definition truncated_env :: wal_env where
  "truncated_env =
     (demo_env demo_req False)
       \<lparr>BasicOpenFile := (\<lambda>log seg. if seg = 0 then (3, 0) else (- 1, ENOENT))\<rparr>"

definition denied_env :: wal_env where
  "denied_env = (demo_env demo_req False)\<lparr>BasicOpenFile := (\<lambda>log seg. (- 1, 13))\<rparr>"

definition demo_seg_end :: XLogRecPtr where
  "demo_seg_end = \<lparr>xlogid = 1, xrecoff = 16777116\<rparr>"

text \<open>
  A slot owned by process \<open>p\<close> (free when \<open>p = 0\<close>), and a process that has just
  been forked, with a given slot table and no slot of its own.
\<close>

definition demo_slot :: "int \<Rightarrow> WalSnd" where
  "demo_slot p =
     \<lparr>pid = p, state = WALSNDSTATE_STREAMING, walsnd_sentPtr = demo_start, latch_owner = p\<rparr>"

definition forked :: "WalSnd list \<Rightarrow> walsender" where
  "forked table =
     (demo_sender \<lparr>xlogid = 0, xrecoff = 0\<rparr>)\<lparr>WalSndCtl := table, MyWalSnd := None\<rparr>"

text \<open>A world of the handshake in which the standby sends the byte \<open>c\<close> and a message.\<close>

definition demo_handshake_env :: "int \<Rightarrow> string option \<Rightarrow> handshake_env" where
  "demo_handshake_env c msg =
     \<lparr>hs_PostmasterIsAlive = True,
      pq_getbyte = c,
      pq_getmessage = msg,
      replication_yyparse =
        (\<lambda>cmd. if cmd = ''IDENTIFY_SYSTEM'' then (0, T_IdentifySystemCmd)
                else if cmd = ''START_REPLICATION 1/0''
                then (0, T_StartReplicationCmd \<lparr>xlogid = 1, xrecoff = 0\<rparr>)
                else (1, T_Other)),
      wal_level_minimal = False,
      GetSystemIdentifier = 1,
      ThisTimeLineID = 1\<rparr>"

text \<open>
  A turn of the streaming loop of a sender that is behind: the flush position is 200000
  bytes ahead, and both \<open>SIGUSR2\<close> and \<open>SIGTERM\<close> have arrived before the turn.
\<close>

definition demo_far :: XLogRecPtr where
  "demo_far = \<lparr>xlogid = 1, xrecoff = 200000\<rparr>"

definition term_env :: loop_env where
  "term_env =
     \<lparr>signals = [SIGUSR2, SIGTERM],
      PostmasterIsAlive = True,
      flush_env = demo_env demo_far False,
      send_env = demo_env demo_far False,
      pq_getbyte_if_available = (0, CHR ''X'')\<rparr>"




text \<open>The sender after \<open>SIGUSR2\<close>, and after its frame of 16 pages towards \<open>demo_far\<close>.\<close>

definition stopping :: walsender where
  "stopping = (demo_sender demo_start)\<lparr>walsender_ready_to_stop := True\<rparr>"

definition stopping_behind :: walsender where
  "stopping_behind =
     (demo_sender \<lparr>xlogid = 1, xrecoff = 131072\<rparr>)
       \<lparr>sendFile := 3, sendId := 1, sendSeg := 0, sendOff := 131072,
        walsender_ready_to_stop := True,
        wire_out :=
          [PutMessage (CHR ''d'') (CHR ''w'')
             \<lparr>dataStart = demo_start, walEnd = demo_far, sendTime = 0\<rparr>
             (replicate 131072 0),
           Flush],
        shmem_log :=
          [SpinLockAcquire 0, WriteSentPtr 0 \<lparr>xlogid = 1, xrecoff = 131072\<rparr>,
           SpinLockRelease 0]\<rparr>"


text \<open>The state a run has reached.\<close>

fun run_state :: "run \<Rightarrow> walsender" where
  "run_state (Done e s) = s"
| "run_state (Pending s) = s"

text \<open>
  While the sender streams, what it has stored into slot \<open>i\<close> is in order and
  nothing stored is beyond \<open>sentPtr\<close>.
\<close>

definition stores_ordered :: "nat \<Rightarrow> walsender \<Rightarrow> bool" where
  "stores_ordered i s \<longleftrightarrow>
     sorted_wrt XLByteLE (published i (shmem_log s)) \<and>
     (\<forall>p \<in> set (published i (shmem_log s)). XLByteLE p (sentPtr s))"

text \<open>The state a turn of a loop has reached.\<close>

fun step_state :: "step \<Rightarrow> walsender" where
  "step_state (Go b s) = s"
| "step_state (Brk s) = s"
| "step_state (End e s) = s"

text \<open>
  A whole life of a sender: the standby asks for replication from \<open>demo_start\<close>, and in
  the one recorded turn of the streaming loop the flush position is \<open>demo_req\<close>.
\<close>

definition start_env :: handshake_env where
  "start_env = demo_handshake_env (of_char (CHR ''Q'')) (Some ''START_REPLICATION 1/0'')"

definition plain_env :: loop_env where
  "plain_env =
     term_env\<lparr>signals := [], flush_env := demo_env demo_req False,
               send_env := demo_env demo_req False\<rparr>"

definition demo_life :: run where
  "demo_life = WalSenderMain pg_consts 4711 1 False [start_env] [plain_env] (forked [demo_slot 0])"

section \<open>Properties\<close>

subsection \<open>The frame boundaries\<close>

lemma startptr_below:
  assumes "0 < XLogFileSize k"
  shows "xrecoff (XLogSend_startptr k sp) < XLogFileSize k"
  using assms by (simp add: XLogSend_startptr_def not_le)

lemma sent_before_req:
  assumes v: "valid_pos k req" and lt: "\<not> XLByteLE req sp"
    and full: "XLogFileSize k \<le> xrecoff sp"
  shows "xlogid sp < xlogid req"
  using assms unfolding valid_pos_def XLByteLE_def by unat_arith

lemma startptr_le_req:
  assumes v: "valid_pos k req" and lt: "\<not> XLByteLE req sp"
  shows "XLByteLE (XLogSend_startptr k sp) req"
proof (cases "XLogFileSize k \<le> xrecoff sp")
  case True
  from sent_before_req [OF v lt True] have "xlogid sp + 1 \<le> xlogid req" by unat_arith
  with True show ?thesis
    by (auto simp: XLogSend_startptr_def XLByteLE_def)
next
  case False
  with lt show ?thesis
    unfolding XLogSend_startptr_def XLByteLE_def by auto
qed

lemma sent_le_startptr:
  assumes v: "valid_pos k req" and lt: "\<not> XLByteLE req sp"
  shows "XLByteLE sp (XLogSend_startptr k sp)"
proof (cases "XLogFileSize k \<le> xrecoff sp")
  case True
  from sent_before_req [OF v lt True] have "xlogid sp < xlogid sp + 1" by unat_arith
  with True show ?thesis
    by (auto simp: XLogSend_startptr_def XLByteLE_def)
next
  case False
  then show ?thesis
    unfolding XLogSend_startptr_def XLByteLE_def by auto
qed

lemma advance_eq:
  assumes c: "consts_ok k" and b: "xrecoff st < XLogFileSize k"
  shows "xlogid (XLogSend_advance k st) = xlogid st"
    and "unat (xrecoff (XLogSend_advance k st))
           = min (unat (xrecoff st) + unat (MAX_SEND_SIZE k)) (unat (XLogFileSize k))"
proof -
  from c have ov: "unat (XLogFileSize k) + unat (MAX_SEND_SIZE k) \<le> 2 ^ 32"
    by (simp add: consts_ok_def)
  from b have b': "unat (xrecoff st) < unat (XLogFileSize k)"
    by (simp add: word_less_nat_alt)
  have sum: "unat (xrecoff st + MAX_SEND_SIZE k) = unat (xrecoff st) + unat (MAX_SEND_SIZE k)"
    using ov b' by (simp add: unat_add_lem [THEN iffD1])
  show "xlogid (XLogSend_advance k st) = xlogid st"
    by (simp add: XLogSend_advance_def XLByteAdvance_def Let_def)
  show "unat (xrecoff (XLogSend_advance k st))
           = min (unat (xrecoff st) + unat (MAX_SEND_SIZE k)) (unat (XLogFileSize k))"
    using sum by (simp add: XLogSend_advance_def XLByteAdvance_def Let_def word_le_nat_alt min_def)
qed

lemma endptr_caughtup:
  assumes c: "consts_ok k" and b: "xrecoff st < XLogFileSize k"
    and le: "XLByteLE st req"
    and r: "XLogSend_endptr k st req = (e, True)"
  shows "e = req" and "xlogid req = xlogid st" and "xrecoff st \<le> xrecoff req"
    and "unat (xrecoff req) \<le> unat (xrecoff st) + unat (MAX_SEND_SIZE k)"
    and "xrecoff req \<le> XLogFileSize k"
proof -
  from r have e: "e = req" and le2: "XLByteLE req (XLogSend_advance k st)"
    by (auto simp: XLogSend_endptr_def Let_def split: if_splits)
  note adv = advance_eq [OF c b]
  show "e = req" by (rule e)
  from le le2 adv(1) show id: "xlogid req = xlogid st"
    unfolding XLByteLE_def by auto
  from le id show "xrecoff st \<le> xrecoff req"
    unfolding XLByteLE_def by auto
  from le2 id adv(1) have "unat (xrecoff req) \<le> unat (xrecoff (XLogSend_advance k st))"
    unfolding XLByteLE_def by (auto simp: word_le_nat_alt)
  with adv(2) show "unat (xrecoff req) \<le> unat (xrecoff st) + unat (MAX_SEND_SIZE k)"
    and "xrecoff req \<le> XLogFileSize k"
    by (simp_all add: word_le_nat_alt)
qed

lemma endptr_behind:
  assumes c: "consts_ok k" and b: "xrecoff st < XLogFileSize k"
    and r: "XLogSend_endptr k st req = (e, False)"
  shows "xlogid e = xlogid st"
    and "unat (XLOG_BLCKSZ k) dvd unat (xrecoff e)"
    and "xrecoff st < xrecoff e"
    and "unat (xrecoff e) \<le> unat (xrecoff st) + unat (MAX_SEND_SIZE k)"
    and "xrecoff e \<le> XLogFileSize k"
    and "XLByteLT e req"
proof -
  let ?a = "XLogSend_advance k st"
  let ?P = "unat (XLOG_BLCKSZ k)"
  from r have e: "e = ?a\<lparr>xrecoff := xrecoff ?a - (xrecoff ?a mod XLOG_BLCKSZ k)\<rparr>"
    and nle: "\<not> XLByteLE req ?a"
    by (auto simp: XLogSend_endptr_def Let_def split: if_splits)
  note adv = advance_eq [OF c b]
  from c have P: "0 < ?P" "?P dvd unat (XLogFileSize k)" "?P \<le> unat (MAX_SEND_SIZE k)"
    by (auto simp: consts_ok_def word_less_nat_alt word_le_nat_alt dest: dvd_trans)
  from e adv(1) show "xlogid e = xlogid st" by simp
  have modle: "xrecoff ?a mod XLOG_BLCKSZ k \<le> xrecoff ?a"
    by (simp add: word_le_nat_alt unat_mod)
  from e have off: "unat (xrecoff e) = unat (xrecoff ?a) - unat (xrecoff ?a) mod ?P"
    using modle by (simp add: unat_sub unat_mod)
  show dv: "?P dvd unat (xrecoff e)"
    unfolding off by (simp add: dvd_minus_mod)
  from b have b': "unat (xrecoff st) < unat (XLogFileSize k)"
    by (simp add: word_less_nat_alt)
  have "unat (xrecoff st) < unat (xrecoff e)"
  proof (cases "unat (xrecoff st) + unat (MAX_SEND_SIZE k) \<le> unat (XLogFileSize k)")
    case True
    with adv(2) have a: "unat (xrecoff ?a) = unat (xrecoff st) + unat (MAX_SEND_SIZE k)"
      by simp
    have "unat (xrecoff ?a) mod ?P < ?P" using P(1) by simp
    with a P(3) show ?thesis unfolding off by linarith
  next
    case False
    with adv(2) have a: "unat (xrecoff ?a) = unat (XLogFileSize k)" by simp
    with P(2) have "unat (xrecoff ?a) mod ?P = 0" by simp
    with a b' show ?thesis unfolding off by simp
  qed
  then show "xrecoff st < xrecoff e" by (simp add: word_less_nat_alt)
  from off adv(2) show "unat (xrecoff e) \<le> unat (xrecoff st) + unat (MAX_SEND_SIZE k)"
    by simp
  from off adv(2) show "xrecoff e \<le> XLogFileSize k"
    by (simp add: word_le_nat_alt)
  from off have "unat (xrecoff e) \<le> unat (xrecoff ?a)" by simp
  then have "xrecoff e \<le> xrecoff ?a" by (simp add: word_le_nat_alt)
  with nle e show "XLByteLT e req"
    unfolding XLByteLE_def XLByteLT_def by (auto simp: not_le not_less)
qed

subsection \<open>What XLogRead returns\<close>

lemma same_but_file_trans:
  "same_but_file a b \<Longrightarrow> same_but_file b c \<Longrightarrow> same_but_file a c"
  by (simp add: same_but_file_def)

lemma XLogRead_open_same:
  "XLogRead_open k env s recptr = Inr s' \<Longrightarrow> same_but_file s s'"
  by (cases "XLByteToSeg k recptr";
      cases "BasicOpenFile env (fst (XLByteToSeg k recptr)) (snd (XLByteToSeg k recptr))")
     (auto simp: XLogRead_open_def same_but_file_def split: if_splits)

lemma XLogRead_seek_same:
  "XLogRead_seek env s off = Inr s' \<Longrightarrow> same_but_file s s'"
  by (auto simp: XLogRead_seek_def same_but_file_def split: if_splits)

lemma XLogRead_body_same:
  assumes "XLogRead_body k env s recptr nbytes = Inr (s', data)"
  shows "same_but_file s s'"
proof -
  from assms obtain s1 where
    o: "XLogRead_open k env s recptr = Inr s1"
    and sk: "XLogRead_seek env s1 (xrecoff recptr mod XLogSegSize k) = Inr s'"
    by (auto simp: XLogRead_body_def Let_def split: sum.splits option.splits if_splits)
  from XLogRead_open_same [OF o] XLogRead_seek_same [OF sk] show ?thesis
    by (rule same_but_file_trans)
qed

lemma XLogRead_body_progress:
  assumes "XLogRead_body k env s recptr nbytes = Inr (s', data)"
  shows "0 < length data \<and> length data \<le> nbytes"
proof -
  from assms obtain s2 where
    rd: "sys_read env s2 (segbytes_of k (xrecoff recptr mod XLogSegSize k) nbytes) = Some data"
    and pos: "0 < length data"
    by (auto simp: XLogRead_body_def Let_def split: sum.splits option.splits if_splits)
  from rd have "length data \<le> segbytes_of k (xrecoff recptr mod XLogSegSize k) nbytes"
    by (auto simp: sys_read_def)
  moreover have "segbytes_of k (xrecoff recptr mod XLogSegSize k) nbytes \<le> nbytes"
    by (simp add: segbytes_of_def)
  ultimately show ?thesis using pos by simp
qed

lemma XLogRead_loop_result:
  "XLogRead_loop k env s buf recptr nbytes = Inr (s', buf') \<Longrightarrow>
     same_but_file s s' \<and> length buf' = length buf + nbytes"
proof (induction k env s buf recptr nbytes rule: XLogRead_loop.induct)
  case (1 k env s buf recptr nbytes)
  show ?case
  proof (cases "nbytes > 0")
    case False
    with "1.prems" show ?thesis by (simp add: same_but_file_def)
  next
    case True
    from "1.prems" True obtain s2 data where
      body: "XLogRead_body k env s recptr nbytes = Inr (s2, data)"
      by (cases "XLogRead_body k env s recptr nbytes") auto
    let ?s3 = "s2\<lparr>sendOff := sendOff s2 + of_nat (length data)\<rparr>"
    from "1.prems" True body have
      rest: "XLogRead_loop k env ?s3 (buf @ data) (XLByteAdvance k recptr (of_nat (length data)))
                   (nbytes - length data) = Inr (s', buf')"
      by simp
    from "1.IH" [OF True body refl rest]
    have ih: "same_but_file ?s3 s'"
      "length buf' = length (buf @ data) + (nbytes - length data)" by auto
    have s23: "same_but_file s2 ?s3" by (simp add: same_but_file_def)
    from XLogRead_body_progress [OF body] have le: "length data \<le> nbytes" by simp
    from XLogRead_body_same [OF body] s23 ih(1) have "same_but_file s s'"
      by (blast intro: same_but_file_trans)
    with ih(2) le show ?thesis by simp
  qed
qed

lemma XLogRead_result:
  assumes "XLogRead k env s recptr nbytes = Inr (s', data)"
  shows "same_but_file s s'" and "length data = nbytes"
    and "\<not> already_removed k env recptr"
proof -
  from assms obtain r where l: "XLogRead_loop k env s [] recptr nbytes = Inr r"
    by (cases "XLogRead_loop k env s [] recptr nbytes") (auto simp: XLogRead_def)
  obtain a b where r: "r = (a, b)" by (cases r)
  from assms l r have eq: "a = s'" "b = data" and nr: "\<not> already_removed k env recptr"
    by (auto simp: XLogRead_def split: if_splits)
  from XLogRead_loop_result [OF l [unfolded r]] eq
  show "same_but_file s s'" "length data = nbytes"
    by auto
  from nr show "\<not> already_removed k env recptr" .
qed

subsection \<open>What XLogSend does\<close>

lemma XLogSend_quick_exit:
  "XLByteLE (GetFlushRecPtr env) (sentPtr s) \<Longrightarrow> XLogSend k env s = Inr (True, True, s)"
  by (simp add: XLogSend_def)

lemma XLogSend_unfold:
  assumes lt: "\<not> XLByteLE (GetFlushRecPtr env) (sentPtr s)"
    and ep: "XLogSend_endptr k (XLogSend_startptr k (sentPtr s)) (GetFlushRecPtr env) = (endptr, cu)"
  shows "XLogSend k env s =
     (case XLogRead k env s (XLogSend_startptr k (sentPtr s))
             (unat (xrecoff endptr - xrecoff (XLogSend_startptr k (sentPtr s)))) of
        Inl e \<Rightarrow> Inl e
      | Inr (s1, data) \<Rightarrow>
          if pq_flush_fails env
          then Inr (False, cu, s1\<lparr>wire_out := wire_out s1 @
                 [PutMessage (CHR ''d'') (CHR ''w'')
                   \<lparr>dataStart = XLogSend_startptr k (sentPtr s), walEnd = GetFlushRecPtr env,
                    sendTime = GetCurrentTimestamp env\<rparr> data, Flush]\<rparr>)
          else Inr (True, cu, publish_sentPtr (s1\<lparr>wire_out := wire_out s1 @
                 [PutMessage (CHR ''d'') (CHR ''w'')
                   \<lparr>dataStart = XLogSend_startptr k (sentPtr s), walEnd = GetFlushRecPtr env,
                    sendTime = GetCurrentTimestamp env\<rparr> data, Flush],
                 sentPtr := endptr\<rparr>)))"
  using lt ep unfolding XLogSend_def Let_def
  by (simp split: sum.split prod.split)

text \<open>The stores of a successful call into the own slot.\<close>

lemma publish_sentPtr_fields:
  "sentPtr (publish_sentPtr s) = sentPtr s"
  "wire_out (publish_sentPtr s) = wire_out s"
  "MyWalSnd (publish_sentPtr s) = MyWalSnd s"
  "got_SIGHUP (publish_sentPtr s) = got_SIGHUP s"
  "walsender_shutdown_requested (publish_sentPtr s) = walsender_shutdown_requested s"
  "walsender_ready_to_stop (publish_sentPtr s) = walsender_ready_to_stop s"
  "whereToSendOutput (publish_sentPtr s) = whereToSendOutput s"
  "server_log (publish_sentPtr s) = server_log s"
  by (simp_all add: publish_sentPtr_def split: option.split)

lemma publish_sentPtr_shmem:
  "shmem_log (publish_sentPtr s) = shmem_log s @
     (case MyWalSnd s of None \<Rightarrow> []
      | Some i \<Rightarrow> [SpinLockAcquire i, WriteSentPtr i (sentPtr s), SpinLockRelease i])"
  "WalSndCtl (publish_sentPtr s) =
     (case MyWalSnd s of None \<Rightarrow> WalSndCtl s
      | Some i \<Rightarrow> (WalSndCtl s)[i := (WalSndCtl s ! i)\<lparr>walsnd_sentPtr := sentPtr s\<rparr>])"
  by (simp_all add: publish_sentPtr_def split: option.split)

lemma XLogSend_frame:
  assumes r: "XLogSend k env s = Inr (ok, caughtup, s')"
    and lt: "\<not> XLByteLE (GetFlushRecPtr env) (sentPtr s)"
  obtains data endptr where
    "XLogSend_endptr k (XLogSend_startptr k (sentPtr s)) (GetFlushRecPtr env) = (endptr, caughtup)"
    "length data = unat (xrecoff endptr - xrecoff (XLogSend_startptr k (sentPtr s)))"
    "\<not> already_removed k env (XLogSend_startptr k (sentPtr s))"
    "ok = (\<not> pq_flush_fails env)"
    "wire_out s' = wire_out s @
       [PutMessage (CHR ''d'') (CHR ''w'')
          \<lparr>dataStart = XLogSend_startptr k (sentPtr s), walEnd = GetFlushRecPtr env,
           sendTime = GetCurrentTimestamp env\<rparr> data, Flush]"
    "sentPtr s' = (if ok then endptr else sentPtr s)"
    "MyWalSnd s' = MyWalSnd s"
    "shmem_log s' = shmem_log s @
       (if ok then (case MyWalSnd s of None \<Rightarrow> []
                    | Some i \<Rightarrow> [SpinLockAcquire i, WriteSentPtr i endptr, SpinLockRelease i])
        else [])"
    "WalSndCtl s' =
       (if ok then (case MyWalSnd s of None \<Rightarrow> WalSndCtl s
                    | Some i \<Rightarrow> (WalSndCtl s)[i := (WalSndCtl s ! i)\<lparr>walsnd_sentPtr := endptr\<rparr>])
        else WalSndCtl s)"
proof -
  let ?st = "XLogSend_startptr k (sentPtr s)"
  let ?frame = "\<lambda>data. [PutMessage (CHR ''d'') (CHR ''w'')
                   \<lparr>dataStart = ?st, walEnd = GetFlushRecPtr env,
                    sendTime = GetCurrentTimestamp env\<rparr> data, Flush]"
  obtain endptr cu where ep:
    "XLogSend_endptr k ?st (GetFlushRecPtr env) = (endptr, cu)"
    by (cases "XLogSend_endptr k ?st (GetFlushRecPtr env)")
  note u = XLogSend_unfold [OF lt ep]
  from r u obtain x where
    rd0: "XLogRead k env s ?st (unat (xrecoff endptr - xrecoff ?st)) = Inr x"
    by (cases "XLogRead k env s ?st (unat (xrecoff endptr - xrecoff ?st))") auto
  obtain s1 data where x: "x = (s1, data)" by (cases x)
  note rd = rd0 [unfolded x]
  note res = XLogRead_result [OF rd]
  from res(1) have same: "wire_out s1 = wire_out s" "sentPtr s1 = sentPtr s"
    "MyWalSnd s1 = MyWalSnd s" "shmem_log s1 = shmem_log s" "WalSndCtl s1 = WalSndCtl s"
    by (simp_all add: same_but_file_def)
  show thesis
  proof (cases "pq_flush_fails env")
    case True
    with r u rd have "ok = False" "cu = caughtup"
      and s': "s' = s1\<lparr>wire_out := wire_out s1 @ ?frame data\<rparr>"
      by simp_all
    with True ep res same show thesis
      by (intro that [of endptr data]) simp_all
  next
    case False
    with r u rd have "ok = True" "cu = caughtup"
      and s': "s' = publish_sentPtr (s1\<lparr>wire_out := wire_out s1 @ ?frame data,
                 sentPtr := endptr\<rparr>)"
      by simp_all
    with False ep res same show thesis
      by (intro that [of endptr data])
         (simp_all add: publish_sentPtr_fields publish_sentPtr_shmem split: option.split)
  qed
qed

text \<open>The bytes of the frame are the bytes \<open>XLogRead\<close> delivered.\<close>

lemma XLogSend_frame_read:
  assumes r: "XLogSend k env s = Inr (ok, caughtup, s')"
    and lt: "\<not> XLByteLE (GetFlushRecPtr env) (sentPtr s)"
  shows "\<exists>s1 data.
     XLogRead k env s (XLogSend_startptr k (sentPtr s)) (length data) = Inr (s1, data) \<and>
     wire_out s' = wire_out s @
       [PutMessage (CHR ''d'') (CHR ''w'')
          \<lparr>dataStart = XLogSend_startptr k (sentPtr s), walEnd = GetFlushRecPtr env,
           sendTime = GetCurrentTimestamp env\<rparr> data, Flush]"
proof -
  let ?st = "XLogSend_startptr k (sentPtr s)"
  obtain endptr cu where ep:
    "XLogSend_endptr k ?st (GetFlushRecPtr env) = (endptr, cu)"
    by (cases "XLogSend_endptr k ?st (GetFlushRecPtr env)")
  note u = XLogSend_unfold [OF lt ep]
  from r u obtain x where
    rd0: "XLogRead k env s ?st (unat (xrecoff endptr - xrecoff ?st)) = Inr x"
    by (cases "XLogRead k env s ?st (unat (xrecoff endptr - xrecoff ?st))") auto
  obtain s1 data where x: "x = (s1, data)" by (cases x)
  note rd = rd0 [unfolded x]
  note res = XLogRead_result [OF rd]
  from res have len: "length data = unat (xrecoff endptr - xrecoff ?st)" by simp
  from res(1) have same: "wire_out s1 = wire_out s" by (simp add: same_but_file_def)
  from r u rd same have "wire_out s' = wire_out s @
       [PutMessage (CHR ''d'') (CHR ''w'')
          \<lparr>dataStart = ?st, walEnd = GetFlushRecPtr env,
           sendTime = GetCurrentTimestamp env\<rparr> data, Flush]"
    by (cases "pq_flush_fails env") (auto simp: publish_sentPtr_fields)
  with rd [folded len] show ?thesis by blast
qed

lemma XLByteLT_not_refl: "\<not> XLByteLT p p"
  by (simp add: XLByteLT_def)

lemma XLByteLT_imp_LE: "XLByteLT a b \<Longrightarrow> XLByteLE a b"
  by (auto simp: XLByteLT_def XLByteLE_def)

lemma advance_clamped:
  assumes "XLogFileSize k \<le> xrecoff st + MAX_SEND_SIZE k"
  shows "XLogSend_advance k st = \<lparr>xlogid = xlogid st, xrecoff = XLogFileSize k\<rparr>"
  using assms by (simp add: XLogSend_advance_def XLByteAdvance_def Let_def)

text \<open>The payload is the bytes between the start and the end of the frame.\<close>

lemma frame_length:
  assumes c: "consts_ok k" and b: "xrecoff st < XLogFileSize k" and le: "XLByteLE st req"
    and ep: "XLogSend_endptr k st req = (e, cu)"
  shows "xlogid e = xlogid st"
    and "unat (xrecoff st) + unat (xrecoff e - xrecoff st) = unat (xrecoff e)"
    and "xrecoff e \<le> XLogFileSize k"
    and "unat (xrecoff e - xrecoff st) \<le> unat (MAX_SEND_SIZE k)"
    and "XLByteLE e req"
proof -
  have facts: "xlogid e = xlogid st \<and> xrecoff st \<le> xrecoff e \<and> xrecoff e \<le> XLogFileSize k
      \<and> unat (xrecoff e) \<le> unat (xrecoff st) + unat (MAX_SEND_SIZE k) \<and> XLByteLE e req"
  proof (cases cu)
    case True
    with ep have "XLogSend_endptr k st req = (e, True)" by simp
    from endptr_caughtup [OF c b le this] show ?thesis
      by (simp add: XLByteLE_def)
  next
    case False
    with ep have "XLogSend_endptr k st req = (e, False)" by simp
    from endptr_behind [OF c b this] show ?thesis
      by (simp add: XLByteLT_imp_LE less_imp_le)
  qed
  then have le': "unat (xrecoff st) \<le> unat (xrecoff e)" by (simp add: word_le_nat_alt)
  from facts have sub: "unat (xrecoff e - xrecoff st) = unat (xrecoff e) - unat (xrecoff st)"
    by (simp add: unat_sub)
  from facts show "xlogid e = xlogid st" "xrecoff e \<le> XLogFileSize k" "XLByteLE e req"
    by simp_all
  from sub le' show "unat (xrecoff st) + unat (xrecoff e - xrecoff st) = unat (xrecoff e)"
    by simp
  from facts have "unat (xrecoff e) \<le> unat (xrecoff st) + unat (MAX_SEND_SIZE k)"
    by simp
  with sub show "unat (xrecoff e - xrecoff st) \<le> unat (MAX_SEND_SIZE k)"
    by linarith
qed

lemma XLogRead_nothing:
  "XLogRead k env s recptr 0 =
     (if already_removed k env recptr then Inl WAL_REMOVED else Inr (s, []))"
  by (simp add: XLogRead_def)

lemma segbytes_of_min:
  assumes "0 < XLogSegSize k"
  shows "segbytes_of k (off mod XLogSegSize k) nbytes
           = min nbytes (unat (XLogSegSize k) - unat (off mod XLogSegSize k))"
proof -
  from assms have "off mod XLogSegSize k < XLogSegSize k"
    by (simp add: word_mod_less_divisor)
  then have "off mod XLogSegSize k \<le> XLogSegSize k" by simp
  then have "unat (XLogSegSize k - off mod XLogSegSize k)
      = unat (XLogSegSize k) - unat (off mod XLogSegSize k)"
    by (rule unat_sub)
  then show ?thesis by (simp add: segbytes_of_def min_def)
qed

text \<open>When opening the segment of \<open>recptr\<close> fails, and with which error.\<close>

lemma XLogRead_open_error:
  "XLogRead_open k env s recptr = Inl e \<longleftrightarrow>
     (sendFile s < 0 \<or> \<not> XLByteInSeg k recptr (sendId s) (sendSeg s)) \<and>
     fst (BasicOpenFile env (fst (XLByteToSeg k recptr)) (snd (XLByteToSeg k recptr))) < 0 \<and>
     e = (if snd (BasicOpenFile env (fst (XLByteToSeg k recptr)) (snd (XLByteToSeg k recptr)))
             = ENOENT
          then WAL_REMOVED else IO_ERROR)"
  by (cases "XLByteToSeg k recptr";
      cases "BasicOpenFile env (fst (XLByteToSeg k recptr)) (snd (XLByteToSeg k recptr))")
     (auto simp: XLogRead_open_def)

lemma XLogRead_seek_error:
  "XLogRead_seek env s off = Inl e \<Longrightarrow> e = IO_ERROR"
  by (auto simp: XLogRead_seek_def split: if_splits)

lemma XLogRead_body_removed:
  "XLogRead_body k env s recptr nbytes = Inl WAL_REMOVED \<longleftrightarrow>
     XLogRead_open k env s recptr = Inl WAL_REMOVED"
  by (auto simp: XLogRead_body_def Let_def split: sum.splits option.splits if_splits
      dest: XLogRead_seek_error)

lemma XLogRead_loop_removed:
  "XLogRead_loop k env s buf recptr nbytes = Inl WAL_REMOVED \<Longrightarrow>
     \<exists>log seg. fst (BasicOpenFile env log seg) < 0 \<and> snd (BasicOpenFile env log seg) = ENOENT"
proof (induction k env s buf recptr nbytes rule: XLogRead_loop.induct)
  case (1 k env s buf recptr nbytes)
  from "1.prems" have pos: "0 < nbytes" by (cases "0 < nbytes") auto
  show ?case
  proof (cases "XLogRead_body k env s recptr nbytes")
    case (Inl e)
    with "1.prems" pos have "e = WAL_REMOVED" by simp
    with Inl have "XLogRead_open k env s recptr = Inl WAL_REMOVED"
      by (simp add: XLogRead_body_removed)
    then show ?thesis
      unfolding XLogRead_open_error by (auto split: if_splits)
  next
    case (Inr x)
    obtain s2 data where x: "x = (s2, data)" by (cases x)
    from "1.prems" pos Inr x have
      "XLogRead_loop k env (s2\<lparr>sendOff := sendOff s2 + of_nat (length data)\<rparr>) (buf @ data)
         (XLByteAdvance k recptr (of_nat (length data))) (nbytes - length data)
       = Inl WAL_REMOVED"
      by simp
    from "1.IH" [OF pos Inr [unfolded x] refl this] show ?thesis .
  qed
qed

text \<open>The loop and its list of turns, one turn at a time.\<close>

declare XLogRead_turns.simps [simp del]

lemma XLogRead_loop_stop: "XLogRead_loop k env s buf recptr 0 = Inr (s, buf)"
  by (subst XLogRead_loop.simps) (simp del: XLogRead_loop.simps)

lemma XLogRead_loop_raise:
  "0 < nbytes \<Longrightarrow> XLogRead_body k env s recptr nbytes = Inl e \<Longrightarrow>
   XLogRead_loop k env s buf recptr nbytes = Inl e"
  by (subst XLogRead_loop.simps) (simp del: XLogRead_loop.simps)

lemma XLogRead_loop_step:
  "0 < nbytes \<Longrightarrow> XLogRead_body k env s recptr nbytes = Inr (s2, data) \<Longrightarrow>
   XLogRead_loop k env s buf recptr nbytes =
     XLogRead_loop k env (s2\<lparr>sendOff := sendOff s2 + of_nat (length data)\<rparr>) (buf @ data)
       (XLByteAdvance k recptr (of_nat (length data))) (nbytes - length data)"
  by (subst XLogRead_loop.simps) (simp del: XLogRead_loop.simps)

lemma XLogRead_turns_stop: "XLogRead_turns k env s recptr 0 = []"
  by (subst XLogRead_turns.simps) simp

lemma XLogRead_turns_raise:
  "0 < nbytes \<Longrightarrow> XLogRead_body k env s recptr nbytes = Inl e \<Longrightarrow>
   XLogRead_turns k env s recptr nbytes = [(s, recptr, nbytes)]"
  by (subst XLogRead_turns.simps) simp

lemma XLogRead_turns_step:
  "0 < nbytes \<Longrightarrow> XLogRead_body k env s recptr nbytes = Inr (s2, data) \<Longrightarrow>
   XLogRead_turns k env s recptr nbytes =
     (s, recptr, nbytes) #
     XLogRead_turns k env (s2\<lparr>sendOff := sendOff s2 + of_nat (length data)\<rparr>)
       (XLByteAdvance k recptr (of_nat (length data))) (nbytes - length data)"
  by (subst XLogRead_turns.simps) simp

lemma XLogRead_body_open_failed:
  "XLogRead_open k env s recptr = Inl e \<Longrightarrow> XLogRead_body k env s recptr nbytes = Inl e"
  by (simp add: XLogRead_body_def Let_def)

lemma XLogRead_body_enoent:
  "XLogRead_body k env s recptr nbytes = Inl WAL_REMOVED \<longleftrightarrow>
     switches_segment k s recptr \<and> fst (open_segment k env recptr) < 0 \<and>
     snd (open_segment k env recptr) = ENOENT"
  unfolding XLogRead_body_removed XLogRead_open_error switches_segment_def open_segment_def
  by auto

text \<open>The loop raises exactly the error of the turn that raised.\<close>

lemma XLogRead_loop_error:
  "XLogRead_loop k env s buf recptr nbytes = Inl e \<longleftrightarrow>
     (\<exists>(s', rp', n') \<in> set (XLogRead_turns k env s recptr nbytes).
        XLogRead_body k env s' rp' n' = Inl e)"
proof (induction k env s buf recptr nbytes rule: XLogRead_loop.induct)
  case (1 k env s buf recptr nbytes)
  show ?case
  proof (cases "0 < nbytes")
    case False
    then show ?thesis by (simp add: XLogRead_loop_stop XLogRead_turns_stop del: XLogRead_loop.simps)
  next
    case pos: True
    show ?thesis
    proof (cases "XLogRead_body k env s recptr nbytes")
      case (Inl e')
      from XLogRead_loop_raise [OF pos Inl] XLogRead_turns_raise [OF pos Inl] Inl
      show ?thesis by (simp del: XLogRead_loop.simps)
    next
      case (Inr x)
      obtain s2 data where x: "x = (s2, data)" by (cases x)
      note b = Inr [unfolded x]
      from "1.IH" [OF pos b refl] XLogRead_loop_step [OF pos b] XLogRead_turns_step [OF pos b] b
      show ?thesis by (simp del: XLogRead_loop.simps)
    qed
  qed
qed

lemma XLogRead_turns_head:
  "0 < nbytes \<Longrightarrow> (s, recptr, nbytes) \<in> set (XLogRead_turns k env s recptr nbytes)"
  by (subst XLogRead_turns.simps) simp

subsection \<open>The scan of InitWalSnd\<close>

declare InitWalSnd_scan.simps [simp del]

text \<open>The lock operations of the scan over the used slots below \<open>i\<close>.\<close>

lemma InitWalSnd_scan_skip:
  assumes used: "\<forall>j. i0 \<le> j \<and> j < i \<longrightarrow> pid (WalSndCtl s ! j) \<noteq> 0"
    and le: "i0 \<le> i" and bound: "int i \<le> max_wal_senders"
  shows "InitWalSnd_scan me max_wal_senders i0 s =
     InitWalSnd_scan me max_wal_senders i
       (s\<lparr>shmem_log := shmem_log s @
            concat (map (\<lambda>j. [SpinLockAcquire j, SpinLockRelease j]) [i0..<i])\<rparr>)"
  using assms
proof (induction i)
  case 0
  then show ?case by simp
next
  case (Suc i)
  show ?case
  proof (cases "i0 = Suc i")
    case True
    then show ?thesis by simp
  next
    case False
    with Suc.prems have le: "i0 \<le> i" and lt: "int i < max_wal_senders"
      and used: "\<forall>j. i0 \<le> j \<and> j < i \<longrightarrow> pid (WalSndCtl s ! j) \<noteq> 0"
      and ui: "pid (WalSndCtl s ! i) \<noteq> 0"
      by auto
    let ?s = "s\<lparr>shmem_log := shmem_log s @
            concat (map (\<lambda>j. [SpinLockAcquire j, SpinLockRelease j]) [i0..<i])\<rparr>"
    from lt have bound: "int i \<le> max_wal_senders" by simp
    from Suc.IH [OF used le bound]
    have "InitWalSnd_scan me max_wal_senders i0 s = InitWalSnd_scan me max_wal_senders i ?s" .
    also have "\<dots> = InitWalSnd_scan me max_wal_senders (Suc i)
        (?s\<lparr>shmem_log := shmem_log ?s @ [SpinLockAcquire i, SpinLockRelease i]\<rparr>)"
      using lt ui by (subst InitWalSnd_scan.simps) simp
    also have "?s\<lparr>shmem_log := shmem_log ?s @ [SpinLockAcquire i, SpinLockRelease i]\<rparr>
        = s\<lparr>shmem_log := shmem_log s @
            concat (map (\<lambda>j. [SpinLockAcquire j, SpinLockRelease j]) [i0..<Suc i])\<rparr>"
      using le by simp
    finally show ?thesis .
  qed
qed

lemma InitWalSnd_scan_free:
  assumes "int i < max_wal_senders" and "pid (WalSndCtl s ! i) = 0"
  shows "InitWalSnd_scan me max_wal_senders i s =
     s\<lparr>WalSndCtl := (WalSndCtl s)
           [i := (WalSndCtl s ! i)
              \<lparr>pid := me, walsnd_sentPtr := \<lparr>xlogid = 0, xrecoff = 0\<rparr>,
               state := WALSNDSTATE_STARTUP, latch_owner := me\<rparr>],
       shmem_log := shmem_log s @
           [SpinLockAcquire i, WriteSentPtr i \<lparr>xlogid = 0, xrecoff = 0\<rparr>,
            SpinLockRelease i, OwnLatch i],
       MyWalSnd := Some i\<rparr>"
  using assms by (subst InitWalSnd_scan.simps) simp

lemma InitWalSnd_scan_end:
  assumes "max_wal_senders \<le> int i"
  shows "InitWalSnd_scan me max_wal_senders i s = s"
  using assms by (subst InitWalSnd_scan.simps) simp

subsection \<open>The streaming loop\<close>



lemma WalSndSetState_flags:
  "walsender_ready_to_stop (WalSndSetState st s) = walsender_ready_to_stop s"
  "walsender_shutdown_requested (WalSndSetState st s) = walsender_shutdown_requested s"
  "sentPtr (WalSndSetState st s) = sentPtr s"
  "shmem_log (WalSndSetState st s) = shmem_log s @
     (case MyWalSnd s of None \<Rightarrow> []
      | Some i \<Rightarrow> if state (WalSndCtl s ! i) = st then []
                  else [SpinLockAcquire i, SpinLockRelease i])"
  "MyWalSnd (WalSndSetState st s) = MyWalSnd s"
  by (simp_all add: WalSndSetState_def split: option.split)

lemma CheckClosedConnection_flags:
  assumes "CheckClosedConnection ev s = Inr s'"
  shows "s' = s"
  using assms by (auto simp: CheckClosedConnection_def split: prod.splits if_splits)

lemma CheckClosedConnection_end:
  assumes "CheckClosedConnection ev s = Inl (e, s')"
  shows "walsender_shutdown_requested s' = walsender_shutdown_requested s"
    and "sentPtr s' = sentPtr s" and "shmem_log s' = shmem_log s"
  using assms by (auto simp: CheckClosedConnection_def split: prod.splits if_splits)


subsection \<open>The values stored into a slot\<close>

lemma XLByteLE_refl: "XLByteLE p p"
  by (simp add: XLByteLE_def)

lemma XLByteLE_trans: "XLByteLE a b \<Longrightarrow> XLByteLE b c \<Longrightarrow> XLByteLE a c"
  by (auto simp: XLByteLE_def)

lemma XLByteLE_zero: "XLByteLE \<lparr>xlogid = 0, xrecoff = 0\<rparr> p"
  by (auto simp: XLByteLE_def word_gt_0)

lemma published_append: "published i (a @ b) = published i a @ published i b"
  by (induction i a rule: published.induct) simp_all

lemma published_locks:
  "published i [SpinLockAcquire j, SpinLockRelease j] = []"
  "published i [SpinLockAcquire j, WriteSentPtr j p, SpinLockRelease j]
     = (if j = i then [p] else [])"
  "published i [SpinLockAcquire j, WriteSentPtr j p, SpinLockRelease j, OwnLatch j]
     = (if j = i then [p] else [])"
  by simp_all

text \<open>A successful call of \<open>XLogSend\<close> stores a position that is not before \<open>sentPtr\<close>.\<close>

lemma XLogSend_advances:
  assumes c: "consts_ok k" and v: "valid_pos k (GetFlushRecPtr env)"
    and r: "XLogSend k env s = Inr (ok, caughtup, s')"
  shows "XLByteLE (sentPtr s) (sentPtr s')"
    and "published i (shmem_log s') = published i (shmem_log s) @
           (if ok \<and> \<not> XLByteLE (GetFlushRecPtr env) (sentPtr s) \<and> MyWalSnd s = Some i
            then [sentPtr s'] else [])"
proof -
  have "XLByteLE (sentPtr s) (sentPtr s') \<and>
     published i (shmem_log s') = published i (shmem_log s) @
           (if ok \<and> \<not> XLByteLE (GetFlushRecPtr env) (sentPtr s) \<and> MyWalSnd s = Some i
            then [sentPtr s'] else [])"
  proof (cases "XLByteLE (GetFlushRecPtr env) (sentPtr s)")
    case True
    with r have "s' = s" by (simp add: XLogSend_quick_exit)
    with True show ?thesis by (simp add: XLByteLE_refl)
  next
    case False
    let ?st = "XLogSend_startptr k (sentPtr s)"
    from c have f: "0 < XLogFileSize k" by (simp add: consts_ok_def)
    note b = startptr_below [OF f, of "sentPtr s"]
    note le = startptr_le_req [OF v False]
    from XLogSend_frame [OF r False] obtain data endptr where
      ep: "XLogSend_endptr k ?st (GetFlushRecPtr env) = (endptr, caughtup)"
      and sent: "sentPtr s' = (if ok then endptr else sentPtr s)"
      and log: "shmem_log s' = shmem_log s @
         (if ok then (case MyWalSnd s of None \<Rightarrow> []
                      | Some i \<Rightarrow> [SpinLockAcquire i, WriteSentPtr i endptr, SpinLockRelease i])
          else [])"
      by blast
    note fl = frame_length [OF c b le ep]
    from fl(2) have "unat (xrecoff ?st) \<le> unat (xrecoff endptr)" by linarith
    with fl(1) have "XLByteLE ?st endptr"
      by (simp add: XLByteLE_def word_le_nat_alt)
    with sent_le_startptr [OF v False] have "XLByteLE (sentPtr s) endptr"
      by (rule XLByteLE_trans)
    with sent have adv: "XLByteLE (sentPtr s) (sentPtr s')"
      by (simp add: XLByteLE_refl)
    from log sent False have "published i (shmem_log s') = published i (shmem_log s) @
           (if ok \<and> \<not> XLByteLE (GetFlushRecPtr env) (sentPtr s) \<and> MyWalSnd s = Some i
            then [sentPtr s'] else [])"
      by (cases "MyWalSnd s") (auto simp: published_append)
    with adv show ?thesis by simp
  qed
  then show "XLByteLE (sentPtr s) (sentPtr s')"
    and "published i (shmem_log s') = published i (shmem_log s) @
           (if ok \<and> \<not> XLByteLE (GetFlushRecPtr env) (sentPtr s) \<and> MyWalSnd s = Some i
            then [sentPtr s'] else [])"
    by simp_all
qed

lemma stores_ordered_congruent:
  assumes "stores_ordered i s" and "shmem_log s' = shmem_log s" and "sentPtr s' = sentPtr s"
  shows "stores_ordered i s'"
  using assms by (simp add: stores_ordered_def)

lemma XLogSend_stores_ordered:
  assumes c: "consts_ok k" and v: "valid_pos k (GetFlushRecPtr env)"
    and r: "XLogSend k env s = Inr (ok, caughtup, s')"
    and inv: "stores_ordered i s"
  shows "stores_ordered i s'"
proof -
  note adv = XLogSend_advances(1) [OF c v r] XLogSend_advances(2) [OF c v r, of i]
  from inv adv(1) have below: "\<forall>p \<in> set (published i (shmem_log s)). XLByteLE p (sentPtr s')"
    by (auto simp: stores_ordered_def intro: XLByteLE_trans)
  with inv adv(2) show ?thesis
    by (auto simp: stores_ordered_def sorted_wrt_append XLByteLE_refl)
qed

lemma WalSndSetState_stores_ordered:
  "stores_ordered i s \<Longrightarrow> stores_ordered i (WalSndSetState st s)"
  by (auto simp: stores_ordered_def WalSndSetState_flags published_append
      split: option.splits)

lemma handle_signals_stores:
  "handle_signals gs s = Inr s' \<Longrightarrow> shmem_log s' = shmem_log s \<and> sentPtr s' = sentPtr s"
proof (induction gs arbitrary: s)
  case Nil
  then show ?case by simp
next
  case (Cons g gs)
  then show ?case by (cases g) auto
qed

lemma WalSndLoop_send_stores_ordered:
  assumes c: "consts_ok k" and v: "valid_pos k (GetFlushRecPtr (send_env ev))"
    and inv: "stores_ordered i s"
  shows "stores_ordered i (step_state (WalSndLoop_send k ev caughtup s))"
proof (cases "XLogSend k (send_env ev) s")
  case (Inl err)
  with inv show ?thesis by (simp add: WalSndLoop_send_def)
next
  case (Inr x)
  obtain ok cu' s' where x: "x = (ok, cu', s')" by (cases x)
  note r = Inr [unfolded x]
  note inv' = XLogSend_stores_ordered [OF c v r inv]
  show ?thesis
  proof (cases "CheckClosedConnection ev s'")
    case (Inl y)
    obtain e' s'' where y: "y = (e', s'')" by (cases y)
    from CheckClosedConnection_end(2,3) [OF Inl [unfolded y]] inv'
    have "stores_ordered i s''" by (simp add: stores_ordered_def)
    with inv' r Inl y show ?thesis
      by (simp add: WalSndLoop_send_def WalSndSetState_stores_ordered)
  next
    case cc: (Inr s'')
    from CheckClosedConnection_flags [OF cc] inv' r cc show ?thesis
      by (simp add: WalSndLoop_send_def WalSndSetState_stores_ordered)
  qed
qed

lemma WalSndLoop_last_cycle_stores_ordered:
  assumes c: "consts_ok k" and v: "valid_pos k (GetFlushRecPtr (flush_env ev))"
    and inv: "stores_ordered i s"
  shows "stores_ordered i (step_state (WalSndLoop_last_cycle k ev caughtup s))"
proof (cases "walsender_ready_to_stop s")
  case False
  with inv show ?thesis by (simp add: WalSndLoop_last_cycle_def)
next
  case True
  show ?thesis
  proof (cases "XLogSend k (flush_env ev) s")
    case (Inl err)
    with inv True show ?thesis by (simp add: WalSndLoop_last_cycle_def)
  next
    case (Inr x)
    obtain ok cu' s' where x: "x = (ok, cu', s')" by (cases x)
    note r = Inr [unfolded x]
    note inv' = XLogSend_stores_ordered [OF c v r inv]
    then have "stores_ordered i (s'\<lparr>walsender_shutdown_requested := True\<rparr>)"
      by (simp add: stores_ordered_def)
    with inv' r True show ?thesis by (simp add: WalSndLoop_last_cycle_def)
  qed
qed

lemma WalSndLoop_body_stores_ordered:
  assumes c: "consts_ok k"
    and v: "valid_pos k (GetFlushRecPtr (flush_env ev))"
      "valid_pos k (GetFlushRecPtr (send_env ev))"
    and inv: "stores_ordered i s0"
  shows "stores_ordered i (step_state (WalSndLoop_body k ev caughtup s0))"
proof (cases "handle_signals (signals ev) s0")
  case (Inl e)
  with inv show ?thesis by (simp add: WalSndLoop_body_def)
next
  case (Inr s)
  from handle_signals_stores [OF Inr] inv have invs: "stores_ordered i s"
    by (simp add: stores_ordered_def)
  let ?s1 = "if got_SIGHUP s then s\<lparr>got_SIGHUP := False\<rparr> else s"
  from invs have inv1: "stores_ordered i ?s1" by (simp add: stores_ordered_def)
  note lc = WalSndLoop_last_cycle_stores_ordered [OF c v(1) inv1, of caughtup]
  show ?thesis
  proof (cases "PostmasterIsAlive ev")
    case False
    with Inr invs show ?thesis by (simp add: WalSndLoop_body_def)
  next
    case True
    show ?thesis
    proof (cases "WalSndLoop_last_cycle k ev caughtup ?s1")
      case (Go cu2 s2)
      with lc have inv2: "stores_ordered i s2" by simp
      then have "stores_ordered i
          (s2\<lparr>wire_out := wire_out s2 @ [PutText (CHR ''C'') ''COPY 0'', Flush]\<rparr>)"
        by (simp add: stores_ordered_def)
      with Inr True Go WalSndLoop_send_stores_ordered [OF c v(2) inv2, of cu2]
      show ?thesis by (simp add: WalSndLoop_body_def Let_def)
    next
      case (Brk s2)
      with lc Inr True show ?thesis by (simp add: WalSndLoop_body_def Let_def)
    next
      case (End e s2)
      with lc Inr True show ?thesis by (simp add: WalSndLoop_body_def Let_def)
    qed
  qed
qed

lemma WalSndLoop_from_stores_ordered:
  assumes c: "consts_ok k"
  shows "\<forall>ev \<in> set evs. valid_pos k (GetFlushRecPtr (flush_env ev)) \<and>
                        valid_pos k (GetFlushRecPtr (send_env ev)) \<Longrightarrow>
         stores_ordered i s \<Longrightarrow>
         stores_ordered i (run_state (WalSndLoop_from k evs caughtup s))"
proof (induction evs arbitrary: caughtup s)
  case Nil
  then show ?case by simp
next
  case (Cons ev evs)
  from Cons.prems have v: "valid_pos k (GetFlushRecPtr (flush_env ev))"
    "valid_pos k (GetFlushRecPtr (send_env ev))"
    and vs: "\<forall>ev \<in> set evs. valid_pos k (GetFlushRecPtr (flush_env ev)) \<and>
                        valid_pos k (GetFlushRecPtr (send_env ev))"
    by simp_all
  note b = WalSndLoop_body_stores_ordered [OF c v Cons.prems(2), of caughtup]
  show ?case
  proof (cases "WalSndLoop_body k ev caughtup s")
    case (Go cu s')
    with b have "stores_ordered i s'" by simp
    from Cons.IH [OF vs this] Go show ?thesis by simp
  next
    case (Brk s')
    with b have "stores_ordered i s'" by simp
    then have "stores_ordered i (s'\<lparr>whereToSendOutput := DestNone\<rparr>)"
      by (simp add: stores_ordered_def)
    with Brk \<open>stores_ordered i s'\<close> show ?thesis by simp
  next
    case (End e s')
    with b show ?thesis by simp
  qed
qed

lemma sorted_wrt_all_equal:
  assumes "\<forall>p \<in> set xs. p = z" and "P z z"
  shows "sorted_wrt P xs"
  using assms by (induction xs) auto

lemma InitWalSnd_scan_published:
  "MyWalSnd s = None \<Longrightarrow>
     published j (shmem_log (InitWalSnd_scan me max_wal_senders i s)) =
       published j (shmem_log s) @
         (if MyWalSnd (InitWalSnd_scan me max_wal_senders i s) = Some j
          then [\<lparr>xlogid = 0, xrecoff = 0\<rparr>] else [])"
proof (induction me max_wal_senders i s rule: InitWalSnd_scan.induct)
  case (1 me max_wal_senders i s)
  show ?case
  proof (cases "int i < max_wal_senders")
    case False
    with "1.prems" show ?thesis by (subst (1 2) InitWalSnd_scan.simps) simp
  next
    case True
    show ?thesis
    proof (cases "pid (WalSndCtl s ! i) \<noteq> 0")
      case used: True
      let ?s = "s\<lparr>shmem_log := shmem_log s @ [SpinLockAcquire i, SpinLockRelease i]\<rparr>"
      from "1.prems" have "MyWalSnd ?s = None" by simp
      from "1.IH" [OF True used this]
      have "published j (shmem_log (InitWalSnd_scan me max_wal_senders (Suc i) ?s)) =
         published j (shmem_log s) @
         (if MyWalSnd (InitWalSnd_scan me max_wal_senders (Suc i) ?s) = Some j
          then [\<lparr>xlogid = 0, xrecoff = 0\<rparr>] else [])"
        by (simp add: published_append)
      moreover have "InitWalSnd_scan me max_wal_senders i s
          = InitWalSnd_scan me max_wal_senders (Suc i) ?s"
        using True used by (subst InitWalSnd_scan.simps) simp
      ultimately show ?thesis by simp
    next
      case False
      then have "pid (WalSndCtl s ! i) = 0" by simp
      from InitWalSnd_scan_free [OF True this, of me] show ?thesis
        by (auto simp: published_append)
    qed
  qed
qed

lemma InitWalSnd_published:
  assumes "MyWalSnd s = None" and "InitWalSnd me max_wal_senders s = Inr s1"
  shows "\<exists>j. MyWalSnd s1 = Some j \<and>
             published j (shmem_log s1) = published j (shmem_log s) @ [\<lparr>xlogid = 0, xrecoff = 0\<rparr>]"
    and "\<forall>p \<in> set (published i (shmem_log s1)).
           p \<in> set (published i (shmem_log s)) \<or> p = \<lparr>xlogid = 0, xrecoff = 0\<rparr>"
proof -
  from assms(2) have s1: "s1 = InitWalSnd_scan me max_wal_senders 0 s"
    and some: "MyWalSnd s1 \<noteq> None"
    by (auto simp: InitWalSnd_def Let_def split: if_splits)
  from some obtain j where j: "MyWalSnd s1 = Some j" by auto
  from InitWalSnd_scan_published [OF assms(1), of j me max_wal_senders 0] j s1
  show "\<exists>j. MyWalSnd s1 = Some j \<and>
             published j (shmem_log s1) = published j (shmem_log s) @ [\<lparr>xlogid = 0, xrecoff = 0\<rparr>]"
    by auto
  from InitWalSnd_scan_published [OF assms(1), of i me max_wal_senders 0] s1
  show "\<forall>p \<in> set (published i (shmem_log s1)).
           p \<in> set (published i (shmem_log s)) \<or> p = \<lparr>xlogid = 0, xrecoff = 0\<rparr>"
    by (auto split: if_splits)
qed

text \<open>The handshake stores nothing into a slot's \<open>sentPtr\<close>.\<close>

lemma WalSndSetState_published:
  "published i (shmem_log (WalSndSetState st s)) = published i (shmem_log s)"
  by (auto simp: WalSndSetState_flags published_append split: option.splits)

lemma HandleReplicationCommand_shmem:
  "HandleReplicationCommand ev cmd s = Inr (b, s') \<Longrightarrow>
     shmem_log s' = shmem_log s \<and> MyWalSnd s' = MyWalSnd s"
  by (auto simp: HandleReplicationCommand_def IdentifySystem_def StartReplication_def
      split: prod.splits if_splits Node.splits sum.splits)

lemma handshake_dispatch_shmem:
  "shmem_log (step_state (handshake_dispatch ev c msg s)) = shmem_log s"
proof (cases "HandleReplicationCommand ev msg s")
  case (Inl e)
  then show ?thesis by (simp add: handshake_dispatch_def)
next
  case (Inr x)
  obtain b s' where x: "x = (b, s')" by (cases x)
  from HandleReplicationCommand_shmem [OF Inr [unfolded x]] Inr x
  show ?thesis by (simp add: handshake_dispatch_def)
qed

lemma WalSndHandshake_body_published:
  "published i (shmem_log (step_state (WalSndHandshake_body ev s)))
     = published i (shmem_log s)"
proof -
  let ?s1 = "WalSndSetState WALSNDSTATE_STARTUP s"
  let ?s2 = "if got_SIGHUP ?s1 then ?s1\<lparr>got_SIGHUP := False\<rparr> else ?s1"
  have s2: "shmem_log ?s2 = shmem_log ?s1" by simp
  have "shmem_log (step_state (WalSndHandshake_body ev s)) = shmem_log ?s1"
    using s2 by (cases "pq_getmessage ev")
      (simp_all add: WalSndHandshake_body_def Let_def handshake_dispatch_shmem)
  then show ?thesis by (simp add: WalSndSetState_published)
qed

lemma WalSndHandshake_published:
  "(case WalSndHandshake evs s of Inl r \<Rightarrow> run_state r | Inr s' \<Rightarrow> s') = t \<Longrightarrow>
     published i (shmem_log t) = published i (shmem_log s)"
proof (induction evs arbitrary: s)
  case Nil
  then show ?case by auto
next
  case (Cons ev evs)
  note b = WalSndHandshake_body_published [of i ev s]
  show ?case
  proof (cases "WalSndHandshake_body ev s")
    case (Go started s')
    show ?thesis
    proof (cases started)
      case True
      with Go Cons.prems b show ?thesis by auto
    next
      case False
      with Go Cons.prems have
        "(case WalSndHandshake evs s' of Inl r \<Rightarrow> run_state r | Inr s' \<Rightarrow> s') = t"
        by simp
      from Cons.IH [OF this] Go b show ?thesis by simp
    qed
  next
    case (Brk s')
    with Cons.prems b show ?thesis by auto
  next
    case (End e s')
    with Cons.prems b show ?thesis by auto
  qed
qed

subsection \<open>Final-flush mode\<close>






subsection \<open>The concrete sender at work\<close>

lemma pg_consts_sel:
  "XLogSegSize pg_consts = 16777216" "XLogFileSize pg_consts = 4278190080"
  "XLOG_BLCKSZ pg_consts = 8192" "MAX_SEND_SIZE pg_consts = 131072"
  by (simp_all add: pg_consts_def)

lemma pg_consts_ok: "consts_ok pg_consts"
  by (simp add: consts_ok_def pg_consts_sel)

lemma demo_env_sel:
  "GetFlushRecPtr (demo_env req ff) = req"
  "BasicOpenFile (demo_env req ff) log seg = (3, 0)"
  "lseek_fails (demo_env req ff) log seg off = False"
  "read_file (demo_env req ff) log seg off = Some (replicate (16777216 - unat off) 0)"
  "XLogGetLastRemoved (demo_env req ff) = (0, 0)"
  "GetCurrentTimestamp (demo_env req ff) = 0"
  "pq_flush_fails (demo_env req ff) = ff"
  by (simp_all add: demo_env_def)

lemma demo_sender_sel:
  "WalSndCtl (demo_sender sent) = [\<lparr>pid = 4711, state = WALSNDSTATE_CATCHUP,
      walsnd_sentPtr = sent, latch_owner = 4711\<rparr>]"
  "MyWalSnd (demo_sender sent) = Some 0"
  "sendFile (demo_sender sent) = - 1" "sendId (demo_sender sent) = 0"
  "sendSeg (demo_sender sent) = 0" "sendOff (demo_sender sent) = 0"
  "sentPtr (demo_sender sent) = sent"
  "got_SIGHUP (demo_sender sent) = False"
  "walsender_shutdown_requested (demo_sender sent) = False"
  "walsender_ready_to_stop (demo_sender sent) = False"
  "whereToSendOutput (demo_sender sent) = DestRemote"
  "wire_out (demo_sender sent) = []" "server_log (demo_sender sent) = []"
  "shmem_log (demo_sender sent) = []"
  by (simp_all add: demo_sender_def)

lemma demo_not_removed:
  "\<not> already_removed pg_consts (demo_env req ff) \<lparr>xlogid = 1, xrecoff = off\<rparr>"
  by (simp add: already_removed_def XLByteToSeg_def demo_env_sel)

lemma demo_read:
  "XLogRead pg_consts (demo_env req ff) (demo_sender sent) \<lparr>xlogid = 1, xrecoff = 0\<rparr> 300
     = Inr ((demo_sender sent)\<lparr>sendId := 1, sendSeg := 0, sendFile := 3, sendOff := 300\<rparr>,
            replicate 300 0)"
  by (simp add: XLogRead_def demo_not_removed XLogRead_body_def XLogRead_open_def
      XLogRead_seek_def sys_read_def segbytes_of_def XLByteInSeg_def XLByteToSeg_def
      XLByteAdvance_def demo_env_sel demo_sender_sel pg_consts_sel)

lemma demo_send:
  "XLogSend pg_consts (demo_env demo_req ff) (demo_sender demo_start)
     = Inr (if ff then (False, True, demo_framed)
            else (True, True, publish_sentPtr (demo_framed\<lparr>sentPtr := demo_req\<rparr>)))"
  by (simp add: XLogSend_def XLogSend_startptr_def XLogSend_endptr_def XLogSend_advance_def
      XLByteAdvance_def XLByteLE_def demo_read demo_env_sel demo_sender_sel pg_consts_sel
      Let_def demo_start_def demo_req_def demo_framed_def demo_frame_def)

lemma demo_behind: "\<not> XLByteLE demo_req (sentPtr (demo_sender demo_start))"
  by (simp add: XLByteLE_def demo_sender_sel demo_start_def demo_req_def)

lemma demo_req_valid: "valid_pos pg_consts demo_req"
  by (simp add: valid_pos_def pg_consts_sel demo_req_def)

lemma short_read_env_sel:
  "BasicOpenFile short_read_env log seg = (3, 0)"
  "lseek_fails short_read_env log seg off = False"
  "read_file short_read_env log seg off = Some (replicate 100 0)"
  "XLogGetLastRemoved short_read_env = (0, 0)"
  by (simp_all add: short_read_env_def demo_env_def)

lemma short_read_open:
  "XLogRead_open pg_consts short_read_env (demo_sender demo_start) demo_start
     = Inr (demo_opened\<lparr>sendOff := 0\<rparr>)"
  by (simp add: XLogRead_open_def XLByteInSeg_def XLByteToSeg_def demo_opened_def
      demo_sender_sel short_read_env_sel pg_consts_sel demo_start_def)

lemma short_read_seek:
  "XLogRead_seek short_read_env (demo_opened\<lparr>sendOff := 0\<rparr>)
     (xrecoff demo_start mod XLogSegSize pg_consts) = Inr (demo_opened\<lparr>sendOff := 0\<rparr>)"
  by (simp add: XLogRead_seek_def demo_start_def pg_consts_sel)

lemma short_read_first:
  "sys_read short_read_env (demo_opened\<lparr>sendOff := 0\<rparr>) 300 = Some (replicate 100 0)"
  by (simp add: sys_read_def short_read_env_sel)

lemma short_read_all:
  "XLogRead pg_consts short_read_env (demo_sender demo_start) demo_start 300
     = Inr (demo_opened\<lparr>sendOff := 300\<rparr>,
            replicate 100 0 @ replicate 100 0 @ replicate 100 0)"
  by (simp add: XLogRead_def already_removed_def XLogRead_body_def XLogRead_open_def
      XLogRead_seek_def sys_read_def segbytes_of_def XLByteInSeg_def XLByteToSeg_def
      XLByteAdvance_def demo_opened_def demo_sender_sel short_read_env_sel pg_consts_sel
      demo_start_def)

lemma recycled_env_sel:
  "BasicOpenFile recycled_env log seg = (3, 0)"
  "lseek_fails recycled_env log seg off = False"
  "read_file recycled_env log seg off = Some (replicate (16777216 - unat off) 0)"
  "XLogGetLastRemoved recycled_env = (1, 0)"
  by (simp_all add: recycled_env_def demo_env_def)

lemma missing_env_sel:
  "BasicOpenFile missing_env log seg = (- 1, ENOENT)"
  by (simp add: missing_env_def demo_env_def)

lemma recycled_loop:
  "XLogRead_loop pg_consts recycled_env (demo_sender demo_start) [] demo_start 300
     = Inr (demo_opened\<lparr>sendOff := 300\<rparr>, replicate 300 0)"
  by (simp add: XLogRead_body_def XLogRead_open_def
      XLogRead_seek_def sys_read_def segbytes_of_def XLByteInSeg_def XLByteToSeg_def
      XLByteAdvance_def demo_opened_def demo_sender_sel recycled_env_sel pg_consts_sel
      demo_start_def)

lemma forked_sel:
  "MyWalSnd (forked table) = None" "WalSndCtl (forked table) = table"
  "shmem_log (forked table) = []" "wire_out (forked table) = []"
  "sentPtr (forked table) = \<lparr>xlogid = 0, xrecoff = 0\<rparr>"
  by (simp_all add: forked_def demo_sender_def)




lemma stopping_sel:
  "got_SIGHUP stopping = False" "walsender_ready_to_stop stopping"
  "walsender_shutdown_requested stopping = False" "sentPtr stopping = demo_start"
  by (simp_all add: stopping_def demo_sender_def)

lemma demo_send_far:
  "XLogSend pg_consts (demo_env demo_far False) (stopping\<lparr>walsender_shutdown_requested := t\<rparr>)
     = Inr (True, False, stopping_behind\<lparr>walsender_shutdown_requested := t\<rparr>)"
  by (simp add: XLogSend_def XLogSend_startptr_def XLogSend_endptr_def XLogSend_advance_def
      XLByteAdvance_def XLByteLE_def Let_def
      XLogRead_def already_removed_def XLogRead_body_def XLogRead_open_def
      XLogRead_seek_def sys_read_def segbytes_of_def XLByteInSeg_def XLByteToSeg_def
      publish_sentPtr_def
      demo_env_sel demo_sender_def pg_consts_sel stopping_def
      demo_start_def demo_far_def stopping_behind_def)





lemma plain_env_sel:
  "signals plain_env = []" "PostmasterIsAlive plain_env"
  "flush_env plain_env = demo_env demo_req False" "send_env plain_env = demo_env demo_req False"
  "pq_getbyte_if_available plain_env = (0, CHR ''X'')"
  by (simp_all add: plain_env_def term_env_def)

lemma demo_init:
  "InitWalSnd 4711 1 (forked [demo_slot 0]) =
     Inr ((forked [demo_slot 0])
            \<lparr>WalSndCtl := [(demo_slot 0)\<lparr>pid := 4711,
                               walsnd_sentPtr := \<lparr>xlogid = 0, xrecoff = 0\<rparr>,
                               state := WALSNDSTATE_STARTUP, latch_owner := 4711\<rparr>],
             shmem_log := [SpinLockAcquire 0, WriteSentPtr 0 \<lparr>xlogid = 0, xrecoff = 0\<rparr>,
                           SpinLockRelease 0, OwnLatch 0],
             MyWalSnd := Some 0\<rparr>)"
proof -
  have "InitWalSnd_scan 4711 1 0 (forked [demo_slot 0]) =
     (forked [demo_slot 0])
            \<lparr>WalSndCtl := [(demo_slot 0)\<lparr>pid := 4711,
                               walsnd_sentPtr := \<lparr>xlogid = 0, xrecoff = 0\<rparr>,
                               state := WALSNDSTATE_STARTUP, latch_owner := 4711\<rparr>],
             shmem_log := [SpinLockAcquire 0, WriteSentPtr 0 \<lparr>xlogid = 0, xrecoff = 0\<rparr>,
                           SpinLockRelease 0, OwnLatch 0],
             MyWalSnd := Some 0\<rparr>"
    by (subst InitWalSnd_scan.simps) (simp add: forked_sel demo_slot_def)
  then show ?thesis by (simp add: InitWalSnd_def)
qed

lemma demo_life_published:
  "published 0 (shmem_log (run_state demo_life))
     = [\<lparr>xlogid = 0, xrecoff = 0\<rparr>, demo_start, demo_req]"
  unfolding demo_life_def WalSenderMain_def demo_init
  by (simp add: WalSndHandshake_body_def WalSndSetState_def handshake_dispatch_def
      HandleReplicationCommand_def StartReplication_def start_env_def demo_handshake_env_def
      EOF_def Let_def forked_def demo_sender_def demo_slot_def
      publish_sentPtr_def WalSndLoop_def WalSndLoop_body_def WalSndLoop_last_cycle_def
      WalSndLoop_send_def plain_env_sel
      XLogSend_def XLogSend_startptr_def XLogSend_endptr_def XLogSend_advance_def
      XLByteAdvance_def XLByteLE_def
      XLogRead_def already_removed_def XLogRead_body_def XLogRead_open_def
      XLogRead_seek_def sys_read_def segbytes_of_def XLByteInSeg_def XLByteToSeg_def
      demo_env_sel pg_consts_sel demo_start_def demo_req_def)



lemma demo_send_behind:
  "XLogSend pg_consts (demo_env demo_far False) stopping = Inr (True, False, stopping_behind)"
proof -
  have same: "stopping\<lparr>walsender_shutdown_requested := False\<rparr> = stopping"
    "stopping_behind\<lparr>walsender_shutdown_requested := False\<rparr> = stopping_behind"
    by (simp_all add: stopping_def stopping_behind_def demo_sender_def)
  from demo_send_far [of False] show ?thesis by (simp only: same)
qed

lemma demo_far_valid: "valid_pos pg_consts (GetFlushRecPtr (demo_env demo_far False))"
  by (simp add: valid_pos_def pg_consts_sel demo_far_def demo_env_sel)

lemma stopping_is_behind:
  "\<not> XLByteLE (GetFlushRecPtr (demo_env demo_far False)) (sentPtr stopping)"
  by (simp add: XLByteLE_def stopping_sel demo_start_def demo_far_def demo_env_sel)

lemma truncated_env_sel:
  "BasicOpenFile truncated_env log seg = (if seg = 0 then (3, 0) else (- 1, ENOENT))"
  "lseek_fails truncated_env log seg off = False"
  "read_file truncated_env log seg off = Some (replicate (16777216 - unat off) 0)"
  "XLogGetLastRemoved truncated_env = (0, 0)"
  by (simp_all add: truncated_env_def demo_env_def)

lemma denied_env_sel:
  "BasicOpenFile denied_env log seg = (- 1, 13)"
  by (simp add: denied_env_def demo_env_def)

lemma truncated_first:
  "XLogRead_body pg_consts truncated_env (demo_sender demo_start) demo_seg_end 300
     = Inr (demo_opened\<lparr>sendOff := 16777116\<rparr>, replicate 100 0)"
  by (simp add: XLogRead_body_def XLogRead_open_def
      XLogRead_seek_def sys_read_def segbytes_of_def XLByteInSeg_def XLByteToSeg_def
      demo_opened_def demo_sender_sel truncated_env_sel pg_consts_sel
      demo_seg_end_def)

lemma truncated_second:
  "XLogRead_body pg_consts truncated_env (demo_opened\<lparr>sendOff := 16777216\<rparr>)
     \<lparr>xlogid = 1, xrecoff = 16777216\<rparr> 200 = Inl WAL_REMOVED"
  by (simp add: XLogRead_body_def XLogRead_open_def XLByteInSeg_def XLByteToSeg_def
      demo_opened_def demo_sender_sel truncated_env_sel pg_consts_sel)

lemma truncated_turns:
  "XLogRead_turns pg_consts truncated_env (demo_sender demo_start) demo_seg_end 300
     = [(demo_sender demo_start, demo_seg_end, 300),
        (demo_opened\<lparr>sendOff := 16777216\<rparr>, \<lparr>xlogid = 1, xrecoff = 16777216\<rparr>, 200)]"
proof -
  have adv: "XLByteAdvance pg_consts demo_seg_end (of_nat (length (replicate 100 (0 :: byte))))
      = \<lparr>xlogid = 1, xrecoff = 16777216\<rparr>"
    by (simp add: XLByteAdvance_def demo_seg_end_def pg_consts_sel)
  have st: "(demo_opened\<lparr>sendOff := 16777116\<rparr>)
       \<lparr>sendOff := sendOff (demo_opened\<lparr>sendOff := 16777116\<rparr>)
          + of_nat (length (replicate 100 (0 :: byte)))\<rparr>
     = demo_opened\<lparr>sendOff := 16777216\<rparr>"
    by simp
  have n: "300 - length (replicate 100 (0 :: byte)) = 200" by simp
  have one: "XLogRead_turns pg_consts truncated_env (demo_opened\<lparr>sendOff := 16777216\<rparr>)
     \<lparr>xlogid = 1, xrecoff = 16777216\<rparr> 200
     = [(demo_opened\<lparr>sendOff := 16777216\<rparr>, \<lparr>xlogid = 1, xrecoff = 16777216\<rparr>, 200)]"
    by (rule XLogRead_turns_raise [OF _ truncated_second]) simp
  have "XLogRead_turns pg_consts truncated_env (demo_sender demo_start) demo_seg_end 300
     = (demo_sender demo_start, demo_seg_end, 300) #
       XLogRead_turns pg_consts truncated_env
         ((demo_opened\<lparr>sendOff := 16777116\<rparr>)
            \<lparr>sendOff := sendOff (demo_opened\<lparr>sendOff := 16777116\<rparr>)
               + of_nat (length (replicate 100 (0 :: byte)))\<rparr>)
         (XLByteAdvance pg_consts demo_seg_end (of_nat (length (replicate 100 (0 :: byte)))))
         (300 - length (replicate 100 (0 :: byte)))"
    by (rule XLogRead_turns_step [OF _ truncated_first]) simp
  then show ?thesis unfolding adv st n one .
qed

lemma truncated_switch:
  "switches_segment pg_consts (demo_opened\<lparr>sendOff := 16777216\<rparr>)
     \<lparr>xlogid = 1, xrecoff = 16777216\<rparr>"
  "open_segment pg_consts truncated_env \<lparr>xlogid = 1, xrecoff = 16777216\<rparr> = (- 1, ENOENT)"
  by (simp_all add: switches_segment_def open_segment_def XLByteInSeg_def XLByteToSeg_def
      demo_opened_def demo_sender_sel truncated_env_sel pg_consts_sel)

lemma missing_switch:
  "switches_segment pg_consts (demo_sender demo_start) demo_start"
  "open_segment pg_consts missing_env demo_start = (- 1, ENOENT)"
  "open_segment pg_consts denied_env demo_start = (- 1, 13)"
  by (simp_all add: switches_segment_def open_segment_def demo_sender_sel missing_env_sel
      denied_env_sel)

lemma stopping_behind_sel:
  "sentPtr stopping_behind = \<lparr>xlogid = 1, xrecoff = 131072\<rparr>"
  "sentPtr stopping = demo_start"
  "map walsnd_sentPtr (WalSndCtl stopping_behind) = [\<lparr>xlogid = 1, xrecoff = 131072\<rparr>]"
  by (simp_all add: stopping_behind_def stopping_def demo_sender_def)

section \<open>The specified properties\<close>

text \<open>
  C1.  Every data frame built by \<open>XLogSend\<close> covers a byte range from its start to its
  end that never crosses a \<open>logId\<close> boundary: the end has the \<open>logId\<close> of the start,
  its offset is the start's offset plus the payload length and does not exceed
  \<open>XLogFileSize\<close>, and when advancing the start by \<open>MAX_SEND_SIZE\<close> reaches the
  end of the logical log file the end is clamped to offset \<open>XLogFileSize\<close> of the
  start's \<open>logId\<close>.  The frame ends at the requested flush position exactly when
  \<open>caughtup\<close> is set, and otherwise the offset of its end is a multiple of
  \<open>XLOG_BLCKSZ\<close>.  This holds for the constants of a build and a flush position
  the writer can report, whenever that position is beyond \<open>sentPtr\<close>.
\<close>

theorem XLogSend_frame_within_logid:
  assumes c: "consts_ok k" and v: "valid_pos k (GetFlushRecPtr env)"
    and r: "XLogSend k env s = Inr (ok, caughtup, s')"
    and lt: "\<not> XLByteLE (GetFlushRecPtr env) (sentPtr s)"
  shows "\<exists>data endptr.
     XLogSend_endptr k (XLogSend_startptr k (sentPtr s)) (GetFlushRecPtr env)
       = (endptr, caughtup) \<and>
     wire_out s' = wire_out s @
       [PutMessage (CHR ''d'') (CHR ''w'')
          \<lparr>dataStart = XLogSend_startptr k (sentPtr s), walEnd = GetFlushRecPtr env,
           sendTime = GetCurrentTimestamp env\<rparr> data, Flush] \<and>
     xlogid endptr = xlogid (XLogSend_startptr k (sentPtr s)) \<and>
     unat (xrecoff (XLogSend_startptr k (sentPtr s))) + length data = unat (xrecoff endptr) \<and>
     xrecoff endptr \<le> XLogFileSize k \<and>
     (XLogFileSize k \<le> xrecoff (XLogSend_startptr k (sentPtr s)) + MAX_SEND_SIZE k \<longrightarrow>
        XLogSend_advance k (XLogSend_startptr k (sentPtr s))
          = \<lparr>xlogid = xlogid (XLogSend_startptr k (sentPtr s)), xrecoff = XLogFileSize k\<rparr>) \<and>
     (caughtup \<longleftrightarrow> endptr = GetFlushRecPtr env) \<and>
     (\<not> caughtup \<longrightarrow> unat (XLOG_BLCKSZ k) dvd unat (xrecoff endptr))"
proof -
  let ?st = "XLogSend_startptr k (sentPtr s)"
  let ?req = "GetFlushRecPtr env"
  from c have f: "0 < XLogFileSize k" by (simp add: consts_ok_def)
  note b = startptr_below [OF f, of "sentPtr s"]
  note le = startptr_le_req [OF v lt]
  from XLogSend_frame [OF r lt] obtain data endptr where
    ep: "XLogSend_endptr k ?st ?req = (endptr, caughtup)"
    and len: "length data = unat (xrecoff endptr - xrecoff ?st)"
    and wire: "wire_out s' = wire_out s @
       [PutMessage (CHR ''d'') (CHR ''w'')
          \<lparr>dataStart = ?st, walEnd = ?req, sendTime = GetCurrentTimestamp env\<rparr> data, Flush]"
    by blast
  note fl = frame_length [OF c b le ep]
  have cu: "caughtup \<longleftrightarrow> endptr = ?req"
  proof (cases caughtup)
    case True
    with ep have "XLogSend_endptr k ?st ?req = (endptr, True)" by simp
    from endptr_caughtup(1) [OF c b le this] True show ?thesis by simp
  next
    case False
    with ep have "XLogSend_endptr k ?st ?req = (endptr, False)" by simp
    from endptr_behind(6) [OF c b this] False show ?thesis
      using XLByteLT_not_refl by auto
  qed
  have pg: "\<not> caughtup \<longrightarrow> unat (XLOG_BLCKSZ k) dvd unat (xrecoff endptr)"
  proof
    assume "\<not> caughtup"
    then have "XLogSend_endptr k ?st ?req = (endptr, False)" using ep by simp
    from endptr_behind(2) [OF c b this] show "unat (XLOG_BLCKSZ k) dvd unat (xrecoff endptr)" .
  qed
  from ep wire fl(1) fl(2) [folded len] fl(3) cu pg advance_clamped [of k ?st]
  show ?thesis by blast
qed

theorem XLogSend_frame_within_logid_witness:
  "(consts_ok pg_consts \<and> valid_pos pg_consts (GetFlushRecPtr (demo_env demo_req False)) \<and>
   XLogSend pg_consts (demo_env demo_req False) (demo_sender demo_start)
     = Inr (True, True, publish_sentPtr (demo_framed\<lparr>sentPtr := demo_req\<rparr>)) \<and>
   \<not> XLByteLE (GetFlushRecPtr (demo_env demo_req False)) (sentPtr (demo_sender demo_start)) \<and>
   (\<exists>data endptr.
      XLogSend_endptr pg_consts (XLogSend_startptr pg_consts demo_start) demo_req
        = (endptr, True) \<and>
      wire_out (publish_sentPtr (demo_framed\<lparr>sentPtr := demo_req\<rparr>)) =
        [PutMessage (CHR ''d'') (CHR ''w'')
           \<lparr>dataStart = XLogSend_startptr pg_consts demo_start, walEnd = demo_req,
            sendTime = 0\<rparr> data, Flush] \<and>
      xlogid endptr = xlogid (XLogSend_startptr pg_consts demo_start) \<and>
      unat (xrecoff (XLogSend_startptr pg_consts demo_start)) + length data
        = unat (xrecoff endptr) \<and>
      xrecoff endptr \<le> XLogFileSize pg_consts \<and>
      endptr = demo_req)) \<and>
   (consts_ok pg_consts \<and> valid_pos pg_consts (GetFlushRecPtr (demo_env demo_far False)) \<and>
   XLogSend pg_consts (demo_env demo_far False) stopping = Inr (True, False, stopping_behind) \<and>
   \<not> XLByteLE (GetFlushRecPtr (demo_env demo_far False)) (sentPtr stopping) \<and>
   (\<exists>data endptr.
     XLogSend_endptr pg_consts (XLogSend_startptr pg_consts (sentPtr stopping)) (GetFlushRecPtr (demo_env demo_far False))
       = (endptr, False) \<and>
     wire_out stopping_behind = wire_out stopping @
       [PutMessage (CHR ''d'') (CHR ''w'')
          \<lparr>dataStart = XLogSend_startptr pg_consts (sentPtr stopping), walEnd = GetFlushRecPtr (demo_env demo_far False),
           sendTime = GetCurrentTimestamp (demo_env demo_far False)\<rparr> data, Flush] \<and>
     xlogid endptr = xlogid (XLogSend_startptr pg_consts (sentPtr stopping)) \<and>
     unat (xrecoff (XLogSend_startptr pg_consts (sentPtr stopping))) + length data = unat (xrecoff endptr) \<and>
     xrecoff endptr \<le> XLogFileSize pg_consts \<and>
     (XLogFileSize pg_consts \<le> xrecoff (XLogSend_startptr pg_consts (sentPtr stopping)) + MAX_SEND_SIZE pg_consts \<longrightarrow>
        XLogSend_advance pg_consts (XLogSend_startptr pg_consts (sentPtr stopping))
          = \<lparr>xlogid = xlogid (XLogSend_startptr pg_consts (sentPtr stopping)), xrecoff = XLogFileSize pg_consts\<rparr>) \<and>
     (False \<longleftrightarrow> endptr = GetFlushRecPtr (demo_env demo_far False)) \<and>
     (\<not> False \<longrightarrow> unat (XLOG_BLCKSZ pg_consts) dvd unat (xrecoff endptr))))"
proof -
  have caught_up: "consts_ok pg_consts \<and> valid_pos pg_consts (GetFlushRecPtr (demo_env demo_req False)) \<and>
   XLogSend pg_consts (demo_env demo_req False) (demo_sender demo_start)
     = Inr (True, True, publish_sentPtr (demo_framed\<lparr>sentPtr := demo_req\<rparr>)) \<and>
   \<not> XLByteLE (GetFlushRecPtr (demo_env demo_req False)) (sentPtr (demo_sender demo_start)) \<and>
   (\<exists>data endptr.
      XLogSend_endptr pg_consts (XLogSend_startptr pg_consts demo_start) demo_req
        = (endptr, True) \<and>
      wire_out (publish_sentPtr (demo_framed\<lparr>sentPtr := demo_req\<rparr>)) =
        [PutMessage (CHR ''d'') (CHR ''w'')
           \<lparr>dataStart = XLogSend_startptr pg_consts demo_start, walEnd = demo_req,
            sendTime = 0\<rparr> data, Flush] \<and>
      xlogid endptr = xlogid (XLogSend_startptr pg_consts demo_start) \<and>
      unat (xrecoff (XLogSend_startptr pg_consts demo_start)) + length data
        = unat (xrecoff endptr) \<and>
      xrecoff endptr \<le> XLogFileSize pg_consts \<and>
      endptr = demo_req)"
  proof -
    have h2: "valid_pos pg_consts (GetFlushRecPtr (demo_env demo_req False))"
      by (simp add: demo_env_sel demo_req_valid)
    have h3: "XLogSend pg_consts (demo_env demo_req False) (demo_sender demo_start)
       = Inr (True, True, publish_sentPtr (demo_framed\<lparr>sentPtr := demo_req\<rparr>))"
      by (simp add: demo_send)
    have h4: "\<not> XLByteLE (GetFlushRecPtr (demo_env demo_req False))
                   (sentPtr (demo_sender demo_start))"
      by (simp add: demo_env_sel demo_behind)
    from XLogSend_frame_within_logid [OF pg_consts_ok h2 h3 h4]
    show ?thesis using pg_consts_ok h2 h3 h4
      by (auto simp add: demo_env_sel demo_sender_sel)
  qed
  have behind: "consts_ok pg_consts \<and> valid_pos pg_consts (GetFlushRecPtr (demo_env demo_far False)) \<and>
   XLogSend pg_consts (demo_env demo_far False) stopping = Inr (True, False, stopping_behind) \<and>
   \<not> XLByteLE (GetFlushRecPtr (demo_env demo_far False)) (sentPtr stopping) \<and>
   (\<exists>data endptr.
     XLogSend_endptr pg_consts (XLogSend_startptr pg_consts (sentPtr stopping)) (GetFlushRecPtr (demo_env demo_far False))
       = (endptr, False) \<and>
     wire_out stopping_behind = wire_out stopping @
       [PutMessage (CHR ''d'') (CHR ''w'')
          \<lparr>dataStart = XLogSend_startptr pg_consts (sentPtr stopping), walEnd = GetFlushRecPtr (demo_env demo_far False),
           sendTime = GetCurrentTimestamp (demo_env demo_far False)\<rparr> data, Flush] \<and>
     xlogid endptr = xlogid (XLogSend_startptr pg_consts (sentPtr stopping)) \<and>
     unat (xrecoff (XLogSend_startptr pg_consts (sentPtr stopping))) + length data = unat (xrecoff endptr) \<and>
     xrecoff endptr \<le> XLogFileSize pg_consts \<and>
     (XLogFileSize pg_consts \<le> xrecoff (XLogSend_startptr pg_consts (sentPtr stopping)) + MAX_SEND_SIZE pg_consts \<longrightarrow>
        XLogSend_advance pg_consts (XLogSend_startptr pg_consts (sentPtr stopping))
          = \<lparr>xlogid = xlogid (XLogSend_startptr pg_consts (sentPtr stopping)), xrecoff = XLogFileSize pg_consts\<rparr>) \<and>
     (False \<longleftrightarrow> endptr = GetFlushRecPtr (demo_env demo_far False)) \<and>
     (\<not> False \<longrightarrow> unat (XLOG_BLCKSZ pg_consts) dvd unat (xrecoff endptr)))"
    using XLogSend_frame_within_logid
            [OF pg_consts_ok demo_far_valid demo_send_behind stopping_is_behind]
      pg_consts_ok demo_far_valid demo_send_behind stopping_is_behind
    by (intro conjI) assumption+
  from caught_up behind show ?thesis by (rule conjI)
qed

text \<open>
  C2.  For every frame \<open>XLogSend\<close> emits (the flush position being beyond
  \<open>sentPtr\<close>), the payload length is at most \<open>MAX_SEND_SIZE\<close>, it is not zero when
  \<open>caughtup\<close> is false, and the start of the data plus the payload length does not
  pass \<open>walEnd\<close>, the flush position observed at the start of the call; the sum
  does not leave the logical log file of the start either.
\<close>

theorem XLogSend_payload_bounds:
  assumes c: "consts_ok k" and v: "valid_pos k (GetFlushRecPtr env)"
    and r: "XLogSend k env s = Inr (ok, caughtup, s')"
    and lt: "\<not> XLByteLE (GetFlushRecPtr env) (sentPtr s)"
  shows "\<exists>hdr data.
     wire_out s' = wire_out s @ [PutMessage (CHR ''d'') (CHR ''w'') hdr data, Flush] \<and>
     walEnd hdr = GetFlushRecPtr env \<and>
     length data \<le> unat (MAX_SEND_SIZE k) \<and>
     (\<not> caughtup \<longrightarrow> length data \<noteq> 0) \<and>
     unat (xrecoff (dataStart hdr)) + length data \<le> unat (XLogFileSize k) \<and>
     XLByteLE \<lparr>xlogid = xlogid (dataStart hdr),
               xrecoff = xrecoff (dataStart hdr) + of_nat (length data)\<rparr> (walEnd hdr)"
proof -
  let ?st = "XLogSend_startptr k (sentPtr s)"
  let ?req = "GetFlushRecPtr env"
  let ?hdr = "\<lparr>dataStart = ?st, walEnd = ?req, sendTime = GetCurrentTimestamp env\<rparr>"
  from c have f: "0 < XLogFileSize k" by (simp add: consts_ok_def)
  note b = startptr_below [OF f, of "sentPtr s"]
  note le = startptr_le_req [OF v lt]
  from XLogSend_frame [OF r lt] obtain data endptr where
    ep: "XLogSend_endptr k ?st ?req = (endptr, caughtup)"
    and len: "length data = unat (xrecoff endptr - xrecoff ?st)"
    and wire: "wire_out s' = wire_out s @ [PutMessage (CHR ''d'') (CHR ''w'') ?hdr data, Flush]"
    by blast
  note fl = frame_length [OF c b le ep]
  have nz: "\<not> caughtup \<longrightarrow> length data \<noteq> 0"
  proof
    assume "\<not> caughtup"
    then have "XLogSend_endptr k ?st ?req = (endptr, False)" using ep by simp
    from endptr_behind(3) [OF c b this] have "unat (xrecoff ?st) < unat (xrecoff endptr)"
      by (simp add: word_less_nat_alt)
    with fl(2) len show "length data \<noteq> 0" by simp
  qed
  from fl(2) fl(3) len have within: "unat (xrecoff ?st) + length data \<le> unat (XLogFileSize k)"
    by (simp add: word_le_nat_alt)
  have "xrecoff ?st + of_nat (length data) = xrecoff endptr"
    by (simp add: len)
  with fl(1) have "\<lparr>xlogid = xlogid ?st, xrecoff = xrecoff ?st + of_nat (length data)\<rparr> = endptr"
    by simp
  with fl(5) have upto: "XLByteLE \<lparr>xlogid = xlogid ?st,
      xrecoff = xrecoff ?st + of_nat (length data)\<rparr> ?req"
    by simp
  have "wire_out s' = wire_out s @ [PutMessage (CHR ''d'') (CHR ''w'') ?hdr data, Flush] \<and>
     walEnd ?hdr = ?req \<and> length data \<le> unat (MAX_SEND_SIZE k) \<and>
     (\<not> caughtup \<longrightarrow> length data \<noteq> 0) \<and>
     unat (xrecoff (dataStart ?hdr)) + length data \<le> unat (XLogFileSize k) \<and>
     XLByteLE \<lparr>xlogid = xlogid (dataStart ?hdr),
               xrecoff = xrecoff (dataStart ?hdr) + of_nat (length data)\<rparr> (walEnd ?hdr)"
    using wire fl(4) len nz within upto by simp
  then show ?thesis by blast
qed

theorem XLogSend_payload_bounds_witness:
  "(consts_ok pg_consts \<and> valid_pos pg_consts (GetFlushRecPtr (demo_env demo_req False)) \<and>
   XLogSend pg_consts (demo_env demo_req False) (demo_sender demo_start)
     = Inr (True, True, publish_sentPtr (demo_framed\<lparr>sentPtr := demo_req\<rparr>)) \<and>
   \<not> XLByteLE (GetFlushRecPtr (demo_env demo_req False)) (sentPtr (demo_sender demo_start)) \<and>
   (\<exists>hdr data.
      wire_out (publish_sentPtr (demo_framed\<lparr>sentPtr := demo_req\<rparr>)) =
        [PutMessage (CHR ''d'') (CHR ''w'') hdr data, Flush] \<and>
      walEnd hdr = demo_req \<and>
      length data \<le> unat (MAX_SEND_SIZE pg_consts) \<and>
      unat (xrecoff (dataStart hdr)) + length data \<le> unat (XLogFileSize pg_consts) \<and>
      XLByteLE \<lparr>xlogid = xlogid (dataStart hdr),
                xrecoff = xrecoff (dataStart hdr) + of_nat (length data)\<rparr> (walEnd hdr))) \<and>
   (consts_ok pg_consts \<and> valid_pos pg_consts (GetFlushRecPtr (demo_env demo_far False)) \<and>
   XLogSend pg_consts (demo_env demo_far False) stopping = Inr (True, False, stopping_behind) \<and>
   \<not> XLByteLE (GetFlushRecPtr (demo_env demo_far False)) (sentPtr stopping) \<and>
   (\<exists>hdr data.
     wire_out stopping_behind = wire_out stopping @ [PutMessage (CHR ''d'') (CHR ''w'') hdr data, Flush] \<and>
     walEnd hdr = GetFlushRecPtr (demo_env demo_far False) \<and>
     length data \<le> unat (MAX_SEND_SIZE pg_consts) \<and>
     (\<not> False \<longrightarrow> length data \<noteq> 0) \<and>
     unat (xrecoff (dataStart hdr)) + length data \<le> unat (XLogFileSize pg_consts) \<and>
     XLByteLE \<lparr>xlogid = xlogid (dataStart hdr),
               xrecoff = xrecoff (dataStart hdr) + of_nat (length data)\<rparr> (walEnd hdr)))"
proof -
  have caught_up: "consts_ok pg_consts \<and> valid_pos pg_consts (GetFlushRecPtr (demo_env demo_req False)) \<and>
   XLogSend pg_consts (demo_env demo_req False) (demo_sender demo_start)
     = Inr (True, True, publish_sentPtr (demo_framed\<lparr>sentPtr := demo_req\<rparr>)) \<and>
   \<not> XLByteLE (GetFlushRecPtr (demo_env demo_req False)) (sentPtr (demo_sender demo_start)) \<and>
   (\<exists>hdr data.
      wire_out (publish_sentPtr (demo_framed\<lparr>sentPtr := demo_req\<rparr>)) =
        [PutMessage (CHR ''d'') (CHR ''w'') hdr data, Flush] \<and>
      walEnd hdr = demo_req \<and>
      length data \<le> unat (MAX_SEND_SIZE pg_consts) \<and>
      unat (xrecoff (dataStart hdr)) + length data \<le> unat (XLogFileSize pg_consts) \<and>
      XLByteLE \<lparr>xlogid = xlogid (dataStart hdr),
                xrecoff = xrecoff (dataStart hdr) + of_nat (length data)\<rparr> (walEnd hdr))"
  proof -
    have h2: "valid_pos pg_consts (GetFlushRecPtr (demo_env demo_req False))"
      by (simp add: demo_env_sel demo_req_valid)
    have h3: "XLogSend pg_consts (demo_env demo_req False) (demo_sender demo_start)
       = Inr (True, True, publish_sentPtr (demo_framed\<lparr>sentPtr := demo_req\<rparr>))"
      by (simp add: demo_send)
    have h4: "\<not> XLByteLE (GetFlushRecPtr (demo_env demo_req False))
                   (sentPtr (demo_sender demo_start))"
      by (simp add: demo_env_sel demo_behind)
    from XLogSend_payload_bounds [OF pg_consts_ok h2 h3 h4]
    show ?thesis using pg_consts_ok h2 h3 h4
      by (auto simp add: demo_env_sel demo_sender_sel)
  qed
  have behind: "consts_ok pg_consts \<and> valid_pos pg_consts (GetFlushRecPtr (demo_env demo_far False)) \<and>
   XLogSend pg_consts (demo_env demo_far False) stopping = Inr (True, False, stopping_behind) \<and>
   \<not> XLByteLE (GetFlushRecPtr (demo_env demo_far False)) (sentPtr stopping) \<and>
   (\<exists>hdr data.
     wire_out stopping_behind = wire_out stopping @ [PutMessage (CHR ''d'') (CHR ''w'') hdr data, Flush] \<and>
     walEnd hdr = GetFlushRecPtr (demo_env demo_far False) \<and>
     length data \<le> unat (MAX_SEND_SIZE pg_consts) \<and>
     (\<not> False \<longrightarrow> length data \<noteq> 0) \<and>
     unat (xrecoff (dataStart hdr)) + length data \<le> unat (XLogFileSize pg_consts) \<and>
     XLByteLE \<lparr>xlogid = xlogid (dataStart hdr),
               xrecoff = xrecoff (dataStart hdr) + of_nat (length data)\<rparr> (walEnd hdr))"
    using XLogSend_payload_bounds
            [OF pg_consts_ok demo_far_valid demo_send_behind stopping_is_behind]
      pg_consts_ok demo_far_valid demo_send_behind stopping_is_behind
    by (intro conjI) assumption+
  from caught_up behind show ?thesis by (rule conjI)
qed

text \<open>
  C3.  Over a sender's lifetime the values it stores into the \<open>sentPtr\<close> of a slot
  are non-decreasing in the order \<open>XLByteLE\<close> on \<open>(logId, recOff)\<close>: this holds for the
  stores done up to any point of any run of \<open>WalSenderMain\<close> from a freshly forked
  process.  The first store, on acquiring the slot, is (0, 0); after the handshake the
  start position is stored; and every call of \<open>XLogSend\<close> leaves \<open>sentPtr\<close> at or
  beyond its old value and, when it sent a frame and the flush succeeded, stores the
  new \<open>sentPtr\<close>.  (The build constants are as in \<open>consts_ok\<close> and the writer reports
  flush positions with \<open>recOff \<le> XLogFileSize\<close>.)
\<close>

theorem sentPtr_published_nondecreasing:
  assumes c: "consts_ok k"
    and fresh: "shmem_log s = []" "MyWalSnd s = None"
    and valid: "\<forall>ev \<in> set loop_evs. valid_pos k (GetFlushRecPtr (flush_env ev)) \<and>
                                   valid_pos k (GetFlushRecPtr (send_env ev))"
  shows
    "sorted_wrt XLByteLE
       (published i (shmem_log (run_state
          (WalSenderMain k MyProcPid max_wal_senders RecoveryInProgress hs_evs loop_evs s)))) \<and>
     (\<forall>s1. InitWalSnd MyProcPid max_wal_senders s = Inr s1 \<longrightarrow>
        (\<exists>j. MyWalSnd s1 = Some j \<and>
             published j (shmem_log s1) = [\<lparr>xlogid = 0, xrecoff = 0\<rparr>])) \<and>
     (\<forall>s2 j. MyWalSnd s2 = Some j \<longrightarrow>
        published j (shmem_log (publish_sentPtr s2))
          = published j (shmem_log s2) @ [sentPtr s2]) \<and>
     (\<forall>env t ok caughtup t'.
        valid_pos k (GetFlushRecPtr env) \<and> XLogSend k env t = Inr (ok, caughtup, t') \<longrightarrow>
          XLByteLE (sentPtr t) (sentPtr t') \<and>
          published i (shmem_log t') = published i (shmem_log t) @
            (if ok \<and> \<not> XLByteLE (GetFlushRecPtr env) (sentPtr t) \<and> MyWalSnd t = Some i
             then [sentPtr t'] else []))"
proof -
  let ?zero = "\<lparr>xlogid = 0, xrecoff = 0\<rparr> :: XLogRecPtr"
  let ?run = "WalSenderMain k MyProcPid max_wal_senders RecoveryInProgress hs_evs loop_evs s"
  have main: "sorted_wrt XLByteLE (published i (shmem_log (run_state ?run)))"
  proof (cases RecoveryInProgress)
    case True
    with fresh show ?thesis by (simp add: WalSenderMain_def)
  next
    case False
    show ?thesis
    proof (cases "InitWalSnd MyProcPid max_wal_senders s")
      case (Inl e)
      then have "MyWalSnd (InitWalSnd_scan MyProcPid max_wal_senders 0 s) = None"
        by (auto simp: InitWalSnd_def Let_def split: if_splits)
      with InitWalSnd_scan_published [OF fresh(2), of i MyProcPid max_wal_senders 0] fresh(1)
      have "published i (shmem_log (InitWalSnd_scan MyProcPid max_wal_senders 0 s)) = []"
        by simp
      with False Inl show ?thesis by (simp add: WalSenderMain_def)
    next
      case (Inr s1)
      from InitWalSnd_published(2) [OF fresh(2) Inr, of i] fresh(1)
      have z1: "\<forall>p \<in> set (published i (shmem_log s1)). p = ?zero" by simp
      let ?s1 = "s1\<lparr>wire_out := wire_out s1 @ [ReadyForQuery]\<rparr>"
      show ?thesis
      proof (cases "WalSndHandshake hs_evs ?s1")
        case hs: (Inl r)
        then have "(case WalSndHandshake hs_evs ?s1 of Inl r \<Rightarrow> run_state r | Inr s' \<Rightarrow> s')
            = run_state r"
          by simp
        from WalSndHandshake_published [OF this, of i] z1
        have "\<forall>p \<in> set (published i (shmem_log (run_state r))). p = ?zero" by simp
        then have "sorted_wrt XLByteLE (published i (shmem_log (run_state r)))"
          by (rule sorted_wrt_all_equal) (rule XLByteLE_refl)
        with False Inr hs show ?thesis by (simp add: WalSenderMain_def)
      next
        case hs: (Inr s2)
        then have "(case WalSndHandshake hs_evs ?s1 of Inl r \<Rightarrow> run_state r | Inr s' \<Rightarrow> s')
            = s2"
          by simp
        from WalSndHandshake_published [OF this, of i] z1
        have z2: "\<forall>p \<in> set (published i (shmem_log s2)). p = ?zero" by simp
        then have so: "sorted_wrt XLByteLE (published i (shmem_log s2))"
          by (rule sorted_wrt_all_equal) (rule XLByteLE_refl)
        from z2 have below: "\<forall>p \<in> set (published i (shmem_log s2)). XLByteLE p q" for q
          by (auto simp: XLByteLE_zero)
        have "stores_ordered i (publish_sentPtr s2)"
          unfolding stores_ordered_def
          using so below
          by (auto simp: publish_sentPtr_fields publish_sentPtr_shmem published_append
              sorted_wrt_append XLByteLE_refl split: option.splits)
        from WalSndLoop_from_stores_ordered [OF c valid this, of False]
        have "sorted_wrt XLByteLE
            (published i (shmem_log (run_state (WalSndLoop k loop_evs (publish_sentPtr s2)))))"
          by (simp add: stores_ordered_def WalSndLoop_def)
        with False Inr hs show ?thesis by (simp add: WalSenderMain_def)
      qed
    qed
  qed
  have init: "\<exists>j. MyWalSnd s1 = Some j \<and> published j (shmem_log s1) = [?zero]"
    if "InitWalSnd MyProcPid max_wal_senders s = Inr s1" for s1
    using InitWalSnd_published(1) [OF fresh(2) that] fresh(1) by simp
  have pub: "published j (shmem_log (publish_sentPtr s2))
          = published j (shmem_log s2) @ [sentPtr s2]"
    if "MyWalSnd s2 = Some j" for s2 j
    using that by (simp add: publish_sentPtr_shmem published_append)
  have send: "XLByteLE (sentPtr t) (sentPtr t') \<and>
          published i (shmem_log t') = published i (shmem_log t) @
            (if ok \<and> \<not> XLByteLE (GetFlushRecPtr env) (sentPtr t) \<and> MyWalSnd t = Some i
             then [sentPtr t'] else [])"
    if "valid_pos k (GetFlushRecPtr env) \<and> XLogSend k env t = Inr (ok, caughtup, t')"
    for env t ok caughtup t'
  proof -
    from that have v: "valid_pos k (GetFlushRecPtr env)"
      and r: "XLogSend k env t = Inr (ok, caughtup, t')" by simp_all
    from XLogSend_advances(1) [OF c v r] XLogSend_advances(2) [OF c v r, of i]
    show ?thesis by simp
  qed
  from main init pub send show ?thesis by blast
qed

theorem sentPtr_published_nondecreasing_witness:
  "consts_ok pg_consts \<and> shmem_log (forked [demo_slot 0]) = [] \<and>
   MyWalSnd (forked [demo_slot 0]) = None \<and>
   valid_pos pg_consts (GetFlushRecPtr (flush_env plain_env)) \<and>
   valid_pos pg_consts (GetFlushRecPtr (send_env plain_env)) \<and>
   published 0 (shmem_log (run_state demo_life))
     = [\<lparr>xlogid = 0, xrecoff = 0\<rparr>, demo_start, demo_req] \<and>
   sorted_wrt XLByteLE (published 0 (shmem_log (run_state demo_life)))"
proof -
  have h2: "shmem_log (forked [demo_slot 0]) = []" "MyWalSnd (forked [demo_slot 0]) = None"
    by (simp_all add: forked_sel)
  have v: "valid_pos pg_consts (GetFlushRecPtr (flush_env plain_env))"
    "valid_pos pg_consts (GetFlushRecPtr (send_env plain_env))"
    by (simp_all add: plain_env_sel demo_env_sel demo_req_valid)
  then have h3: "\<forall>ev \<in> set [plain_env].
      valid_pos pg_consts (GetFlushRecPtr (flush_env ev)) \<and>
      valid_pos pg_consts (GetFlushRecPtr (send_env ev))"
    by simp
  from sentPtr_published_nondecreasing
         [OF pg_consts_ok h2 h3, of 0 4711 1 False "[start_env]"]
  have "sorted_wrt XLByteLE (published 0 (shmem_log (run_state demo_life)))"
    unfolding demo_life_def by blast
  with pg_consts_ok h2 v demo_life_published show ?thesis by blast
qed

text \<open>
  C4, as stated, fails: a read that delivers fewer bytes than were asked for, but at
  least one, does not make \<open>XLogRead\<close> fail.  Here the first read is asked for 300
  bytes and delivers 100, and the call returns the 300 bytes after two more reads.
\<close>

theorem XLogRead_short_read_counterexample:
  "segbytes_of pg_consts (xrecoff demo_start mod XLogSegSize pg_consts) 300 = 300 \<and>
   sys_read short_read_env (demo_opened\<lparr>sendOff := 0\<rparr>) 300 = Some (replicate 100 0) \<and>
   length (replicate 100 (0 :: byte)) < 300 \<and>
   XLogRead_body pg_consts short_read_env (demo_sender demo_start) demo_start 300
     = Inr (demo_opened\<lparr>sendOff := 0\<rparr>, replicate 100 0) \<and>
   XLogRead pg_consts short_read_env (demo_sender demo_start) demo_start 300
     = Inr (demo_opened\<lparr>sendOff := 300\<rparr>,
            replicate 100 0 @ replicate 100 0 @ replicate 100 0) \<and>
   XLogRead pg_consts short_read_env (demo_sender demo_start) demo_start 300 \<noteq> Inl IO_ERROR"
proof -
  have sb: "segbytes_of pg_consts (xrecoff demo_start mod XLogSegSize pg_consts) 300 = 300"
    by (simp add: segbytes_of_def demo_start_def pg_consts_sel)
  have body: "XLogRead_body pg_consts short_read_env (demo_sender demo_start) demo_start 300
     = Inr (demo_opened\<lparr>sendOff := 0\<rparr>, replicate 100 0)"
    by (simp add: XLogRead_body_def Let_def short_read_open short_read_seek sb short_read_first)
  have ne: "XLogRead pg_consts short_read_env (demo_sender demo_start) demo_start 300
     \<noteq> Inl IO_ERROR"
    by (simp add: short_read_all)
  have len: "length (replicate 100 (0 :: byte)) < 300" by simp
  from sb short_read_first len body short_read_all ne show ?thesis by blast
qed

text \<open>
  C4, amended.  Each read of \<open>XLogRead\<close> asks for
  \<open>min nbytes (XLogSegSize - startoff)\<close> bytes.  A read that fails or delivers no
  byte makes the whole call fail with \<open>IO_ERROR\<close>; a read that delivers at least one
  byte, even fewer than asked for, does not: the loop goes on at the advanced position
  for the bytes that are left.
\<close>

theorem XLogRead_read_outcomes:
  assumes n: "0 < nbytes" and seg: "0 < XLogSegSize k"
    and o: "XLogRead_open k env s recptr = Inr s1"
    and sk: "XLogRead_seek env s1 (xrecoff recptr mod XLogSegSize k) = Inr s2"
  shows
    "segbytes_of k (xrecoff recptr mod XLogSegSize k) nbytes
       = min nbytes (unat (XLogSegSize k) - unat (xrecoff recptr mod XLogSegSize k)) \<and>
     (sys_read env s2
        (min nbytes (unat (XLogSegSize k) - unat (xrecoff recptr mod XLogSegSize k))) = None \<or>
      sys_read env s2
        (min nbytes (unat (XLogSegSize k) - unat (xrecoff recptr mod XLogSegSize k))) = Some []
      \<longrightarrow> XLogRead_loop k env s buf recptr nbytes = Inl IO_ERROR \<and>
          XLogRead k env s recptr nbytes = Inl IO_ERROR) \<and>
     (\<forall>data.
        sys_read env s2
          (min nbytes (unat (XLogSegSize k) - unat (xrecoff recptr mod XLogSegSize k)))
          = Some data \<and> data \<noteq> []
        \<longrightarrow> XLogRead_loop k env s buf recptr nbytes =
              XLogRead_loop k env (s2\<lparr>sendOff := sendOff s2 + of_nat (length data)\<rparr>)
                (buf @ data) (XLByteAdvance k recptr (of_nat (length data)))
                (nbytes - length data))"
proof -
  let ?off = "xrecoff recptr mod XLogSegSize k"
  let ?m = "min nbytes (unat (XLogSegSize k) - unat ?off)"
  note sb = segbytes_of_min [OF seg, of "xrecoff recptr" nbytes]
  have body: "XLogRead_body k env s recptr nbytes =
      (case sys_read env s2 ?m of
         None \<Rightarrow> Inl IO_ERROR
       | Some data \<Rightarrow> if length data \<le> 0 then Inl IO_ERROR else Inr (s2, data))"
    by (simp add: XLogRead_body_def Let_def o sk sb)
  have fail: "XLogRead_loop k env s b recptr nbytes = Inl IO_ERROR"
    if "sys_read env s2 ?m = None \<or> sys_read env s2 ?m = Some []" for b
    using that n body by auto
  have fail2: "XLogRead k env s recptr nbytes = Inl IO_ERROR"
    if "sys_read env s2 ?m = None \<or> sys_read env s2 ?m = Some []"
    using fail [OF that, of "[]"] by (simp add: XLogRead_def)
  have go: "XLogRead_loop k env s buf recptr nbytes =
              XLogRead_loop k env (s2\<lparr>sendOff := sendOff s2 + of_nat (length data)\<rparr>)
                (buf @ data) (XLByteAdvance k recptr (of_nat (length data)))
                (nbytes - length data)"
    if "sys_read env s2 ?m = Some data \<and> data \<noteq> []" for data
    using that n body by (subst XLogRead_loop.simps) simp
  from sb fail fail2 go show ?thesis by blast
qed

theorem XLogRead_read_outcomes_witness:
  "(0 :: nat) < 300 \<and> 0 < XLogSegSize pg_consts \<and>
   XLogRead_open pg_consts short_read_env (demo_sender demo_start) demo_start
     = Inr (demo_opened\<lparr>sendOff := 0\<rparr>) \<and>
   XLogRead_seek short_read_env (demo_opened\<lparr>sendOff := 0\<rparr>)
     (xrecoff demo_start mod XLogSegSize pg_consts) = Inr (demo_opened\<lparr>sendOff := 0\<rparr>) \<and>
   segbytes_of pg_consts (xrecoff demo_start mod XLogSegSize pg_consts) 300
     = min 300 (unat (XLogSegSize pg_consts)
                 - unat (xrecoff demo_start mod XLogSegSize pg_consts)) \<and>
   sys_read short_read_env (demo_opened\<lparr>sendOff := 0\<rparr>)
     (min 300 (unat (XLogSegSize pg_consts)
                 - unat (xrecoff demo_start mod XLogSegSize pg_consts)))
     = Some (replicate 100 0) \<and>
   XLogRead_loop pg_consts short_read_env (demo_sender demo_start) [] demo_start 300 =
     XLogRead_loop pg_consts short_read_env
       (demo_opened\<lparr>sendOff := 0,
          sendOff := sendOff (demo_opened\<lparr>sendOff := 0\<rparr>)
                       + of_nat (length (replicate 100 (0 :: byte)))\<rparr>)
       ([] @ replicate 100 0)
       (XLByteAdvance pg_consts demo_start (of_nat (length (replicate 100 (0 :: byte)))))
       (300 - length (replicate 100 (0 :: byte)))"
proof -
  have h1: "(0 :: nat) < 300" by simp
  have h2: "0 < XLogSegSize pg_consts" by (simp add: pg_consts_sel)
  have m: "min 300 (unat (XLogSegSize pg_consts)
                 - unat (xrecoff demo_start mod XLogSegSize pg_consts)) = 300"
    by (simp add: pg_consts_sel demo_start_def)
  have rd: "sys_read short_read_env (demo_opened\<lparr>sendOff := 0\<rparr>)
     (min 300 (unat (XLogSegSize pg_consts)
                 - unat (xrecoff demo_start mod XLogSegSize pg_consts)))
     = Some (replicate 100 0)"
    by (simp only: m short_read_first)
  have ne: "replicate 100 (0 :: byte) \<noteq> []" by simp
  from XLogRead_read_outcomes [OF h1 h2 short_read_open short_read_seek, of "[]"]
    h1 h2 short_read_open short_read_seek rd ne
  show ?thesis by blast
qed

text \<open>
  C5.  \<open>XLogRead\<close> fails with \<open>WAL_REMOVED\<close> in exactly two situations.  Either
  some turn of its loop has to open the segment file of its position and the open fails
  with \<open>ENOENT\<close>; or the loop has copied all \<open>nbytes\<close> bytes and the segment of the
  original start position is at or below the \<open>lastRemoved\<close> watermark.  Whenever a
  turn's open fails, \<open>XLogRead\<close> itself fails: with \<open>WAL_REMOVED\<close> if \<open>errno\<close> is
  \<open>ENOENT\<close> and with \<open>IO_ERROR\<close> otherwise; so it does in particular for the first
  turn of a read of at least one byte.  After the loop only the start position enters
  the test against the watermark.
\<close>

theorem XLogRead_WAL_REMOVED:
  "(XLogRead k env s recptr nbytes = Inl WAL_REMOVED \<longleftrightarrow>
      (\<exists>(s', rp', n') \<in> set (XLogRead_turns k env s recptr nbytes).
         switches_segment k s' rp' \<and> fst (open_segment k env rp') < 0 \<and>
         snd (open_segment k env rp') = ENOENT) \<or>
      (\<exists>s' buf. XLogRead_loop k env s [] recptr nbytes = Inr (s', buf) \<and>
         length buf = nbytes \<and>
         (fst (XLByteToSeg k recptr) < fst (XLogGetLastRemoved env) \<or>
          fst (XLByteToSeg k recptr) = fst (XLogGetLastRemoved env) \<and>
          snd (XLByteToSeg k recptr) \<le> snd (XLogGetLastRemoved env)))) \<and>
   (\<forall>(s', rp', n') \<in> set (XLogRead_turns k env s recptr nbytes).
      switches_segment k s' rp' \<and> fst (open_segment k env rp') < 0 \<longrightarrow>
      XLogRead k env s recptr nbytes =
        Inl (if snd (open_segment k env rp') = ENOENT then WAL_REMOVED else IO_ERROR)) \<and>
   (0 < nbytes \<and> switches_segment k s recptr \<and> fst (open_segment k env recptr) < 0 \<longrightarrow>
      XLogRead k env s recptr nbytes =
        Inl (if snd (open_segment k env recptr) = ENOENT then WAL_REMOVED else IO_ERROR)) \<and>
   (\<forall>s' buf. XLogRead_loop k env s [] recptr nbytes = Inr (s', buf) \<longrightarrow>
      XLogRead k env s recptr nbytes =
        (if fst (XLByteToSeg k recptr) < fst (XLogGetLastRemoved env) \<or>
            fst (XLByteToSeg k recptr) = fst (XLogGetLastRemoved env) \<and>
            snd (XLByteToSeg k recptr) \<le> snd (XLogGetLastRemoved env)
         then Inl WAL_REMOVED else Inr (s', buf))) \<and>
   (\<forall>s1 rp n. XLogRead_body k env s1 rp n = Inl WAL_REMOVED \<longleftrightarrow>
      switches_segment k s1 rp \<and> fst (open_segment k env rp) < 0 \<and>
      snd (open_segment k env rp) = ENOENT)"
proof -
  let ?turns = "XLogRead_turns k env s recptr nbytes"
  have removed: "already_removed k env recptr \<longleftrightarrow>
         (fst (XLByteToSeg k recptr) < fst (XLogGetLastRemoved env) \<or>
          fst (XLByteToSeg k recptr) = fst (XLogGetLastRemoved env) \<and>
          snd (XLByteToSeg k recptr) \<le> snd (XLogGetLastRemoved env))"
    by (cases "XLogGetLastRemoved env"; cases "XLByteToSeg k recptr")
       (simp add: already_removed_def)
  have raised: "XLogRead k env s recptr nbytes = Inl e"
    if "XLogRead_loop k env s [] recptr nbytes = Inl e" for e
    using that by (simp add: XLogRead_def del: XLogRead_loop.simps)
  have loop: "XLogRead_loop k env s [] recptr nbytes = Inl WAL_REMOVED \<longleftrightarrow>
      (\<exists>(s', rp', n') \<in> set ?turns.
         switches_segment k s' rp' \<and> fst (open_segment k env rp') < 0 \<and>
         snd (open_segment k env rp') = ENOENT)"
    unfolding XLogRead_loop_error XLogRead_body_enoent ..
  have a: "XLogRead k env s recptr nbytes = Inl WAL_REMOVED \<longleftrightarrow>
      XLogRead_loop k env s [] recptr nbytes = Inl WAL_REMOVED \<or>
      (\<exists>s' buf. XLogRead_loop k env s [] recptr nbytes = Inr (s', buf) \<and>
         length buf = nbytes \<and> already_removed k env recptr)"
  proof (cases "XLogRead_loop k env s [] recptr nbytes")
    case (Inl e)
    then show ?thesis by (simp add: XLogRead_def del: XLogRead_loop.simps)
  next
    case (Inr x)
    obtain s' buf where x: "x = (s', buf)" by (cases x)
    from XLogRead_loop_result [OF Inr [unfolded x]] have "length buf = nbytes" by simp
    with Inr x show ?thesis by (simp add: XLogRead_def del: XLogRead_loop.simps)
  qed
  have turn: "XLogRead k env s recptr nbytes =
        Inl (if snd (open_segment k env rp') = ENOENT then WAL_REMOVED else IO_ERROR)"
    if mem: "(s', rp', n') \<in> set ?turns"
      and sw: "switches_segment k s' rp'" and fd: "fst (open_segment k env rp') < 0"
    for s' rp' n'
  proof -
    from sw fd have "XLogRead_open k env s' rp' =
        Inl (if snd (open_segment k env rp') = ENOENT then WAL_REMOVED else IO_ERROR)"
      unfolding XLogRead_open_error switches_segment_def open_segment_def by simp
    then have "XLogRead_body k env s' rp' n' =
        Inl (if snd (open_segment k env rp') = ENOENT then WAL_REMOVED else IO_ERROR)"
      by (rule XLogRead_body_open_failed)
    with mem have "XLogRead_loop k env s [] recptr nbytes =
        Inl (if snd (open_segment k env rp') = ENOENT then WAL_REMOVED else IO_ERROR)"
      unfolding XLogRead_loop_error by blast
    then show ?thesis by (rule raised)
  qed
  have b: "\<forall>(s', rp', n') \<in> set ?turns.
      switches_segment k s' rp' \<and> fst (open_segment k env rp') < 0 \<longrightarrow>
      XLogRead k env s recptr nbytes =
        Inl (if snd (open_segment k env rp') = ENOENT then WAL_REMOVED else IO_ERROR)"
    using turn by blast
  have c: "0 < nbytes \<and> switches_segment k s recptr \<and> fst (open_segment k env recptr) < 0 \<longrightarrow>
      XLogRead k env s recptr nbytes =
        Inl (if snd (open_segment k env recptr) = ENOENT then WAL_REMOVED else IO_ERROR)"
    using turn [of s recptr nbytes] XLogRead_turns_head [of nbytes s recptr k env] by blast
  have d: "\<forall>s' buf. XLogRead_loop k env s [] recptr nbytes = Inr (s', buf) \<longrightarrow>
      XLogRead k env s recptr nbytes =
        (if already_removed k env recptr then Inl WAL_REMOVED else Inr (s', buf))"
    by (simp add: XLogRead_def del: XLogRead_loop.simps)
  have e: "\<forall>s1 rp n. XLogRead_body k env s1 rp n = Inl WAL_REMOVED \<longleftrightarrow>
      switches_segment k s1 rp \<and> fst (open_segment k env rp) < 0 \<and>
      snd (open_segment k env rp) = ENOENT"
    using XLogRead_body_enoent by blast
  from a [unfolded loop removed] b c d [unfolded removed] e show ?thesis
    by (intro conjI) assumption+
qed

theorem XLogRead_WAL_REMOVED_witness:
  "switches_segment pg_consts (demo_sender demo_start) demo_start \<and>
   open_segment pg_consts missing_env demo_start = (- 1, ENOENT) \<and>
   XLogRead pg_consts missing_env (demo_sender demo_start) demo_start 300 = Inl WAL_REMOVED \<and>
   open_segment pg_consts denied_env demo_start = (- 1, 13) \<and>
   XLogRead pg_consts denied_env (demo_sender demo_start) demo_start 300 = Inl IO_ERROR \<and>
   XLogRead_turns pg_consts truncated_env (demo_sender demo_start) demo_seg_end 300
     = [(demo_sender demo_start, demo_seg_end, 300),
        (demo_opened\<lparr>sendOff := 16777216\<rparr>, \<lparr>xlogid = 1, xrecoff = 16777216\<rparr>, 200)] \<and>
   switches_segment pg_consts (demo_opened\<lparr>sendOff := 16777216\<rparr>)
     \<lparr>xlogid = 1, xrecoff = 16777216\<rparr> \<and>
   open_segment pg_consts truncated_env \<lparr>xlogid = 1, xrecoff = 16777216\<rparr> = (- 1, ENOENT) \<and>
   XLogRead pg_consts truncated_env (demo_sender demo_start) demo_seg_end 300
     = Inl WAL_REMOVED \<and>
   XLogRead_loop pg_consts recycled_env (demo_sender demo_start) [] demo_start 300
     = Inr (demo_opened\<lparr>sendOff := 300\<rparr>, replicate 300 0) \<and>
   fst (XLByteToSeg pg_consts demo_start) = fst (XLogGetLastRemoved recycled_env) \<and>
   snd (XLByteToSeg pg_consts demo_start) \<le> snd (XLogGetLastRemoved recycled_env) \<and>
   XLogRead pg_consts recycled_env (demo_sender demo_start) demo_start 300 = Inl WAL_REMOVED"
proof -
  have n: "0 < (300 :: nat)" by simp
  have enoent: "(if snd (- 1 :: int, ENOENT) = ENOENT then WAL_REMOVED else IO_ERROR) = WAL_REMOVED"
    by simp
  have eacces: "(if snd (- 1 :: int, 13 :: int) = ENOENT then WAL_REMOVED else IO_ERROR)
      = IO_ERROR"
    by (simp add: ENOENT_def)
  have neg: "fst (- 1 :: int, e :: int) < 0" for e by simp
  note t1 = XLogRead_WAL_REMOVED
    [of pg_consts missing_env "demo_sender demo_start" demo_start 300]
  note t2 = XLogRead_WAL_REMOVED
    [of pg_consts denied_env "demo_sender demo_start" demo_start 300]
  note t3 = XLogRead_WAL_REMOVED
    [of pg_consts truncated_env "demo_sender demo_start" demo_seg_end 300]
  note t4 = XLogRead_WAL_REMOVED
    [of pg_consts recycled_env "demo_sender demo_start" demo_start 300]
  from t1 n missing_switch(1) neg [of ENOENT]
  have r1: "XLogRead pg_consts missing_env (demo_sender demo_start) demo_start 300
      = Inl WAL_REMOVED"
    unfolding missing_switch(2) enoent by blast
  from t2 n missing_switch(1) neg [of 13]
  have r2: "XLogRead pg_consts denied_env (demo_sender demo_start) demo_start 300
      = Inl IO_ERROR"
    unfolding missing_switch(3) eacces by blast
  have mem: "(demo_opened\<lparr>sendOff := 16777216\<rparr>, \<lparr>xlogid = 1, xrecoff = 16777216\<rparr>, 200)
      \<in> set (XLogRead_turns pg_consts truncated_env (demo_sender demo_start) demo_seg_end 300)"
    unfolding truncated_turns by simp
  have third: "\<exists>(s', rp', n')
        \<in> set (XLogRead_turns pg_consts truncated_env (demo_sender demo_start) demo_seg_end 300).
      switches_segment pg_consts s' rp' \<and> fst (open_segment pg_consts truncated_env rp') < 0 \<and>
      snd (open_segment pg_consts truncated_env rp') = ENOENT"
    using mem truncated_switch by (intro bexI [OF _ mem]) simp
  from t3 third
  have r3: "XLogRead pg_consts truncated_env (demo_sender demo_start) demo_seg_end 300
      = Inl WAL_REMOVED"
    by blast
  have len: "length (replicate 300 (0 :: byte)) = 300" by simp
  have seg: "fst (XLByteToSeg pg_consts demo_start) = fst (XLogGetLastRemoved recycled_env)"
    "snd (XLByteToSeg pg_consts demo_start) \<le> snd (XLogGetLastRemoved recycled_env)"
    by (simp_all add: XLByteToSeg_def recycled_env_sel demo_start_def pg_consts_sel)
  from t4 recycled_loop len seg
  have r4: "XLogRead pg_consts recycled_env (demo_sender demo_start) demo_start 300
      = Inl WAL_REMOVED"
    by blast
  from missing_switch r1 r2 truncated_turns truncated_switch r3 recycled_loop seg r4
  show ?thesis by (intro conjI) assumption+
qed

text \<open>
  C6.  If the flush after a frame was put on the wire fails, \<open>XLogSend\<close> returns false
  and updates nothing: \<open>sentPtr\<close>, the slot table and the log of shared-memory
  operations are as before the call.  A call that changed any of them returned true
  after a successful flush of the frame it had put on the wire.  After a successful
  flush the new \<open>sentPtr\<close>, which is also the value stored into the slot, is the end
  of that frame: the frame's \<open>dataStart\<close> advanced by the length of its payload, the
  bytes \<open>XLogRead\<close> delivered from \<open>dataStart\<close>; for the constants of a build and a
  flush position the writer can report it lies in the \<open>logId\<close> of \<open>dataStart\<close>
  and not beyond the flush position.  A call that finds nothing to send changes
  nothing.
\<close>

theorem XLogSend_flush_failure:
  assumes r: "XLogSend k env s = Inr (ok, caughtup, s')"
  shows "(pq_flush_fails env \<longrightarrow>
            (\<not> XLByteLE (GetFlushRecPtr env) (sentPtr s) \<longrightarrow> \<not> ok) \<and>
            sentPtr s' = sentPtr s \<and> WalSndCtl s' = WalSndCtl s \<and>
            shmem_log s' = shmem_log s) \<and>
         (sentPtr s' \<noteq> sentPtr s \<or> WalSndCtl s' \<noteq> WalSndCtl s \<or>
          shmem_log s' \<noteq> shmem_log s \<longrightarrow>
            ok \<and> \<not> pq_flush_fails env \<and> \<not> XLByteLE (GetFlushRecPtr env) (sentPtr s) \<and>
            (\<exists>hdr data. wire_out s' = wire_out s @
                           [PutMessage (CHR ''d'') (CHR ''w'') hdr data, Flush])) \<and>
         (\<not> XLByteLE (GetFlushRecPtr env) (sentPtr s) \<and> \<not> pq_flush_fails env \<longrightarrow>
            ok \<and>
            (\<exists>s1 data.
               XLogRead k env s (XLogSend_startptr k (sentPtr s)) (length data)
                 = Inr (s1, data) \<and>
               wire_out s' = wire_out s @
                 [PutMessage (CHR ''d'') (CHR ''w'')
                    \<lparr>dataStart = XLogSend_startptr k (sentPtr s),
                     walEnd = GetFlushRecPtr env,
                     sendTime = GetCurrentTimestamp env\<rparr> data, Flush] \<and>
               sentPtr s' =
                 fst (XLogSend_endptr k (XLogSend_startptr k (sentPtr s)) (GetFlushRecPtr env)) \<and>
               xrecoff (sentPtr s')
                 = xrecoff (XLogSend_startptr k (sentPtr s)) + of_nat (length data) \<and>
               WalSndCtl s' =
                 (case MyWalSnd s of None \<Rightarrow> WalSndCtl s
                  | Some i \<Rightarrow>
                      (WalSndCtl s)[i := (WalSndCtl s ! i)\<lparr>walsnd_sentPtr := sentPtr s'\<rparr>]) \<and>
               shmem_log s' = shmem_log s @
                 (case MyWalSnd s of None \<Rightarrow> []
                  | Some i \<Rightarrow>
                      [SpinLockAcquire i, WriteSentPtr i (sentPtr s'), SpinLockRelease i]))) \<and>
         (\<not> XLByteLE (GetFlushRecPtr env) (sentPtr s) \<and> \<not> pq_flush_fails env \<and>
          consts_ok k \<and> valid_pos k (GetFlushRecPtr env) \<longrightarrow>
            (\<exists>data.
               wire_out s' = wire_out s @
                 [PutMessage (CHR ''d'') (CHR ''w'')
                    \<lparr>dataStart = XLogSend_startptr k (sentPtr s),
                     walEnd = GetFlushRecPtr env,
                     sendTime = GetCurrentTimestamp env\<rparr> data, Flush] \<and>
               sentPtr s' =
                 \<lparr>xlogid = xlogid (XLogSend_startptr k (sentPtr s)),
                  xrecoff = xrecoff (XLogSend_startptr k (sentPtr s)) + of_nat (length data)\<rparr> \<and>
               unat (xrecoff (XLogSend_startptr k (sentPtr s))) + length data
                 = unat (xrecoff (sentPtr s')) \<and>
               XLByteLE (sentPtr s') (GetFlushRecPtr env))) \<and>
         (XLByteLE (GetFlushRecPtr env) (sentPtr s) \<longrightarrow> ok \<and> s' = s)"
proof (cases "XLByteLE (GetFlushRecPtr env) (sentPtr s)")
  case True
  with r have "s' = s" "ok" by (simp_all add: XLogSend_quick_exit)
  with True show ?thesis by simp
next
  case False
  let ?st = "XLogSend_startptr k (sentPtr s)"
  let ?req = "GetFlushRecPtr env"
  let ?frame = "\<lambda>data. [PutMessage (CHR ''d'') (CHR ''w'')
      \<lparr>dataStart = ?st, walEnd = ?req, sendTime = GetCurrentTimestamp env\<rparr> data, Flush]"
  from XLogSend_frame [OF r False] obtain data endptr where
    ep: "XLogSend_endptr k ?st ?req = (endptr, caughtup)"
    and len: "length data = unat (xrecoff endptr - xrecoff ?st)"
    and ok: "ok = (\<not> pq_flush_fails env)"
    and wire: "wire_out s' = wire_out s @ ?frame data"
    and sent: "sentPtr s' = (if ok then endptr else sentPtr s)"
    and log: "shmem_log s' = shmem_log s @
       (if ok then (case MyWalSnd s of None \<Rightarrow> []
                    | Some i \<Rightarrow> [SpinLockAcquire i, WriteSentPtr i endptr, SpinLockRelease i])
        else [])"
    and ctl: "WalSndCtl s' =
       (if ok then (case MyWalSnd s of None \<Rightarrow> WalSndCtl s
                    | Some i \<Rightarrow> (WalSndCtl s)[i := (WalSndCtl s ! i)\<lparr>walsnd_sentPtr := endptr\<rparr>])
        else WalSndCtl s)"
    by blast
  from XLogSend_frame_read [OF r False] obtain s1 data' where
    rd': "XLogRead k env s ?st (length data') = Inr (s1, data')"
    and wire': "wire_out s' = wire_out s @ ?frame data'"
    by blast
  from wire wire' have "data' = data" by simp
  with rd' have rd: "XLogRead k env s ?st (length data) = Inr (s1, data)" by simp
  have off: "xrecoff endptr = xrecoff ?st + of_nat (length data)"
    unfolding len by simp
  show ?thesis
  proof (cases "pq_flush_fails env")
    case True
    with False ok sent log ctl show ?thesis by simp
  next
    case nf: False
    with ok have okT: ok by simp
    from sent okT have sp: "sentPtr s' = endptr" by simp
    have one: "pq_flush_fails env \<longrightarrow>
            (\<not> XLByteLE ?req (sentPtr s) \<longrightarrow> \<not> ok) \<and>
            sentPtr s' = sentPtr s \<and> WalSndCtl s' = WalSndCtl s \<and>
            shmem_log s' = shmem_log s"
      using nf by simp
    have two: "sentPtr s' \<noteq> sentPtr s \<or> WalSndCtl s' \<noteq> WalSndCtl s \<or>
          shmem_log s' \<noteq> shmem_log s \<longrightarrow>
            ok \<and> \<not> pq_flush_fails env \<and> \<not> XLByteLE ?req (sentPtr s) \<and>
            (\<exists>hdr data. wire_out s' = wire_out s @
                           [PutMessage (CHR ''d'') (CHR ''w'') hdr data, Flush])"
      using nf okT False wire by blast
    have three: "\<not> XLByteLE ?req (sentPtr s) \<and> \<not> pq_flush_fails env \<longrightarrow>
            ok \<and>
            (\<exists>s1 data.
               XLogRead k env s ?st (length data) = Inr (s1, data) \<and>
               wire_out s' = wire_out s @ ?frame data \<and>
               sentPtr s' = fst (XLogSend_endptr k ?st ?req) \<and>
               xrecoff (sentPtr s') = xrecoff ?st + of_nat (length data) \<and>
               WalSndCtl s' =
                 (case MyWalSnd s of None \<Rightarrow> WalSndCtl s
                  | Some i \<Rightarrow>
                      (WalSndCtl s)[i := (WalSndCtl s ! i)\<lparr>walsnd_sentPtr := sentPtr s'\<rparr>]) \<and>
               shmem_log s' = shmem_log s @
                 (case MyWalSnd s of None \<Rightarrow> []
                  | Some i \<Rightarrow>
                      [SpinLockAcquire i, WriteSentPtr i (sentPtr s'), SpinLockRelease i]))"
    proof (intro impI conjI)
      show ok by (rule okT)
      have "XLogRead k env s ?st (length data) = Inr (s1, data) \<and>
               wire_out s' = wire_out s @ ?frame data \<and>
               sentPtr s' = fst (XLogSend_endptr k ?st ?req) \<and>
               xrecoff (sentPtr s') = xrecoff ?st + of_nat (length data) \<and>
               WalSndCtl s' =
                 (case MyWalSnd s of None \<Rightarrow> WalSndCtl s
                  | Some i \<Rightarrow>
                      (WalSndCtl s)[i := (WalSndCtl s ! i)\<lparr>walsnd_sentPtr := sentPtr s'\<rparr>]) \<and>
               shmem_log s' = shmem_log s @
                 (case MyWalSnd s of None \<Rightarrow> []
                  | Some i \<Rightarrow>
                      [SpinLockAcquire i, WriteSentPtr i (sentPtr s'), SpinLockRelease i])"
        using rd wire sp ep off ctl log okT by (simp split: option.split)
      then show "\<exists>s1 data.
               XLogRead k env s ?st (length data) = Inr (s1, data) \<and>
               wire_out s' = wire_out s @ ?frame data \<and>
               sentPtr s' = fst (XLogSend_endptr k ?st ?req) \<and>
               xrecoff (sentPtr s') = xrecoff ?st + of_nat (length data) \<and>
               WalSndCtl s' =
                 (case MyWalSnd s of None \<Rightarrow> WalSndCtl s
                  | Some i \<Rightarrow>
                      (WalSndCtl s)[i := (WalSndCtl s ! i)\<lparr>walsnd_sentPtr := sentPtr s'\<rparr>]) \<and>
               shmem_log s' = shmem_log s @
                 (case MyWalSnd s of None \<Rightarrow> []
                  | Some i \<Rightarrow>
                      [SpinLockAcquire i, WriteSentPtr i (sentPtr s'), SpinLockRelease i])"
        by blast
    qed
    have four: "\<not> XLByteLE ?req (sentPtr s) \<and> \<not> pq_flush_fails env \<and>
          consts_ok k \<and> valid_pos k ?req \<longrightarrow>
            (\<exists>data.
               wire_out s' = wire_out s @ ?frame data \<and>
               sentPtr s' =
                 \<lparr>xlogid = xlogid ?st, xrecoff = xrecoff ?st + of_nat (length data)\<rparr> \<and>
               unat (xrecoff ?st) + length data = unat (xrecoff (sentPtr s')) \<and>
               XLByteLE (sentPtr s') ?req)"
    proof
      assume h: "\<not> XLByteLE ?req (sentPtr s) \<and> \<not> pq_flush_fails env \<and>
          consts_ok k \<and> valid_pos k ?req"
      then have c: "consts_ok k" and v: "valid_pos k ?req" by simp_all
      from c have f: "0 < XLogFileSize k" by (simp add: consts_ok_def)
      note b = startptr_below [OF f, of "sentPtr s"]
      note le = startptr_le_req [OF v False]
      note fl = frame_length [OF c b le ep]
      from fl(1) off have "endptr =
          \<lparr>xlogid = xlogid ?st, xrecoff = xrecoff ?st + of_nat (length data)\<rparr>"
        by (cases endptr) simp
      with wire sp fl(2) [folded len] fl(5) show "\<exists>data.
               wire_out s' = wire_out s @ ?frame data \<and>
               sentPtr s' =
                 \<lparr>xlogid = xlogid ?st, xrecoff = xrecoff ?st + of_nat (length data)\<rparr> \<and>
               unat (xrecoff ?st) + length data = unat (xrecoff (sentPtr s')) \<and>
               XLByteLE (sentPtr s') ?req"
        by auto
    qed
    have five: "XLByteLE ?req (sentPtr s) \<longrightarrow> ok \<and> s' = s"
      using False by simp
    from one two three four five show ?thesis by (intro conjI) assumption+
  qed
qed

theorem XLogSend_flush_failure_witness:
  "XLogSend pg_consts (demo_env demo_req True) (demo_sender demo_start)
     = Inr (False, True, demo_framed) \<and>
   pq_flush_fails (demo_env demo_req True) \<and>
   sentPtr demo_framed = sentPtr (demo_sender demo_start) \<and>
   WalSndCtl demo_framed = WalSndCtl (demo_sender demo_start) \<and>
   shmem_log demo_framed = shmem_log (demo_sender demo_start) \<and>
   XLogSend pg_consts (demo_env demo_far False) stopping = Inr (True, False, stopping_behind) \<and>
   \<not> XLByteLE (GetFlushRecPtr (demo_env demo_far False)) (sentPtr stopping) \<and>
   \<not> pq_flush_fails (demo_env demo_far False) \<and>
   consts_ok pg_consts \<and> valid_pos pg_consts (GetFlushRecPtr (demo_env demo_far False)) \<and>
   sentPtr stopping_behind \<noteq> sentPtr stopping \<and>
   sentPtr stopping_behind = \<lparr>xlogid = 1, xrecoff = 131072\<rparr> \<and>
   map walsnd_sentPtr (WalSndCtl stopping_behind) = [\<lparr>xlogid = 1, xrecoff = 131072\<rparr>] \<and>
   sentPtr stopping_behind \<noteq> GetFlushRecPtr (demo_env demo_far False) \<and>
   (\<exists>s1 data.
      XLogRead pg_consts (demo_env demo_far False) stopping (XLogSend_startptr pg_consts (sentPtr stopping)) (length data)
        = Inr (s1, data) \<and>
      wire_out stopping_behind = wire_out stopping @
        [PutMessage (CHR ''d'') (CHR ''w'')
           \<lparr>dataStart = XLogSend_startptr pg_consts (sentPtr stopping),
            walEnd = GetFlushRecPtr (demo_env demo_far False),
            sendTime = GetCurrentTimestamp (demo_env demo_far False)\<rparr> data, Flush] \<and>
      sentPtr stopping_behind =
        fst (XLogSend_endptr pg_consts (XLogSend_startptr pg_consts (sentPtr stopping)) (GetFlushRecPtr (demo_env demo_far False))) \<and>
      xrecoff (sentPtr stopping_behind)
        = xrecoff (XLogSend_startptr pg_consts (sentPtr stopping)) + of_nat (length data) \<and>
      WalSndCtl stopping_behind =
        (case MyWalSnd stopping of None \<Rightarrow> WalSndCtl stopping
         | Some i \<Rightarrow>
             (WalSndCtl stopping)[i := (WalSndCtl stopping ! i)\<lparr>walsnd_sentPtr := sentPtr stopping_behind\<rparr>]) \<and>
      shmem_log stopping_behind = shmem_log stopping @
        (case MyWalSnd stopping of None \<Rightarrow> []
         | Some i \<Rightarrow>
             [SpinLockAcquire i, WriteSentPtr i (sentPtr stopping_behind), SpinLockRelease i])) \<and>
   (\<exists>data.
      wire_out stopping_behind = wire_out stopping @
        [PutMessage (CHR ''d'') (CHR ''w'')
           \<lparr>dataStart = XLogSend_startptr pg_consts (sentPtr stopping),
            walEnd = GetFlushRecPtr (demo_env demo_far False),
            sendTime = GetCurrentTimestamp (demo_env demo_far False)\<rparr> data, Flush] \<and>
      sentPtr stopping_behind =
        \<lparr>xlogid = xlogid (XLogSend_startptr pg_consts (sentPtr stopping)),
         xrecoff = xrecoff (XLogSend_startptr pg_consts (sentPtr stopping)) + of_nat (length data)\<rparr> \<and>
      unat (xrecoff (XLogSend_startptr pg_consts (sentPtr stopping))) + length data
        = unat (xrecoff (sentPtr stopping_behind)) \<and>
      XLByteLE (sentPtr stopping_behind) (GetFlushRecPtr (demo_env demo_far False))) \<and>
   XLogSend pg_consts (demo_env demo_start False) (demo_sender demo_start)
     = Inr (True, True, demo_sender demo_start) \<and>
   XLByteLE (GetFlushRecPtr (demo_env demo_start False)) (sentPtr (demo_sender demo_start))"
proof -
  have a: "XLogSend pg_consts (demo_env demo_req True) (demo_sender demo_start)
     = Inr (False, True, demo_framed)"
    by (simp add: demo_send)
  have f: "pq_flush_fails (demo_env demo_req True)" by (simp add: demo_env_sel)
  from XLogSend_flush_failure [OF a] f
  have c: "sentPtr demo_framed = sentPtr (demo_sender demo_start)"
    "WalSndCtl demo_framed = WalSndCtl (demo_sender demo_start)"
    "shmem_log demo_framed = shmem_log (demo_sender demo_start)"
    by blast+
  have nf: "\<not> pq_flush_fails (demo_env demo_far False)" by (simp add: demo_env_sel)
  have ne: "sentPtr stopping_behind \<noteq> sentPtr stopping"
    by (simp add: stopping_behind_sel demo_start_def)
  have nr: "sentPtr stopping_behind \<noteq> GetFlushRecPtr (demo_env demo_far False)"
    by (simp add: stopping_behind_sel demo_env_sel demo_far_def)
  note t = XLogSend_flush_failure [OF demo_send_behind]
  note t3 = t [THEN conjunct2, THEN conjunct2, THEN conjunct1]
  have three: "\<exists>s1 data.
      XLogRead pg_consts (demo_env demo_far False) stopping (XLogSend_startptr pg_consts (sentPtr stopping)) (length data)
        = Inr (s1, data) \<and>
      wire_out stopping_behind = wire_out stopping @
        [PutMessage (CHR ''d'') (CHR ''w'')
           \<lparr>dataStart = XLogSend_startptr pg_consts (sentPtr stopping),
            walEnd = GetFlushRecPtr (demo_env demo_far False),
            sendTime = GetCurrentTimestamp (demo_env demo_far False)\<rparr> data, Flush] \<and>
      sentPtr stopping_behind =
        fst (XLogSend_endptr pg_consts (XLogSend_startptr pg_consts (sentPtr stopping)) (GetFlushRecPtr (demo_env demo_far False))) \<and>
      xrecoff (sentPtr stopping_behind)
        = xrecoff (XLogSend_startptr pg_consts (sentPtr stopping)) + of_nat (length data) \<and>
      WalSndCtl stopping_behind =
        (case MyWalSnd stopping of None \<Rightarrow> WalSndCtl stopping
         | Some i \<Rightarrow>
             (WalSndCtl stopping)[i := (WalSndCtl stopping ! i)\<lparr>walsnd_sentPtr := sentPtr stopping_behind\<rparr>]) \<and>
      shmem_log stopping_behind = shmem_log stopping @
        (case MyWalSnd stopping of None \<Rightarrow> []
         | Some i \<Rightarrow>
             [SpinLockAcquire i, WriteSentPtr i (sentPtr stopping_behind), SpinLockRelease i])"
    by (rule mp [OF t3 conjI [OF stopping_is_behind nf], THEN conjunct2])
  note t4 = t [THEN conjunct2, THEN conjunct2, THEN conjunct2, THEN conjunct1]
  have four: "\<exists>data.
      wire_out stopping_behind = wire_out stopping @
        [PutMessage (CHR ''d'') (CHR ''w'')
           \<lparr>dataStart = XLogSend_startptr pg_consts (sentPtr stopping),
            walEnd = GetFlushRecPtr (demo_env demo_far False),
            sendTime = GetCurrentTimestamp (demo_env demo_far False)\<rparr> data, Flush] \<and>
      sentPtr stopping_behind =
        \<lparr>xlogid = xlogid (XLogSend_startptr pg_consts (sentPtr stopping)),
         xrecoff = xrecoff (XLogSend_startptr pg_consts (sentPtr stopping)) + of_nat (length data)\<rparr> \<and>
      unat (xrecoff (XLogSend_startptr pg_consts (sentPtr stopping))) + length data
        = unat (xrecoff (sentPtr stopping_behind)) \<and>
      XLByteLE (sentPtr stopping_behind) (GetFlushRecPtr (demo_env demo_far False))"
    by (rule mp [OF t4 conjI [OF stopping_is_behind
         conjI [OF nf conjI [OF pg_consts_ok demo_far_valid]]]])
  have le: "XLByteLE (GetFlushRecPtr (demo_env demo_start False)) (sentPtr (demo_sender demo_start))"
    by (simp add: XLByteLE_def demo_env_sel demo_sender_sel)
  have q: "XLogSend pg_consts (demo_env demo_start False) (demo_sender demo_start)
     = Inr (True, True, demo_sender demo_start)"
    by (rule XLogSend_quick_exit [OF le])
  from a f c demo_send_behind stopping_is_behind nf pg_consts_ok demo_far_valid ne
    stopping_behind_sel(1,3) nr three four q le
  show ?thesis by (intro conjI) assumption+
qed




text \<open>
  C8.  \<open>InitWalSnd\<close> scans the slot table in index order.  For the first slot whose
  \<open>pid\<close> is 0 it sets, under that slot's spinlock, \<open>pid\<close> to the caller's process
  id, \<open>sentPtr\<close> to (0, 0) and \<open>state\<close> to \<open>STARTUP\<close>, releases the spinlock, owns
  the latch and makes the slot its own; every used slot before it was locked, tested
  and unlocked.  If no slot has \<open>pid = 0\<close>, in particular when \<open>max_wal_senders\<close> is
  0, it fails with \<open>ERRCODE_TOO_MANY_CONNECTIONS\<close>.  (The table has
  \<open>max_wal_senders\<close> slots and the process has no slot yet.)
\<close>

theorem InitWalSnd_first_free_slot:
  assumes null: "MyWalSnd s = None"
    and size: "length (WalSndCtl s) = nat max_wal_senders"
  shows
    "(\<forall>i. i < length (WalSndCtl s) \<and> pid (WalSndCtl s ! i) = 0 \<and>
          (\<forall>j < i. pid (WalSndCtl s ! j) \<noteq> 0) \<longrightarrow>
        InitWalSnd MyProcPid max_wal_senders s =
          Inr (s\<lparr>WalSndCtl := (WalSndCtl s)
                     [i := (WalSndCtl s ! i)
                        \<lparr>pid := MyProcPid,
                         walsnd_sentPtr := \<lparr>xlogid = 0, xrecoff = 0\<rparr>,
                         state := WALSNDSTATE_STARTUP,
                         latch_owner := MyProcPid\<rparr>],
                 shmem_log := shmem_log s @
                     concat (map (\<lambda>j. [SpinLockAcquire j, SpinLockRelease j]) [0..<i]) @
                     [SpinLockAcquire i, WriteSentPtr i \<lparr>xlogid = 0, xrecoff = 0\<rparr>,
                      SpinLockRelease i, OwnLatch i],
                 MyWalSnd := Some i\<rparr>)) \<and>
     ((\<forall>i < length (WalSndCtl s). pid (WalSndCtl s ! i) \<noteq> 0) \<longrightarrow>
        InitWalSnd MyProcPid max_wal_senders s = Inl ERRCODE_TOO_MANY_CONNECTIONS) \<and>
     (max_wal_senders = 0 \<longrightarrow>
        InitWalSnd MyProcPid max_wal_senders s = Inl ERRCODE_TOO_MANY_CONNECTIONS)"
proof -
  let ?skip = "\<lambda>i. concat (map (\<lambda>j. [SpinLockAcquire j, SpinLockRelease j]) [0..<i])"
  have free: "InitWalSnd MyProcPid max_wal_senders s =
          Inr (s\<lparr>WalSndCtl := (WalSndCtl s)
                     [i := (WalSndCtl s ! i)
                        \<lparr>pid := MyProcPid,
                         walsnd_sentPtr := \<lparr>xlogid = 0, xrecoff = 0\<rparr>,
                         state := WALSNDSTATE_STARTUP,
                         latch_owner := MyProcPid\<rparr>],
                 shmem_log := shmem_log s @ ?skip i @
                     [SpinLockAcquire i, WriteSentPtr i \<lparr>xlogid = 0, xrecoff = 0\<rparr>,
                      SpinLockRelease i, OwnLatch i],
                 MyWalSnd := Some i\<rparr>)"
    if i: "i < length (WalSndCtl s) \<and> pid (WalSndCtl s ! i) = 0 \<and>
          (\<forall>j < i. pid (WalSndCtl s ! j) \<noteq> 0)" for i
  proof -
    from i size have lt: "int i < max_wal_senders" by linarith
    from i have used: "\<forall>j. 0 \<le> j \<and> j < i \<longrightarrow> pid (WalSndCtl s ! j) \<noteq> 0" by simp
    from lt have bound: "int i \<le> max_wal_senders" by simp
    let ?s = "s\<lparr>shmem_log := shmem_log s @ ?skip i\<rparr>"
    from i have fr: "pid (WalSndCtl ?s ! i) = 0" by simp
    have "InitWalSnd_scan MyProcPid max_wal_senders 0 s
        = InitWalSnd_scan MyProcPid max_wal_senders i ?s"
      by (rule InitWalSnd_scan_skip [OF used _ bound]) simp
    also note InitWalSnd_scan_free [OF lt fr]
    finally show ?thesis by (simp add: InitWalSnd_def)
  qed
  have full: "InitWalSnd MyProcPid max_wal_senders s = Inl ERRCODE_TOO_MANY_CONNECTIONS"
    if all: "\<forall>i < length (WalSndCtl s). pid (WalSndCtl s ! i) \<noteq> 0"
  proof -
    let ?n = "nat max_wal_senders"
    from all size have used: "\<forall>j. 0 \<le> j \<and> j < ?n \<longrightarrow> pid (WalSndCtl s ! j) \<noteq> 0"
      by simp
    show ?thesis
    proof (cases "0 \<le> max_wal_senders")
      case True
      then have bound: "int ?n \<le> max_wal_senders" and stop: "max_wal_senders \<le> int ?n"
        by simp_all
      have "InitWalSnd_scan MyProcPid max_wal_senders 0 s
          = InitWalSnd_scan MyProcPid max_wal_senders ?n
              (s\<lparr>shmem_log := shmem_log s @ ?skip ?n\<rparr>)"
        by (rule InitWalSnd_scan_skip [OF used _ bound]) simp
      also note InitWalSnd_scan_end [OF stop]
      finally show ?thesis using null by (simp add: InitWalSnd_def)
    next
      case False
      then have "max_wal_senders \<le> int 0" by simp
      from InitWalSnd_scan_end [OF this] null show ?thesis
        by (simp add: InitWalSnd_def)
    qed
  qed
  have none: "InitWalSnd MyProcPid max_wal_senders s = Inl ERRCODE_TOO_MANY_CONNECTIONS"
    if "max_wal_senders = 0"
    using that size full by simp
  from free full none show ?thesis by blast
qed

theorem InitWalSnd_first_free_slot_witness:
  "MyWalSnd (forked [demo_slot 10, demo_slot 0, demo_slot 0]) = None \<and>
   length (WalSndCtl (forked [demo_slot 10, demo_slot 0, demo_slot 0])) = nat 3 \<and>
   InitWalSnd 4711 3 (forked [demo_slot 10, demo_slot 0, demo_slot 0]) =
     Inr ((forked [demo_slot 10, demo_slot 0, demo_slot 0])
            \<lparr>WalSndCtl :=
               [demo_slot 10,
                (demo_slot 0)\<lparr>pid := 4711, walsnd_sentPtr := \<lparr>xlogid = 0, xrecoff = 0\<rparr>,
                               state := WALSNDSTATE_STARTUP, latch_owner := 4711\<rparr>,
                demo_slot 0],
             shmem_log :=
               [SpinLockAcquire 0, SpinLockRelease 0,
                SpinLockAcquire 1, WriteSentPtr 1 \<lparr>xlogid = 0, xrecoff = 0\<rparr>,
                SpinLockRelease 1, OwnLatch 1],
             MyWalSnd := Some 1\<rparr>) \<and>
   MyWalSnd (forked []) = None \<and> length (WalSndCtl (forked [])) = nat 0 \<and>
   InitWalSnd 4711 0 (forked []) = Inl ERRCODE_TOO_MANY_CONNECTIONS"
proof -
  let ?s = "forked [demo_slot 10, demo_slot 0, demo_slot 0]"
  have h1: "MyWalSnd ?s = None" by (simp add: forked_sel)
  have h2: "length (WalSndCtl ?s) = nat 3" by (simp add: forked_sel)
  have first: "Suc 0 < length (WalSndCtl ?s) \<and> pid (WalSndCtl ?s ! Suc 0) = 0 \<and>
      (\<forall>j < Suc 0. pid (WalSndCtl ?s ! j) \<noteq> 0)"
    by (simp add: forked_sel demo_slot_def)
  from InitWalSnd_first_free_slot [OF h1 h2, of 4711] first
  have "InitWalSnd 4711 3 ?s =
          Inr (?s\<lparr>WalSndCtl := (WalSndCtl ?s)
                     [Suc 0 := (WalSndCtl ?s ! Suc 0)
                        \<lparr>pid := 4711,
                         walsnd_sentPtr := \<lparr>xlogid = 0, xrecoff = 0\<rparr>,
                         state := WALSNDSTATE_STARTUP,
                         latch_owner := 4711\<rparr>],
                 shmem_log := shmem_log ?s @
                     concat (map (\<lambda>j. [SpinLockAcquire j, SpinLockRelease j]) [0..<Suc 0]) @
                     [SpinLockAcquire (Suc 0), WriteSentPtr (Suc 0) \<lparr>xlogid = 0, xrecoff = 0\<rparr>,
                      SpinLockRelease (Suc 0), OwnLatch (Suc 0)],
                 MyWalSnd := Some (Suc 0)\<rparr>)"
    by blast
  then have a: "InitWalSnd 4711 3 ?s =
     Inr (?s\<lparr>WalSndCtl :=
               [demo_slot 10,
                (demo_slot 0)\<lparr>pid := 4711, walsnd_sentPtr := \<lparr>xlogid = 0, xrecoff = 0\<rparr>,
                               state := WALSNDSTATE_STARTUP, latch_owner := 4711\<rparr>,
                demo_slot 0],
             shmem_log :=
               [SpinLockAcquire 0, SpinLockRelease 0,
                SpinLockAcquire 1, WriteSentPtr 1 \<lparr>xlogid = 0, xrecoff = 0\<rparr>,
                SpinLockRelease 1, OwnLatch 1],
             MyWalSnd := Some 1\<rparr>)"
    by (simp add: forked_sel)
  have g1: "MyWalSnd (forked []) = None" by (simp add: forked_sel)
  have g2: "length (WalSndCtl (forked [])) = nat 0" by (simp add: forked_sel)
  from InitWalSnd_first_free_slot [OF g1 g2, of 4711]
  have b: "InitWalSnd 4711 0 (forked []) = Inl ERRCODE_TOO_MANY_CONNECTIONS" by blast
  from h1 h2 a g1 g2 b show ?thesis by blast
qed

text \<open>
  C9.  The dispatch of the handshake on \<open>firstchar\<close> is total and exact: \<open>'X'\<close> ends
  the process with \<open>proc_exit(0)\<close>; \<open>EOF\<close> logs a protocol violation and ends it
  with \<open>proc_exit(0)\<close>; any value other than \<open>'Q'\<close>, \<open>'X'\<close> and \<open>EOF\<close> is a
  fatal \<open>ERRCODE_PROTOCOL_VIOLATION\<close>; \<open>'Q'\<close> runs the replication command.  One
  turn of the handshake loop is this dispatch on the byte read, when the postmaster is
  alive and the message after the byte could be read.
\<close>

theorem handshake_dispatch_cases:
  "(firstchar = of_char (CHR ''X'') \<longrightarrow>
      handshake_dispatch ev firstchar msg s = End (ProcExit 0) s) \<and>
   (firstchar = EOF \<longrightarrow>
      handshake_dispatch ev firstchar msg s =
        End (ProcExit 0)
          (s\<lparr>server_log := server_log s @
               [(ERRCODE_PROTOCOL_VIOLATION, ''unexpected EOF on standby connection'')]\<rparr>)) \<and>
   (firstchar \<noteq> of_char (CHR ''Q'') \<and> firstchar \<noteq> of_char (CHR ''X'') \<and> firstchar \<noteq> EOF
      \<longrightarrow> handshake_dispatch ev firstchar msg s = End (Fatal ERRCODE_PROTOCOL_VIOLATION) s) \<and>
   (firstchar = of_char (CHR ''Q'') \<longrightarrow>
      handshake_dispatch ev firstchar msg s =
        (case HandleReplicationCommand ev msg s of
           Inl e \<Rightarrow> End e s
         | Inr (replication_started, s') \<Rightarrow> Go replication_started s')) \<and>
   (hs_PostmasterIsAlive ev \<and> pq_getbyte ev = firstchar \<and>
    (firstchar = EOF \<or> pq_getmessage ev = Some msg) \<longrightarrow>
      WalSndHandshake_body ev s =
        handshake_dispatch ev firstchar msg
          (if got_SIGHUP (WalSndSetState WALSNDSTATE_STARTUP s)
           then (WalSndSetState WALSNDSTATE_STARTUP s)\<lparr>got_SIGHUP := False\<rparr>
           else WalSndSetState WALSNDSTATE_STARTUP s))"
proof -
  have x: "firstchar = of_char (CHR ''X'') \<longrightarrow>
      handshake_dispatch ev firstchar msg s = End (ProcExit 0) s"
    by (simp add: handshake_dispatch_def)
  have e: "firstchar = EOF \<longrightarrow>
      handshake_dispatch ev firstchar msg s =
        End (ProcExit 0)
          (s\<lparr>server_log := server_log s @
               [(ERRCODE_PROTOCOL_VIOLATION, ''unexpected EOF on standby connection'')]\<rparr>)"
    by (simp add: handshake_dispatch_def EOF_def)
  have o: "firstchar \<noteq> of_char (CHR ''Q'') \<and> firstchar \<noteq> of_char (CHR ''X'') \<and>
      firstchar \<noteq> EOF
      \<longrightarrow> handshake_dispatch ev firstchar msg s = End (Fatal ERRCODE_PROTOCOL_VIOLATION) s"
    by (simp add: handshake_dispatch_def)
  have q: "firstchar = of_char (CHR ''Q'') \<longrightarrow>
      handshake_dispatch ev firstchar msg s =
        (case HandleReplicationCommand ev msg s of
           Inl e \<Rightarrow> End e s
         | Inr (replication_started, s') \<Rightarrow> Go replication_started s')"
    by (simp add: handshake_dispatch_def)
  have eof_msg: "handshake_dispatch ev EOF m t = handshake_dispatch ev EOF msg t" for m t
    by (simp add: handshake_dispatch_def EOF_def)
  have b: "hs_PostmasterIsAlive ev \<and> pq_getbyte ev = firstchar \<and>
    (firstchar = EOF \<or> pq_getmessage ev = Some msg) \<longrightarrow>
      WalSndHandshake_body ev s =
        handshake_dispatch ev firstchar msg
          (if got_SIGHUP (WalSndSetState WALSNDSTATE_STARTUP s)
           then (WalSndSetState WALSNDSTATE_STARTUP s)\<lparr>got_SIGHUP := False\<rparr>
           else WalSndSetState WALSNDSTATE_STARTUP s)"
    using eof_msg by (auto simp: WalSndHandshake_body_def Let_def)
  from x e o q b show ?thesis by blast
qed

theorem handshake_dispatch_cases_witness:
  "handshake_dispatch (demo_handshake_env 88 (Some [])) 88 [] (forked [demo_slot 0])
     = End (ProcExit 0) (forked [demo_slot 0]) \<and>
   handshake_dispatch (demo_handshake_env (- 1) None) (- 1) [] (forked [demo_slot 0])
     = End (ProcExit 0)
         ((forked [demo_slot 0])
            \<lparr>server_log := server_log (forked [demo_slot 0]) @
               [(ERRCODE_PROTOCOL_VIOLATION, ''unexpected EOF on standby connection'')]\<rparr>) \<and>
   (90 :: int) \<noteq> of_char (CHR ''Q'') \<and> (90 :: int) \<noteq> of_char (CHR ''X'') \<and>
   (90 :: int) \<noteq> EOF \<and>
   handshake_dispatch (demo_handshake_env 90 (Some [])) 90 [] (forked [demo_slot 0])
     = End (Fatal ERRCODE_PROTOCOL_VIOLATION) (forked [demo_slot 0])"
proof -
  have x: "(88 :: int) = of_char (CHR ''X'')" by simp
  have e: "(- 1 :: int) = EOF" by (simp add: EOF_def)
  have o: "(90 :: int) \<noteq> of_char (CHR ''Q'')" "(90 :: int) \<noteq> of_char (CHR ''X'')"
    "(90 :: int) \<noteq> EOF"
    by (simp_all add: EOF_def)
  from handshake_dispatch_cases
         [of 88 "demo_handshake_env 88 (Some [])" "[]" "forked [demo_slot 0]"] x
  have a: "handshake_dispatch (demo_handshake_env 88 (Some [])) 88 [] (forked [demo_slot 0])
     = End (ProcExit 0) (forked [demo_slot 0])"
    by blast
  from handshake_dispatch_cases
         [of "- 1" "demo_handshake_env (- 1) None" "[]" "forked [demo_slot 0]"] e
  have b: "handshake_dispatch (demo_handshake_env (- 1) None) (- 1) [] (forked [demo_slot 0])
     = End (ProcExit 0)
         ((forked [demo_slot 0])
            \<lparr>server_log := server_log (forked [demo_slot 0]) @
               [(ERRCODE_PROTOCOL_VIOLATION, ''unexpected EOF on standby connection'')]\<rparr>)"
    by blast
  from handshake_dispatch_cases
         [of 90 "demo_handshake_env 90 (Some [])" "[]" "forked [demo_slot 0]"] o
  have c: "handshake_dispatch (demo_handshake_env 90 (Some [])) 90 [] (forked [demo_slot 0])
     = End (Fatal ERRCODE_PROTOCOL_VIOLATION) (forked [demo_slot 0])"
    by blast
  from a b c o show ?thesis by blast
qed

text \<open>
  C10.  When \<open>sentPtr\<close> is \<open>(L, XLogFileSize)\<close> and the flush position is
  \<open>(L + 1, 0)\<close> (with \<open>L + 1\<close> a \<open>logId\<close>, that is, not wrapped to 0), the quick exit
  is not taken, since the comparison uses \<open>sentPtr\<close> as it is before the skip of the
  reserved segment; when the start segment has not been removed and the flush
  succeeds, \<open>XLogSend\<close> puts a frame with no WAL bytes on the wire, with
  \<open>dataStart = walEnd = (L + 1, 0)\<close>, reports \<open>caughtup\<close> and stores \<open>(L + 1, 0)\<close>
  in \<open>sentPtr\<close> and in the slot.
\<close>

theorem XLogSend_at_logid_boundary:
  assumes sp: "sentPtr s = \<lparr>xlogid = L, xrecoff = XLogFileSize k\<rparr>"
    and rq: "GetFlushRecPtr env = \<lparr>xlogid = L + 1, xrecoff = 0\<rparr>"
    and nw: "L + 1 \<noteq> 0"
    and nr: "\<not> already_removed k env \<lparr>xlogid = L + 1, xrecoff = 0\<rparr>"
    and fl: "\<not> pq_flush_fails env"
  shows "\<not> XLByteLE (GetFlushRecPtr env) (sentPtr s) \<and>
     XLogSend k env s =
       Inr (True, True,
            publish_sentPtr
              (s\<lparr>wire_out := wire_out s @
                    [PutMessage (CHR ''d'') (CHR ''w'')
                       \<lparr>dataStart = \<lparr>xlogid = L + 1, xrecoff = 0\<rparr>,
                        walEnd = \<lparr>xlogid = L + 1, xrecoff = 0\<rparr>,
                        sendTime = GetCurrentTimestamp env\<rparr> [], Flush],
                  sentPtr := \<lparr>xlogid = L + 1, xrecoff = 0\<rparr>\<rparr>))"
proof -
  let ?next = "\<lparr>xlogid = L + 1, xrecoff = 0\<rparr>"
  from nw have "L < L + 1" by unat_arith
  then have lt: "\<not> XLByteLE (GetFlushRecPtr env) (sentPtr s)"
    by (auto simp: XLByteLE_def sp rq)
  have st: "XLogSend_startptr k (sentPtr s) = ?next"
    by (simp add: XLogSend_startptr_def sp)
  have "xlogid (XLogSend_advance k ?next) = L + 1"
    by (simp add: XLogSend_advance_def Let_def)
  then have "XLByteLE ?next (XLogSend_advance k ?next)"
    by (simp add: XLByteLE_def)
  then have ep: "XLogSend_endptr k (XLogSend_startptr k (sentPtr s)) (GetFlushRecPtr env)
      = (?next, True)"
    by (simp add: XLogSend_endptr_def Let_def st rq)
  have rd: "XLogRead k env s ?next 0 = Inr (s, [])"
    using nr by (simp add: XLogRead_nothing)
  from XLogSend_unfold [OF lt ep] rd fl st rq
  have "XLogSend k env s =
       Inr (True, True,
            publish_sentPtr
              (s\<lparr>wire_out := wire_out s @
                    [PutMessage (CHR ''d'') (CHR ''w'')
                       \<lparr>dataStart = ?next, walEnd = ?next,
                        sendTime = GetCurrentTimestamp env\<rparr> [], Flush],
                  sentPtr := ?next\<rparr>))"
    by simp
  with lt show ?thesis by simp
qed

theorem XLogSend_at_logid_boundary_witness:
  "sentPtr (demo_sender \<lparr>xlogid = 1, xrecoff = XLogFileSize pg_consts\<rparr>)
     = \<lparr>xlogid = 1, xrecoff = XLogFileSize pg_consts\<rparr> \<and>
   GetFlushRecPtr (demo_env \<lparr>xlogid = 1 + 1, xrecoff = 0\<rparr> False)
     = \<lparr>xlogid = 1 + 1, xrecoff = 0\<rparr> \<and>
   (1 :: uint32) + 1 \<noteq> 0 \<and>
   \<not> already_removed pg_consts (demo_env \<lparr>xlogid = 1 + 1, xrecoff = 0\<rparr> False)
       \<lparr>xlogid = 1 + 1, xrecoff = 0\<rparr> \<and>
   \<not> pq_flush_fails (demo_env \<lparr>xlogid = 1 + 1, xrecoff = 0\<rparr> False) \<and>
   XLogSend pg_consts (demo_env \<lparr>xlogid = 1 + 1, xrecoff = 0\<rparr> False)
       (demo_sender \<lparr>xlogid = 1, xrecoff = XLogFileSize pg_consts\<rparr>) =
     Inr (True, True,
          publish_sentPtr
            ((demo_sender \<lparr>xlogid = 1, xrecoff = XLogFileSize pg_consts\<rparr>)
               \<lparr>wire_out :=
                  wire_out (demo_sender \<lparr>xlogid = 1, xrecoff = XLogFileSize pg_consts\<rparr>) @
                  [PutMessage (CHR ''d'') (CHR ''w'')
                     \<lparr>dataStart = \<lparr>xlogid = 1 + 1, xrecoff = 0\<rparr>,
                      walEnd = \<lparr>xlogid = 1 + 1, xrecoff = 0\<rparr>,
                      sendTime = GetCurrentTimestamp
                        (demo_env \<lparr>xlogid = 1 + 1, xrecoff = 0\<rparr> False)\<rparr> [], Flush],
                sentPtr := \<lparr>xlogid = 1 + 1, xrecoff = 0\<rparr>\<rparr>))"
proof -
  let ?s = "demo_sender \<lparr>xlogid = 1, xrecoff = XLogFileSize pg_consts\<rparr>"
  let ?env = "demo_env \<lparr>xlogid = 1 + 1, xrecoff = 0\<rparr> False"
  have h1: "sentPtr ?s = \<lparr>xlogid = 1, xrecoff = XLogFileSize pg_consts\<rparr>"
    by (simp add: demo_sender_sel)
  have h2: "GetFlushRecPtr ?env = \<lparr>xlogid = 1 + 1, xrecoff = 0\<rparr>"
    by (simp add: demo_env_sel)
  have h3: "(1 :: uint32) + 1 \<noteq> 0" by simp
  have h4: "\<not> already_removed pg_consts ?env \<lparr>xlogid = 1 + 1, xrecoff = 0\<rparr>"
    by (simp add: already_removed_def XLByteToSeg_def demo_env_sel)
  have h5: "\<not> pq_flush_fails ?env" by (simp add: demo_env_sel)
  from XLogSend_at_logid_boundary [OF h1 h2 h3 h4 h5] h1 h2 h3 h4 h5
  show ?thesis by blast
qed

end
